(* ===== verification/Prelude.thy ===== *)
theory Prelude
  imports Main "HOL-Library.Word"
begin

text \<open>
  Shared vocabulary of the development: the types that name the values the
  scripts under \<^verbatim>\<open>src/\<close> handle (SS58 addresses, asset and pool ids, balances
  as the unbounded integers of bn.js, the chain's 128-bit balance type), the
  check that the polkadot.js codec applies when it encodes a balance, and the
  generic lemmas on lists, folds and words that the component theories share.
\<close>

section \<open>Names for the model's types\<close>

type_synonym account = string     \<comment> \<open>an SS58 address, as the scripts write it\<close>
type_synonym asset_id = nat       \<comment> \<open>\<^verbatim>\<open>id: number\<close> of an asset descriptor\<close>
type_synonym pool_id = nat        \<comment> \<open>\<^verbatim>\<open>poolId: number\<close>\<close>
type_synonym balance = nat        \<comment> \<open>a \<^verbatim>\<open>BN\<close>: arbitrary precision, never negative here\<close>
type_synonym block_hash = nat     \<comment> \<open>\<^verbatim>\<open>status.asInBlock\<close>, only printed\<close>
type_synonym u128 = "128 word"    \<comment> \<open>the runtime's \<^verbatim>\<open>Balance\<close> type\<close>

text \<open>
  What a script prints. \<^verbatim>\<open>console.log\<close> and \<^verbatim>\<open>console.error\<close> lines are kept
  apart; a line that prints a queried chain value (\<^verbatim>\<open>.toJSON()\<close> of an
  \<^verbatim>\<open>Option\<close>) carries the value, \<open>None\<close> for JSON \<^verbatim>\<open>null\<close>. The emoji
  that open the source's lines are left out of the text.
\<close>

datatype query_value =
    QAssetAccount balance            \<comment> \<open>\<^verbatim>\<open>assets.account(id, who)\<close>: the balance field\<close>
  | QMetadata string string nat      \<comment> \<open>\<^verbatim>\<open>assets.metadata(id)\<close>: name, symbol, decimals\<close>

datatype log_entry = Log string | LogError string | LogValue string "query_value option"

text \<open>Decimal rendering of a number in a template literal.\<close>

fun show_nat :: "nat \<Rightarrow> string" where
  "show_nat n =
     (if n < 10 then [char_of (48 + n)] else show_nat (n div 10) @ [char_of (48 + n mod 10)])"

declare show_nat.simps [simp del]

named_theorems script_simps \<open>equations that evaluate the script models step by step\<close>

section \<open>The 128-bit balance codec\<close>

text \<open>
  polkadot.js encodes every balance argument of a call as a \<^verbatim>\<open>u128\<close>: a \<^verbatim>\<open>BN\<close>
  that needs more than 128 bits is refused when the extrinsic is built.
\<close>

definition fits_u128 :: "nat \<Rightarrow> bool" where
  "fits_u128 n \<longleftrightarrow> n < 2 ^ 128"

definition encode_u128 :: "nat \<Rightarrow> u128 option" where
  "encode_u128 n = (if fits_u128 n then Some (word_of_nat n) else None)"

lemma unat_word_of_nat_u128 [simp]:
  "n < 2 ^ 128 \<Longrightarrow> unat (word_of_nat n :: u128) = n"
  by (simp add: unat_of_nat)

lemma encode_u128_Some_iff:
  "encode_u128 n = Some w \<longleftrightarrow> fits_u128 n \<and> unat w = n"
proof
  assume "encode_u128 n = Some w"
  then show "fits_u128 n \<and> unat w = n"
    by (auto simp: encode_u128_def fits_u128_def split: if_splits)
next
  assume "fits_u128 n \<and> unat w = n"
  then show "encode_u128 n = Some w"
    by (auto simp: encode_u128_def fits_u128_def)
qed

lemma encode_u128_None_iff [simp]:
  "encode_u128 n = None \<longleftrightarrow> \<not> fits_u128 n"
  by (simp add: encode_u128_def)

section \<open>Folds whose first component settles\<close>

text \<open>
  A subscription callback is folded over the status updates of a submission.
  Once the first component of the accumulator (the promise) has a value that
  every step keeps, the rest of the fold leaves it alone.
\<close>

lemma fold_fst_stable:
  assumes keep: "\<And>x t. fst t = a \<Longrightarrow> fst (f x t) = a"
  shows "fst s = a \<Longrightarrow> fst (fold f xs s) = a"
proof (induction xs arbitrary: s)
  case Nil
  then show ?case by simp
next
  case (Cons x xs)
  from Cons.prems have "fst (f x s) = a" by (rule keep)
  then show ?case by (simp add: Cons.IH)
qed

lemma find_Some_mem:
  "find P xs = Some x \<Longrightarrow> x \<in> set xs \<and> P x"
  by (induction xs) (auto split: if_splits)

lemma fold_append_apply:
  "fold f (xs @ ys) s = fold f ys (fold f xs s)"
  by simp

section \<open>Powers of ten\<close>

lemma pow10_mono:
  "d \<le> e \<Longrightarrow> (10::nat) ^ d \<le> 10 ^ e"
  by (rule power_increasing) simp_all

lemma mult_pow10_le:
  "a \<le> b \<Longrightarrow> d \<le> e \<Longrightarrow> a * (10::nat) ^ d \<le> b * 10 ^ e"
  by (rule mult_le_mono) (simp_all add: pow10_mono)

end
