(* ===== verification/Units.thy ===== *)
theory Units
  imports Prelude
begin

text \<open>
  The conversion of a whole-token amount to chain units,
  \<^verbatim>\<open>toChainUnits(amount, decimals)\<close> of \<^verbatim>\<open>src/full-setup-sudo.ts\<close> (lines 28--30), its copy in
  \<^verbatim>\<open>src/lending-pool/mint-transfer.ts\<close> (lines 19--21), and the
  inline \<^verbatim>\<open>new BN(10_000).mul(new BN(10).pow(new BN(decimals)))\<close> of
  \<^verbatim>\<open>src/create-lending-pool.ts\<close> line 59. Both build bn.js numbers from
  JavaScript numbers: \<^verbatim>\<open>new BN(n)\<close> asserts \<open>n < 2^53\<close> and throws otherwise;
  \<^verbatim>\<open>mul\<close> and \<^verbatim>\<open>pow\<close> are exact on unbounded integers.
\<close>

datatype bn_error = BnAssertionFailed

text \<open>\<^verbatim>\<open>new BN(n)\<close> for a non-negative integral JavaScript number.\<close>

definition bn_of_number :: "nat \<Rightarrow> bn_error + nat" where
  "bn_of_number n = (if n < 2 ^ 53 then Inr n else Inl BnAssertionFailed)"

definition toChainUnits :: "nat \<Rightarrow> nat \<Rightarrow> bn_error + balance" where
  "toChainUnits amount decimals =
     (case bn_of_number amount of
        Inl e \<Rightarrow> Inl e
      | Inr a \<Rightarrow>
          (case bn_of_number 10 of
             Inl e \<Rightarrow> Inl e
           | Inr ten \<Rightarrow>
               (case bn_of_number decimals of
                  Inl e \<Rightarrow> Inl e
                | Inr d \<Rightarrow> Inr (a * ten ^ d))))"

text \<open>\<^verbatim>\<open>toChainUnits\<close> of \<^verbatim>\<open>src/lending-pool/mint-transfer.ts\<close>, lines 19--21, which
  builds its numbers with the \<^verbatim>\<open>BN\<close> of \<^verbatim>\<open>bn.js\<close> itself (the other scripts take
  the re-export of \<^verbatim>\<open>@polkadot/util\<close>).\<close>

definition mt_toChainUnits :: "nat \<Rightarrow> nat \<Rightarrow> bn_error + balance" where
  "mt_toChainUnits amount decimals =
     (case bn_of_number amount of
        Inl e \<Rightarrow> Inl e
      | Inr a \<Rightarrow>
          (case bn_of_number 10 of
             Inl e \<Rightarrow> Inl e
           | Inr ten \<Rightarrow>
               (case bn_of_number decimals of
                  Inl e \<Rightarrow> Inl e
                | Inr d \<Rightarrow> Inr (a * ten ^ d))))"

text \<open>The inline pool amount of \<^verbatim>\<open>src/create-lending-pool.ts\<close>, line 59.\<close>

definition clp_pool_amount :: "nat \<Rightarrow> bn_error + balance" where
  "clp_pool_amount decimals =
     (case bn_of_number 10000 of
        Inl e \<Rightarrow> Inl e
      | Inr a \<Rightarrow>
          (case bn_of_number 10 of
             Inl e \<Rightarrow> Inl e
           | Inr ten \<Rightarrow>
               (case bn_of_number decimals of
                  Inl e \<Rightarrow> Inl e
                | Inr d \<Rightarrow> Inr (a * ten ^ d))))"

section \<open>Lemmas\<close>

lemma bn_of_number_small [simp]:
  "n < 2 ^ 53 \<Longrightarrow> bn_of_number n = Inr n"
  by (simp add: bn_of_number_def)

lemma bn_of_number_large [simp]:
  "2 ^ 53 \<le> n \<Longrightarrow> bn_of_number n = Inl BnAssertionFailed"
  by (simp add: bn_of_number_def)

lemma bn_of_number_ten [simp]: "bn_of_number 10 = Inr 10"
  by (simp add: bn_of_number_def)

lemma mt_toChainUnits_toChainUnits: "mt_toChainUnits amount decimals = toChainUnits amount decimals"
  by (simp add: mt_toChainUnits_def toChainUnits_def)

lemma bn_of_number_10000 [simp]: "bn_of_number 10000 = Inr 10000"
  by (simp add: bn_of_number_def)

lemma toChainUnits_Inr_iff:
  "toChainUnits amount decimals = Inr v \<longleftrightarrow>
     amount < 2 ^ 53 \<and> decimals < 2 ^ 53 \<and> v = amount * 10 ^ decimals"
  by (auto simp: toChainUnits_def bn_of_number_def split: if_splits)

lemma toChainUnits_small:
  "amount < 2 ^ 53 \<Longrightarrow> decimals < 2 ^ 53 \<Longrightarrow>
     toChainUnits amount decimals = Inr (amount * 10 ^ decimals)"
  by (simp add: toChainUnits_Inr_iff)

text \<open>The amounts the scripts pass: 1\,000\,000 and 10\,000 whole tokens.\<close>

lemma toChainUnits_literal [simp]:
  "decimals < 2 ^ 53 \<Longrightarrow> toChainUnits 1000000 decimals = Inr (1000000 * 10 ^ decimals)"
  "decimals < 2 ^ 53 \<Longrightarrow> toChainUnits 10000 decimals = Inr (10000 * 10 ^ decimals)"
  by (simp_all add: toChainUnits_small)

section \<open>Properties\<close>

text \<open>
  C7. \<^verbatim>\<open>toChainUnits\<close> is exact: for every amount and decimals that bn.js accepts
  (below \<open>2^53\<close>), it returns the integer \<open>amount \<cdot> 10^decimals\<close>, with no
  rounding at any number of decimals.
\<close>

theorem toChainUnits_exact:
  assumes "amount < 2 ^ 53" and "decimals < 2 ^ 53"
  shows "toChainUnits amount decimals = Inr (amount * 10 ^ decimals)"
  using assms by (rule toChainUnits_small)

theorem toChainUnits_exact_witness:
  "toChainUnits 10000 9 = Inr 10000000000000 \<and> toChainUnits 1000000 1 = Inr 10000000"
proof -
  have "toChainUnits 10000 9 = Inr (10000 * 10 ^ 9)"
    by (rule toChainUnits_exact) simp_all
  moreover have "toChainUnits 1000000 1 = Inr (1000000 * 10 ^ 1)"
    by (rule toChainUnits_exact) simp_all
  ultimately show ?thesis by simp
qed

text \<open>
  C11. An amount that a JavaScript number holds but bn.js refuses (\<open>2^53\<close> or more)
  makes \<^verbatim>\<open>toChainUnits\<close> throw the bn.js assertion instead of returning a value.
\<close>

theorem toChainUnits_large_amount:
  assumes "2 ^ 53 \<le> amount"
  shows "toChainUnits amount decimals = Inl BnAssertionFailed"
  using assms by (simp add: toChainUnits_def)

theorem toChainUnits_large_amount_witness:
  "toChainUnits (2 ^ 53) 9 = Inl BnAssertionFailed"
  by (rule toChainUnits_large_amount) simp

text \<open>
  C10. The amounts the scripts mint, transfer and lock in pools
  (\<open>10^6\<close> and \<open>10^4\<close> whole tokens) fit the runtime's 128-bit balance for every
  asset of up to 32 decimals, so the codec accepts them and reads back the same
  number; at 33 decimals the minted amount no longer fits.
\<close>

theorem toChainUnits_fits_u128:
  assumes "amount \<le> 1000000" and "decimals \<le> 32"
  shows "\<exists>v. toChainUnits amount decimals = Inr v \<and> fits_u128 v \<and>
             encode_u128 v = Some (word_of_nat v)"
proof -
  have "amount * 10 ^ decimals \<le> 1000000 * (10::nat) ^ 32"
    using assms by (rule mult_pow10_le)
  also have "\<dots> < 2 ^ 128" by simp
  finally have fit: "fits_u128 (amount * 10 ^ decimals)"
    by (simp add: fits_u128_def)
  from assms have "toChainUnits amount decimals = Inr (amount * 10 ^ decimals)"
    by (intro toChainUnits_small) simp_all
  with fit show ?thesis by (simp add: encode_u128_def)
qed

theorem toChainUnits_fits_u128_witness:
  "(1000000::nat) \<le> 1000000 \<and> (18::nat) \<le> 32 \<and>
   (\<exists>v. toChainUnits 1000000 18 = Inr v \<and> fits_u128 v \<and> encode_u128 v = Some (word_of_nat v))"
  using toChainUnits_fits_u128 [of 1000000 18] by simp

lemma toChainUnits_33_overflows:
  "toChainUnits 1000000 33 = Inr v \<Longrightarrow> \<not> fits_u128 v"
  by (simp add: toChainUnits_Inr_iff fits_u128_def)

text \<open>
  The three code paths that scale an amount agree, errors included: the
  inline pool amount of \<^verbatim>\<open>create-lending-pool.ts\<close> computes
  \<^verbatim>\<open>toChainUnits(10_000, decimals)\<close> of \<^verbatim>\<open>full-setup-sudo.ts\<close>, and the
  \<^verbatim>\<open>toChainUnits\<close> of \<^verbatim>\<open>mint-transfer.ts\<close> is that function on every amount
  and decimals.
\<close>

theorem clp_pool_amount_eq_toChainUnits:
  "clp_pool_amount decimals = toChainUnits 10000 decimals \<and>
   mt_toChainUnits amount decimals = toChainUnits amount decimals"
  by (simp add: clp_pool_amount_def toChainUnits_def mt_toChainUnits_toChainUnits)

end
