(* ===== verification/Submitter.thy ===== *)
theory Submitter
  imports Prelude
begin

text \<open>
  The submit-and-confirm pattern that every script repeats: \<^verbatim>\<open>signAndSend\<close> opens
  a subscription whose callback receives \<^verbatim>\<open>{status, dispatchError}\<close> once per
  status update of the extrinsic, and the callback settles the promise that the
  script awaits. Two callback bodies occur in the sources:
  \<^item> \<open>on_status_in_block\<close>: \<^verbatim>\<open>if (dispatchError) {log; reject} else if
    (status.isInBlock) {log; resolve}\<close>, in \<^verbatim>\<open>full-setup-sudo.ts\<close>,
    \<^verbatim>\<open>set-asset-metadata.ts\<close>, \<^verbatim>\<open>lending-pool/create-assets.ts\<close> and
    \<^verbatim>\<open>lending-pool/mint-transfer.ts\<close>;
  \<^item> \<open>on_status_finalized\<close>: three independent \<^verbatim>\<open>if\<close>s (log when in block;
    reject on a dispatch error; resolve when finalized), in
    \<^verbatim>\<open>create-lending-pool.ts\<close>.
  A JavaScript promise settles once: \<open>resolve\<close> and \<open>reject\<close> do nothing on a
  settled promise. The subscription is never cancelled, so the callback keeps
  running on later updates; the model folds it over the whole list of updates.
\<close>

section \<open>Data\<close>

text \<open>\<^verbatim>\<open>ExtrinsicStatus\<close> of the node's author RPC.\<close>

datatype tx_status =
    Future | Ready | Broadcast "string list"
  | InBlock block_hash | Retracted block_hash | FinalityTimeout block_hash
  | Finalized block_hash | Usurped block_hash | Dropped | Invalid

text \<open>\<^verbatim>\<open>DispatchError\<close>: a module error (pallet index, error index) or another kind,
  of which the scripts only use \<^verbatim>\<open>toString()\<close>.\<close>

record module_error =
  me_index :: nat
  me_error :: nat

datatype dispatch_error = Module module_error | NonModule string

text \<open>The argument of the callback.\<close>

record sub_result =
  status :: tx_status
  dispatchError :: "dispatch_error option"

text \<open>\<^verbatim>\<open>api.registry.findMetaError\<close>: the (section, name) of a module error, read
  from the runtime metadata.\<close>

type_synonym registry = "module_error \<Rightarrow> string \<times> string"

datatype 'e promise = Pending | Resolved | Rejected 'e

type_synonym sub_state = "dispatch_error promise \<times> log_entry list"

section \<open>Operations\<close>

definition resolve :: "'e promise \<Rightarrow> 'e promise" where
  "resolve p = (case p of Pending \<Rightarrow> Resolved | _ \<Rightarrow> p)"

definition reject :: "'e \<Rightarrow> 'e promise \<Rightarrow> 'e promise" where
  "reject e p = (case p of Pending \<Rightarrow> Rejected e | _ \<Rightarrow> p)"

text \<open>The text after the prefix of a failure line:
  \<^verbatim>\<open>${decoded.section}.${decoded.name}\<close> or \<^verbatim>\<open>${dispatchError.toString()}\<close>.\<close>

definition describe_dispatch_error :: "registry \<Rightarrow> dispatch_error \<Rightarrow> string" where
  "describe_dispatch_error reg e =
     (case e of
        Module m \<Rightarrow> fst (reg m) @ ''.'' @ snd (reg m)
      | NonModule s \<Rightarrow> s)"

definition is_in_block :: "tx_status \<Rightarrow> bool" where
  "is_in_block st = (case st of InBlock _ \<Rightarrow> True | _ \<Rightarrow> False)"

definition is_finalized :: "tx_status \<Rightarrow> bool" where
  "is_finalized st = (case st of Finalized _ \<Rightarrow> True | _ \<Rightarrow> False)"

text \<open>
  The in-block callback, e.g. \<^verbatim>\<open>full-setup-sudo.ts\<close> lines 54--67. \<open>what\<close> is
  the prefix of the failure line (\<^verbatim>\<open>Transfer failed: \<close>), \<open>okmsg\<close> builds the
  success line from the block hash.
\<close>

definition on_status_in_block ::
  "registry \<Rightarrow> string \<Rightarrow> (block_hash \<Rightarrow> string) \<Rightarrow> sub_result \<Rightarrow> sub_state \<Rightarrow> sub_state" where
  "on_status_in_block reg what okmsg r ps =
     (case ps of (p, out) \<Rightarrow>
       (case dispatchError r of
          Some e \<Rightarrow> (reject e p, out @ [LogError (what @ describe_dispatch_error reg e)])
        | None \<Rightarrow>
            (case status r of
               InBlock h \<Rightarrow> (resolve p, out @ [Log (okmsg h)])
             | _ \<Rightarrow> (p, out))))"

text \<open>The finalized callback, \<^verbatim>\<open>create-lending-pool.ts\<close> lines 42--52 and 63--73.\<close>

definition on_status_finalized ::
  "registry \<Rightarrow> string \<Rightarrow> (block_hash \<Rightarrow> string) \<Rightarrow> sub_result \<Rightarrow> sub_state \<Rightarrow> sub_state" where
  "on_status_finalized reg what okmsg r ps =
     (case ps of (p, out) \<Rightarrow>
       (let out1 = (case status r of InBlock h \<Rightarrow> out @ [Log (okmsg h)] | _ \<Rightarrow> out);
            (p2, out2) =
              (case dispatchError r of
                 Some e \<Rightarrow> (reject e p, out1 @ [LogError (what @ describe_dispatch_error reg e)])
               | None \<Rightarrow> (p, out1))
        in (if is_finalized (status r) then resolve p2 else p2, out2)))"

datatype confirm_policy = AtInBlock | AtFinalized

definition on_status ::
  "confirm_policy \<Rightarrow> registry \<Rightarrow> string \<Rightarrow> (block_hash \<Rightarrow> string) \<Rightarrow> sub_result \<Rightarrow> sub_state \<Rightarrow> sub_state" where
  "on_status pol = (case pol of AtInBlock \<Rightarrow> on_status_in_block | AtFinalized \<Rightarrow> on_status_finalized)"

text \<open>The callback run over the updates of one submission, from a fresh promise.\<close>

definition run_subscription ::
  "(sub_result \<Rightarrow> sub_state \<Rightarrow> sub_state) \<Rightarrow> sub_result list \<Rightarrow> log_entry list \<Rightarrow> sub_state" where
  "run_subscription cb ups out = fold cb ups (Pending, out)"

section \<open>Abstract outcome of a subscription\<close>

text \<open>
  What each policy promises, stated over the list of updates: the promise is
  decided by the first update that can settle it.
\<close>

definition settles_in_block :: "sub_result \<Rightarrow> bool" where
  "settles_in_block r \<longleftrightarrow> dispatchError r \<noteq> None \<or> is_in_block (status r)"

definition settles_finalized :: "sub_result \<Rightarrow> bool" where
  "settles_finalized r \<longleftrightarrow> dispatchError r \<noteq> None \<or> is_finalized (status r)"

definition outcome_of :: "sub_result option \<Rightarrow> dispatch_error promise" where
  "outcome_of fr =
     (case fr of
        None \<Rightarrow> Pending
      | Some r \<Rightarrow> (case dispatchError r of Some e \<Rightarrow> Rejected e | None \<Rightarrow> Resolved))"

definition expected_outcome :: "confirm_policy \<Rightarrow> sub_result list \<Rightarrow> dispatch_error promise" where
  "expected_outcome pol ups =
     outcome_of (find (case pol of AtInBlock \<Rightarrow> settles_in_block | AtFinalized \<Rightarrow> settles_finalized) ups)"

section \<open>Lemmas\<close>

lemma resolve_simps [simp]:
  "resolve Pending = Resolved" "resolve Resolved = Resolved" "resolve (Rejected e) = Rejected e"
  by (simp_all add: resolve_def)

lemma reject_simps [simp]:
  "reject e Pending = Rejected e" "reject e Resolved = Resolved" "reject e (Rejected e') = Rejected e'"
  by (simp_all add: reject_def)

lemma is_in_block_simps [simp]:
  "is_in_block (InBlock h)" "\<not> is_in_block (Finalized h)" "\<not> is_in_block Future"
  "\<not> is_in_block Ready" "\<not> is_in_block (Broadcast ps)" "\<not> is_in_block (Retracted h)"
  "\<not> is_in_block (FinalityTimeout h)" "\<not> is_in_block (Usurped h)"
  "\<not> is_in_block Dropped" "\<not> is_in_block Invalid"
  by (simp_all add: is_in_block_def)

lemma is_finalized_simps [simp]:
  "is_finalized (Finalized h)" "\<not> is_finalized (InBlock h)" "\<not> is_finalized Future"
  "\<not> is_finalized Ready" "\<not> is_finalized (Broadcast ps)" "\<not> is_finalized (Retracted h)"
  "\<not> is_finalized (FinalityTimeout h)" "\<not> is_finalized (Usurped h)"
  "\<not> is_finalized Dropped" "\<not> is_finalized Invalid"
  by (simp_all add: is_finalized_def)

text \<open>One step of each callback, as a function of the promise alone.\<close>

lemma on_status_in_block_fst:
  "fst (on_status_in_block reg what okmsg r (p, out)) =
     (case dispatchError r of
        Some e \<Rightarrow> reject e p
      | None \<Rightarrow> if is_in_block (status r) then resolve p else p)"
  by (auto simp: on_status_in_block_def is_in_block_def split: option.splits tx_status.splits)

lemma on_status_finalized_fst:
  "fst (on_status_finalized reg what okmsg r (p, out)) =
     (let p2 = (case dispatchError r of Some e \<Rightarrow> reject e p | None \<Rightarrow> p)
      in if is_finalized (status r) then resolve p2 else p2)"
  by (auto simp: on_status_finalized_def Let_def split: option.splits tx_status.splits prod.splits)

lemma on_status_fst_settled:
  assumes "p \<noteq> Pending"
  shows "fst (on_status pol reg what okmsg r (p, out)) = p"
  using assms
  by (cases p; cases pol)
     (auto simp: on_status_def on_status_in_block_fst on_status_finalized_fst Let_def
           split: option.splits)

lemma on_status_fst_Pending:
  "fst (on_status pol reg what okmsg r (Pending, out)) =
     (if (case pol of AtInBlock \<Rightarrow> settles_in_block | AtFinalized \<Rightarrow> settles_finalized) r
      then outcome_of (Some r) else Pending)"
  by (cases pol)
     (auto simp: on_status_def on_status_in_block_fst on_status_finalized_fst Let_def
        settles_in_block_def settles_finalized_def outcome_of_def split: option.splits)

text \<open>Once settled, the rest of the updates leave the promise alone.\<close>

lemma fold_on_status_settled:
  assumes "fst s \<noteq> Pending"
  shows "fst (fold (on_status pol reg what okmsg) ups s) = fst s"
proof (rule fold_fst_stable)
  fix x :: sub_result and t :: sub_state
  assume "fst t = fst s"
  with assms show "fst (on_status pol reg what okmsg x t) = fst s"
    by (cases t) (simp add: on_status_fst_settled)
qed simp

text \<open>The subscription refines the abstract outcome.\<close>

lemma fold_on_status_outcome:
  "fst (fold (on_status pol reg what okmsg) ups (Pending, out)) = expected_outcome pol ups"
proof (induction ups arbitrary: out)
  case Nil
  then show ?case by (simp add: expected_outcome_def outcome_of_def)
next
  case (Cons r ups)
  obtain p1 out1 where step: "on_status pol reg what okmsg r (Pending, out) = (p1, out1)"
    by fastforce
  show ?case
  proof (cases "(case pol of AtInBlock \<Rightarrow> settles_in_block | AtFinalized \<Rightarrow> settles_finalized) r")
    case True
    with step on_status_fst_Pending [of pol reg what okmsg r out]
    have p1: "p1 = outcome_of (Some r)" by simp
    have "p1 \<noteq> Pending"
      using True by (cases pol)
        (auto simp: p1 outcome_of_def settles_in_block_def settles_finalized_def split: option.splits)
    then have "fst (fold (on_status pol reg what okmsg) ups (p1, out1)) = p1"
      using fold_on_status_settled [of "(p1, out1)"] by simp
    with True step p1 show ?thesis by (simp add: expected_outcome_def)
  next
    case False
    with step on_status_fst_Pending [of pol reg what okmsg r out]
    have "p1 = Pending" by simp
    with False step Cons.IH [of out1] show ?thesis by (simp add: expected_outcome_def)
  qed
qed

lemma run_subscription_outcome:
  "fst (run_subscription (on_status pol reg what okmsg) ups out) = expected_outcome pol ups"
  by (simp add: run_subscription_def fold_on_status_outcome)

lemma on_status_policies [simp]:
  "on_status AtInBlock = on_status_in_block" "on_status AtFinalized = on_status_finalized"
  by (simp_all add: on_status_def)

text \<open>The callbacks only ever append to the console.\<close>

lemma on_status_appends:
  "\<exists>ext. snd (on_status pol reg what okmsg r (p, out)) = out @ ext"
  by (cases pol)
     (auto simp: on_status_def on_status_in_block_def on_status_finalized_def Let_def
           split: option.splits tx_status.splits prod.splits)

lemma fold_on_status_appends:
  "\<exists>ext. snd (fold (on_status pol reg what okmsg) ups (p, out)) = out @ ext"
proof (induction ups arbitrary: p out)
  case Nil
  then show ?case by simp
next
  case (Cons r ups)
  obtain p1 out1 where step: "on_status pol reg what okmsg r (p, out) = (p1, out1)"
    by fastforce
  from on_status_appends [of pol reg what okmsg r p out] step
  obtain e1 where "out1 = out @ e1" by auto
  moreover from Cons.IH [of p1 out1] obtain e2
    where "snd (fold (on_status pol reg what okmsg) ups (p1, out1)) = out1 @ e2" by blast
  ultimately show ?case using step by auto
qed

lemma on_status_error_line:
  assumes "dispatchError r = Some e"
  shows "LogError (what @ describe_dispatch_error reg e) \<in> set (snd (on_status pol reg what okmsg r (p, out)))"
  using assms
  by (cases pol) (auto simp: on_status_def on_status_in_block_def on_status_finalized_def Let_def)

lemma fold_on_status_keeps_line:
  assumes "l \<in> set (snd s)"
  shows "l \<in> set (snd (fold (on_status pol reg what okmsg) ups s))"
proof -
  obtain p out where s: "s = (p, out)" by fastforce
  from fold_on_status_appends [of pol reg what okmsg ups p out]
  obtain ext where "snd (fold (on_status pol reg what okmsg) ups (p, out)) = out @ ext" by blast
  with assms s show ?thesis by simp
qed

text \<open>The failure line of the first settling update is on the console.\<close>

lemma fold_on_status_error_logged:
  assumes "find (case pol of AtInBlock \<Rightarrow> settles_in_block | AtFinalized \<Rightarrow> settles_finalized) ups = Some r"
    and "dispatchError r = Some e"
  shows "LogError (what @ describe_dispatch_error reg e) \<in>
           set (snd (fold (on_status pol reg what okmsg) ups (p, out)))"
  using assms(1)
proof (induction ups arbitrary: p out)
  case Nil
  then show ?case by simp
next
  case (Cons r0 ups)
  obtain p1 out1 where step: "on_status pol reg what okmsg r0 (p, out) = (p1, out1)"
    by fastforce
  show ?case
  proof (cases "(case pol of AtInBlock \<Rightarrow> settles_in_block | AtFinalized \<Rightarrow> settles_finalized) r0")
    case True
    with Cons.prems have "r0 = r" by simp
    with assms(2) step on_status_error_line [of r e what reg pol okmsg p out]
    have "LogError (what @ describe_dispatch_error reg e) \<in> set (snd (p1, out1))" by simp
    then show ?thesis using step by (simp add: fold_on_status_keeps_line)
  next
    case False
    with Cons.prems Cons.IH [of p1 out1] step show ?thesis by simp
  qed
qed

section \<open>Properties\<close>

text \<open>
  C1. The in-block callback implements its contract: over any sequence of status
  updates, the awaited promise ends as decided by the first update that carries a
  dispatch error or an in-block status (rejected with that error, or resolved), and
  stays pending if there is none.
\<close>

theorem in_block_subscription_outcome:
  "fst (run_subscription (on_status_in_block reg what okmsg) ups out) =
     outcome_of (find settles_in_block ups)"
  using run_subscription_outcome [of AtInBlock reg what okmsg ups out]
  by (simp add: expected_outcome_def)

text \<open>
  C2. The finalized callback of \<^verbatim>\<open>create-lending-pool.ts\<close> implements its contract:
  the promise is decided by the first update that carries a dispatch error or a
  finalized status; a dispatch error wins over a finalization reported with it.
\<close>

theorem finalized_subscription_outcome:
  "fst (run_subscription (on_status_finalized reg what okmsg) ups out) =
     outcome_of (find settles_finalized ups)"
  using run_subscription_outcome [of AtFinalized reg what okmsg ups out]
  by (simp add: expected_outcome_def)

text \<open>
  C3. A submission settles at most once: once the updates seen so far have settled
  the promise, no later update (another in-block, a finalization, a dispatch error)
  changes it, under either policy.
\<close>

theorem subscription_settles_once:
  assumes "fst (run_subscription (on_status pol reg what okmsg) xs out) \<noteq> Pending"
  shows "fst (run_subscription (on_status pol reg what okmsg) (xs @ ys) out) =
         fst (run_subscription (on_status pol reg what okmsg) xs out)"
  using assms fold_on_status_settled [of "fold (on_status pol reg what okmsg) xs (Pending, out)"]
  by (simp add: run_subscription_def)

theorem subscription_settles_once_witness:
  "fst (run_subscription (on_status AtInBlock (\<lambda>_. (''assets'', ''InUse'')) ''Create failed: '' (\<lambda>_. ''ok''))
          [\<lparr>status = InBlock 1, dispatchError = None\<rparr>] []) \<noteq> Pending \<and>
   fst (run_subscription (on_status AtInBlock (\<lambda>_. (''assets'', ''InUse'')) ''Create failed: '' (\<lambda>_. ''ok''))
          ([\<lparr>status = InBlock 1, dispatchError = None\<rparr>] @
           [\<lparr>status = Finalized 1, dispatchError = Some (Module \<lparr>me_index = 5, me_error = 2\<rparr>)\<rparr>]) []) =
   fst (run_subscription (on_status AtInBlock (\<lambda>_. (''assets'', ''InUse'')) ''Create failed: '' (\<lambda>_. ''ok''))
          [\<lparr>status = InBlock 1, dispatchError = None\<rparr>] [])"
proof -
  have h: "fst (run_subscription (on_status AtInBlock (\<lambda>_. (''assets'', ''InUse'')) ''Create failed: '' (\<lambda>_. ''ok''))
          [\<lparr>status = InBlock 1, dispatchError = None\<rparr>] []) \<noteq> Pending"
    by (simp add: run_subscription_def on_status_in_block_def)
  show ?thesis using h subscription_settles_once [OF h] by blast
qed

text \<open>
  The in-block callback never settles the promise on a submission whose
  updates carry no dispatch error and no in-block status (a transaction that is
  \<^verbatim>\<open>Dropped\<close>, \<^verbatim>\<open>Invalid\<close> or \<^verbatim>\<open>Usurped\<close> from the pool): the awaited
  promise stays pending, so the script waits for ever.
\<close>

theorem in_block_never_settles:
  assumes "\<forall>r \<in> set ups. dispatchError r = None \<and> \<not> is_in_block (status r)"
  shows "fst (run_subscription (on_status_in_block reg what okmsg) ups out) = Pending"
proof -
  from assms have "find settles_in_block ups = None"
    by (simp add: find_None_iff settles_in_block_def)
  then show ?thesis
    using run_subscription_outcome [of AtInBlock reg what okmsg ups out]
    by (simp add: expected_outcome_def outcome_of_def)
qed

theorem in_block_never_settles_witness:
  "list_all (\<lambda>r. dispatchError r = None \<and> \<not> is_in_block (status r))
     [\<lparr>status = Ready, dispatchError = None\<rparr>, \<lparr>status = Broadcast [], dispatchError = None\<rparr>,
      \<lparr>status = Dropped, dispatchError = None\<rparr>] \<and>
   fst (run_subscription (on_status_in_block (\<lambda>_. (''balances'', ''Other'')) ''Mint failed: '' (\<lambda>_. ''ok''))
          [\<lparr>status = Ready, dispatchError = None\<rparr>, \<lparr>status = Broadcast [], dispatchError = None\<rparr>,
           \<lparr>status = Dropped, dispatchError = None\<rparr>] []) = Pending"
proof -
  have h: "\<forall>r \<in> set [\<lparr>status = Ready, dispatchError = None\<rparr>, \<lparr>status = Broadcast [], dispatchError = None\<rparr>,
              \<lparr>status = Dropped, dispatchError = None\<rparr>].
      dispatchError r = None \<and> \<not> is_in_block (status r)" by simp
  show ?thesis using in_block_never_settles [OF h] by simp
qed

text \<open>
  C8. A failed dispatch is reported as itself: when the first settling update of a
  submission carries a module error, the awaited promise is rejected with that raw
  error, and the console shows the call's failure prefix followed by the
  \<open>section.name\<close> the registry decodes for it, under either policy.
\<close>

theorem module_error_reported:
  assumes "find (case pol of AtInBlock \<Rightarrow> settles_in_block | AtFinalized \<Rightarrow> settles_finalized) ups = Some r"
    and "dispatchError r = Some (Module m)"
  shows "fst (run_subscription (on_status pol reg what okmsg) ups out) = Rejected (Module m) \<and>
         LogError (what @ fst (reg m) @ ''.'' @ snd (reg m)) \<in>
           set (snd (run_subscription (on_status pol reg what okmsg) ups out))"
proof
  show "fst (run_subscription (on_status pol reg what okmsg) ups out) = Rejected (Module m)"
    using assms run_subscription_outcome [of pol reg what okmsg ups out]
    by (simp add: expected_outcome_def outcome_of_def)
  show "LogError (what @ fst (reg m) @ ''.'' @ snd (reg m)) \<in>
          set (snd (run_subscription (on_status pol reg what okmsg) ups out))"
    using fold_on_status_error_logged [OF assms]
    by (simp add: run_subscription_def describe_dispatch_error_def)
qed

theorem module_error_reported_witness:
  "find settles_in_block [\<lparr>status = Ready, dispatchError = None\<rparr>,
      \<lparr>status = InBlock 3, dispatchError = Some (Module \<lparr>me_index = 34, me_error = 3\<rparr>)\<rparr>] =
     Some \<lparr>status = InBlock 3, dispatchError = Some (Module \<lparr>me_index = 34, me_error = 3\<rparr>)\<rparr> \<and>
   fst (run_subscription (on_status AtInBlock (\<lambda>_. (''assets'', ''InUse'')) ''Create failed: '' (\<lambda>_. ''ok''))
      [\<lparr>status = Ready, dispatchError = None\<rparr>,
       \<lparr>status = InBlock 3, dispatchError = Some (Module \<lparr>me_index = 34, me_error = 3\<rparr>)\<rparr>] []) =
     Rejected (Module \<lparr>me_index = 34, me_error = 3\<rparr>) \<and>
   LogError (''Create failed: '' @ ''assets'' @ ''.'' @ ''InUse'') \<in>
     set (snd (run_subscription (on_status AtInBlock (\<lambda>_. (''assets'', ''InUse'')) ''Create failed: '' (\<lambda>_. ''ok''))
      [\<lparr>status = Ready, dispatchError = None\<rparr>,
       \<lparr>status = InBlock 3, dispatchError = Some (Module \<lparr>me_index = 34, me_error = 3\<rparr>)\<rparr>] []))"
proof -
  have f: "find (case AtInBlock of AtInBlock \<Rightarrow> settles_in_block | AtFinalized \<Rightarrow> settles_finalized)
      [\<lparr>status = Ready, dispatchError = None\<rparr>,
       \<lparr>status = InBlock 3, dispatchError = Some (Module \<lparr>me_index = 34, me_error = 3\<rparr>)\<rparr>] =
     Some \<lparr>status = InBlock 3, dispatchError = Some (Module \<lparr>me_index = 34, me_error = 3\<rparr>)\<rparr>"
    by (simp add: settles_in_block_def)
  have "dispatchError \<lparr>status = InBlock 3, dispatchError = Some (Module \<lparr>me_index = 34, me_error = 3\<rparr>)\<rparr> =
          Some (Module \<lparr>me_index = 34, me_error = 3\<rparr>)" by simp
  from module_error_reported [OF f this, of "\<lambda>_. (''assets'', ''InUse'')" "''Create failed: ''" "\<lambda>_. ''ok''" "[]"]
  show ?thesis using f by simp
qed

text \<open>
  The in-block policy that four of the five scripts use is weaker than
  finality: a submission whose block is retracted and whose transaction is then
  dropped has already resolved the awaited promise, so the script goes on, while the
  finalized policy of \<^verbatim>\<open>create-lending-pool.ts\<close> is still waiting on the same
  updates.
\<close>

theorem in_block_resolves_without_finality:
  "fst (run_subscription (on_status_in_block reg what okmsg)
      [\<lparr>status = InBlock 7, dispatchError = None\<rparr>, \<lparr>status = Retracted 7, dispatchError = None\<rparr>,
       \<lparr>status = Dropped, dispatchError = None\<rparr>] out) = Resolved \<and>
   fst (run_subscription (on_status_finalized reg what okmsg)
      [\<lparr>status = InBlock 7, dispatchError = None\<rparr>, \<lparr>status = Retracted 7, dispatchError = None\<rparr>,
       \<lparr>status = Dropped, dispatchError = None\<rparr>] out) = Pending"
  by (simp add: run_subscription_def on_status_in_block_def on_status_finalized_def Let_def)

end
