(* ===== verification/Script.thy ===== *)
theory Script
  imports Units Submitter
begin

text \<open>
  What every script shares: the calls it builds with \<^verbatim>\<open>api.tx.*\<close>, the node
  it talks to through \<^verbatim>\<open>ApiPromise\<close> (an interface: a record of the submit and
  query functions the scripts call, over any node state \<open>'n\<close>), the session
  state a script threads through its \<^verbatim>\<open>await\<close>s, and the sequencing of a
  script's steps, where a step ends normally, throws (a rejected promise, a
  bn.js assertion, a value the codec refuses) or never returns (a promise that
  never settles).
\<close>

section \<open>Calls\<close>

text \<open>The \<^verbatim>\<open>{ WithId: id }\<close> argument of the lending pallet.\<close>

datatype asset_kind = WithId asset_id

datatype call =
    TransferKeepAlive account balance           \<comment> \<open>\<^verbatim>\<open>balances.transferKeepAlive(dest, value)\<close>\<close>
  | AssetsCreate asset_id account balance       \<comment> \<open>\<^verbatim>\<open>assets.create(id, admin, minBalance)\<close>\<close>
  | SetMetadata asset_id string string nat      \<comment> \<open>\<^verbatim>\<open>assets.setMetadata(id, name, symbol, decimals)\<close>\<close>
  | Mint asset_id account balance               \<comment> \<open>\<^verbatim>\<open>assets.mint(id, beneficiary, amount)\<close>\<close>
  | AssetsTransfer asset_id account balance     \<comment> \<open>\<^verbatim>\<open>assets.transfer(id, target, amount)\<close>\<close>
  | CreateLendingPool pool_id asset_kind balance \<comment> \<open>\<^verbatim>\<open>lending.createLendingPool\<close>\<close>
  | ActivateLendingPool asset_kind              \<comment> \<open>\<^verbatim>\<open>lending.activateLendingPool\<close>\<close>
  | Sudo call                                   \<comment> \<open>\<^verbatim>\<open>sudo.sudo(call)\<close>\<close>

text \<open>
  The range checks polkadot.js applies when \<^verbatim>\<open>api.tx.*\<close> builds the extrinsic
  from the runtime metadata (library behaviour, not code of the repository):
  amounts are \<^verbatim>\<open>u128\<close> or \<^verbatim>\<open>Compact<u128>\<close> (the \<^verbatim>\<open>#[pallet::compact]\<close>
  amounts of \<^verbatim>\<open>assets.mint\<close> and \<^verbatim>\<open>assets.transfer\<close>), both refusing a
  value of \<open>2^128\<close> or more, and decimals a \<^verbatim>\<open>u8\<close>; a refused value throws.
  The ids, whose width depends on the runtime, are not checked.
\<close>

fun call_encodable :: "call \<Rightarrow> bool" where
  "call_encodable (TransferKeepAlive _ v) = fits_u128 v"
| "call_encodable (AssetsCreate _ _ v) = fits_u128 v"
| "call_encodable (SetMetadata _ _ _ d) = (d < 256)"
| "call_encodable (Mint _ _ v) = fits_u128 v"
| "call_encodable (AssetsTransfer _ _ v) = fits_u128 v"
| "call_encodable (CreateLendingPool _ _ v) = fits_u128 v"
| "call_encodable (ActivateLendingPool _) = True"
| "call_encodable (Sudo c) = call_encodable c"

section \<open>The node, as the scripts see it\<close>

text \<open>
  \<open>submit\<close> is \<^verbatim>\<open>signAndSend(signer, options, callback)\<close>: the node state after
  the submission and the status updates the callback receives. The explicit nonce
  is \<open>Some n\<close> for \<^verbatim>\<open>{ nonce: n }\<close>, \<open>None\<close> when polkadot.js asks the node for
  the next index itself. The queries are \<^verbatim>\<open>api.query.assets.asset(id).isSome\<close>,
  \<^verbatim>\<open>api.query.assets.account(id, who)\<close>, \<^verbatim>\<open>api.query.assets.metadata(id)\<close>,
  \<^verbatim>\<open>api.rpc.system.accountNextIndex(who)\<close> and \<^verbatim>\<open>api.rpc.system.chain()\<close>.
\<close>

record 'n node_api =
  submit :: "'n \<Rightarrow> account \<Rightarrow> nat option \<Rightarrow> call \<Rightarrow> 'n \<times> sub_result list"
  query_asset :: "'n \<Rightarrow> asset_id \<Rightarrow> bool"
  query_account :: "'n \<Rightarrow> asset_id \<Rightarrow> account \<Rightarrow> balance option"
  query_metadata :: "'n \<Rightarrow> asset_id \<Rightarrow> (string \<times> string \<times> nat) option"
  account_next_index :: "'n \<Rightarrow> account \<Rightarrow> nat"
  chain_name :: "'n \<Rightarrow> string"
  api_registry :: registry

text \<open>The asset descriptor \<^verbatim>\<open>{ id, name, symbol, decimals }\<close> of the tables of
  \<^verbatim>\<open>set-asset-metadata.ts\<close>, \<^verbatim>\<open>lending-pool/create-assets.ts\<close> and
  \<^verbatim>\<open>lending-pool/mint-transfer.ts\<close>.\<close>

record meta_asset =
  ma_id :: asset_id
  ma_name :: string
  ma_symbol :: string
  ma_decimals :: nat

section \<open>Session state and results\<close>

text \<open>
  The state a script run carries: the node, the console, the extrinsics it has
  signed and sent (with the explicit nonce it gave), and whether the api is
  connected.
\<close>

record 'n session =
  chain :: 'n
  console :: "log_entry list"
  sent :: "(nat option \<times> call) list"
  connected :: bool

datatype script_error =
    DispatchFailed dispatch_error    \<comment> \<open>\<^verbatim>\<open>reject(dispatchError)\<close>\<close>
  | BnFailed bn_error                \<comment> \<open>\<^verbatim>\<open>new BN(n)\<close> assertion\<close>
  | EncodeFailed                     \<comment> \<open>the codec refuses an argument\<close>

datatype 's res = Ok 's | Throw script_error 's | Hang 's

definition res_bind :: "'s res \<Rightarrow> ('s \<Rightarrow> 's res) \<Rightarrow> 's res" where
  "res_bind m f = (case m of Ok s \<Rightarrow> f s | Throw e s \<Rightarrow> Throw e s | Hang s \<Rightarrow> Hang s)"

primrec res_state :: "'s res \<Rightarrow> 's" where
  "res_state (Ok s) = s"
| "res_state (Throw e s) = s"
| "res_state (Hang s) = s"

definition say :: "log_entry list \<Rightarrow> ('n, 'm) session_scheme \<Rightarrow> ('n, 'm) session_scheme" where
  "say ls s = s\<lparr>console := console s @ ls\<rparr>"

text \<open>\<^verbatim>\<open>toChainUnits(amount, decimals)\<close> inside a script: a bn.js assertion throws.\<close>

definition with_units ::
  "nat \<Rightarrow> nat \<Rightarrow> (balance \<Rightarrow> 's \<Rightarrow> 's res) \<Rightarrow> 's \<Rightarrow> 's res" where
  "with_units amount decimals k s =
     (case toChainUnits amount decimals of Inl e \<Rightarrow> Throw (BnFailed e) s | Inr v \<Rightarrow> k v s)"

text \<open>
  \<^verbatim>\<open>await new Promise((resolve, reject) => tx.signAndSend(signer, opts, cb))\<close>: the
  extrinsic is built (the codec may throw), signed and sent, the callback is run
  over the updates, and the await returns, throws or never returns as the promise
  is resolved, rejected or left pending. The promise \<^verbatim>\<open>signAndSend\<close> itself
  returns is dropped by every script; its rejection when the node refuses the
  submission at the RPC level is not part of the model (\<open>submit\<close> answers with
  status updates only).
\<close>

definition sign_and_send ::
  "'n node_api \<Rightarrow> confirm_policy \<Rightarrow> account \<Rightarrow> nat option \<Rightarrow> string \<Rightarrow> (block_hash \<Rightarrow> string) \<Rightarrow>
   call \<Rightarrow> ('n, 'm) session_scheme \<Rightarrow> ('n, 'm) session_scheme res" where
  "sign_and_send api pol signer nonce what okmsg c s =
     (if \<not> call_encodable c then Throw EncodeFailed s
      else
        (case submit api (chain s) signer nonce c of
           (n', ups) \<Rightarrow>
             (case run_subscription (on_status pol (api_registry api) what okmsg) ups (console s) of
                (p, out) \<Rightarrow>
                  (let s' = s\<lparr>chain := n', console := out, sent := sent s @ [(nonce, c)]\<rparr>
                   in (case p of
                         Pending \<Rightarrow> Hang s'
                       | Resolved \<Rightarrow> Ok s'
                       | Rejected e \<Rightarrow> Throw (DispatchFailed e) s')))))"

section \<open>Lemmas\<close>

lemma res_bind_simps [simp]:
  "res_bind (Ok s) f = f s"
  "res_bind (Throw e s) f = Throw e s"
  "res_bind (Hang s) f = Hang s"
  by (simp_all add: res_bind_def)

lemma say_fields [simp]:
  "chain (say ls s) = chain s" "sent (say ls s) = sent s" "connected (say ls s) = connected s"
  "console (say ls s) = console s @ ls" "session.more (say ls s) = session.more s"
  by (simp_all add: say_def)

lemma say_append [simp]: "say ls (say ks s) = say (ks @ ls) s"
  by (simp add: say_def)

lemma with_units_literal [simp]:
  "decimals < 2 ^ 53 \<Longrightarrow> with_units 1000000 decimals k s = k (1000000 * 10 ^ decimals) s"
  "decimals < 2 ^ 53 \<Longrightarrow> with_units 10000 decimals k s = k (10000 * 10 ^ decimals) s"
  by (simp_all add: with_units_def)

text \<open>A property that holds of the state whatever way a step ended.\<close>

definition res_all :: "('s \<Rightarrow> bool) \<Rightarrow> 's res \<Rightarrow> bool" where
  "res_all P r \<longleftrightarrow> P (res_state r)"

lemma res_all_simps [simp]:
  "res_all P (Ok s) = P s" "res_all P (Throw e s) = P s" "res_all P (Hang s) = P s"
  by (simp_all add: res_all_def)

lemma res_all_bind:
  assumes "res_all P m"
    and "\<And>s. m = Ok s \<Longrightarrow> P s \<Longrightarrow> res_all P (f s)"
  shows "res_all P (res_bind m f)"
  using assms by (cases m) simp_all

lemma with_units_res_all:
  assumes "P s" and "\<And>v. res_all P (k v s)"
  shows "res_all P (with_units amount decimals k s)"
  using assms by (simp add: with_units_def split: sum.splits)

text \<open>What one submission does to the session, on each of its three ends.\<close>

lemma sign_and_send_cases:
  assumes "call_encodable c"
  obtains n' ups where "submit api (chain s) signer nonce c = (n', ups)"
    and "sign_and_send api pol signer nonce what okmsg c s =
      (let s' = s\<lparr>chain := n',
                  console := snd (run_subscription (on_status pol (api_registry api) what okmsg) ups (console s)),
                  sent := sent s @ [(nonce, c)]\<rparr>
       in case fst (run_subscription (on_status pol (api_registry api) what okmsg) ups (console s)) of
            Pending \<Rightarrow> Hang s' | Resolved \<Rightarrow> Ok s' | Rejected e \<Rightarrow> Throw (DispatchFailed e) s')"
  using assms
  by (cases "submit api (chain s) signer nonce c",
      cases "run_subscription (on_status pol (api_registry api) what okmsg) (snd (submit api (chain s) signer nonce c)) (console s)")
     (auto simp: sign_and_send_def)

lemma sign_and_send_sent:
  "sent (res_state (sign_and_send api pol signer nonce what okmsg c s)) =
     (if call_encodable c then sent s @ [(nonce, c)] else sent s)"
proof (cases "call_encodable c")
  case True
  then obtain n' ups where "sign_and_send api pol signer nonce what okmsg c s =
      (let s' = s\<lparr>chain := n',
                  console := snd (run_subscription (on_status pol (api_registry api) what okmsg) ups (console s)),
                  sent := sent s @ [(nonce, c)]\<rparr>
       in case fst (run_subscription (on_status pol (api_registry api) what okmsg) ups (console s)) of
            Pending \<Rightarrow> Hang s' | Resolved \<Rightarrow> Ok s' | Rejected e \<Rightarrow> Throw (DispatchFailed e) s')"
    by (rule sign_and_send_cases)
  with True show ?thesis by (simp add: Let_def split: promise.splits)
next
  case False
  then show ?thesis by (simp add: sign_and_send_def)
qed

lemma sign_and_send_more:
  "session.more (res_state (sign_and_send api pol signer nonce what okmsg c s)) = session.more s"
  by (auto simp: sign_and_send_def Let_def split: prod.splits promise.splits)

text \<open>
  \<open>sends base cs r\<close>: the calls a run has sent extend \<open>base\<close> by \<open>cs\<close> when it
  ends normally, and by a prefix of \<open>cs\<close> when it throws or hangs.
\<close>

definition sends :: "call list \<Rightarrow> call list \<Rightarrow> ('n, 'm) session_scheme res \<Rightarrow> bool" where
  "sends base cs r =
     (case r of
        Ok s \<Rightarrow> map snd (sent s) = base @ cs
      | _ \<Rightarrow> (\<exists>k \<le> length cs. map snd (sent (res_state r)) = base @ take k cs))"

lemma sends_bind:
  assumes m: "sends base cs1 m"
    and f: "\<And>s. m = Ok s \<Longrightarrow> map snd (sent s) = base @ cs1 \<Longrightarrow> sends (base @ cs1) cs2 (f s)"
  shows "sends base (cs1 @ cs2) (res_bind m f)"
proof (cases m)
  case (Ok s)
  with m have "map snd (sent s) = base @ cs1" by (simp add: sends_def)
  with Ok have fs: "sends (base @ cs1) cs2 (f s)" by (rule f)
  show ?thesis
  proof (cases "\<exists>s'. f s = Ok s'")
    case True
    with fs Ok show ?thesis by (auto simp: sends_def)
  next
    case False
    with fs obtain k where "k \<le> length cs2" and
      k: "map snd (sent (res_state (f s))) = base @ cs1 @ take k cs2"
      by (cases "f s") (auto simp: sends_def)
    then have ex: "\<exists>j \<le> length (cs1 @ cs2).
        map snd (sent (res_state (f s))) = base @ take j (cs1 @ cs2)"
      by (intro exI [of _ "length cs1 + k"]) simp
    from False Ok ex show ?thesis by (cases "f s") (simp_all add: sends_def)
  qed
next
  case (Throw e s)
  with m obtain k where "k \<le> length cs1" and "map snd (sent s) = base @ take k cs1"
    by (auto simp: sends_def)
  with Throw show ?thesis by (auto simp: sends_def intro!: exI [of _ k])
next
  case (Hang s)
  with m obtain k where "k \<le> length cs1" and "map snd (sent s) = base @ take k cs1"
    by (auto simp: sends_def)
  with Hang show ?thesis by (auto simp: sends_def intro!: exI [of _ k])
qed

lemma sends_bind1:
  assumes "sends base [c] m"
    and "\<And>s. map snd (sent s) = base @ [c] \<Longrightarrow> sends (base @ [c]) cs (f s)"
  shows "sends base (c # cs) (res_bind m f)"
proof -
  have "sends base ([c] @ cs) (res_bind m f)"
    by (rule sends_bind) (use assms in simp_all)
  then show ?thesis by simp
qed

lemma sends_Ok_say: "map snd (sent s) = base \<Longrightarrow> sends base [] (Ok (say ls s))"
  by (simp add: sends_def)

lemma sends_Ok_nil [simp]: "sends (map snd (sent s)) [] (Ok s)"
  by (simp add: sends_def)

lemma sends_say:
  "sends base cs r \<Longrightarrow> sends base cs (case r of Ok s \<Rightarrow> Ok (say ls s) | _ \<Rightarrow> r)"
  by (cases r) (simp_all add: sends_def)

lemma sends_Throw: "map snd (sent s) = base \<Longrightarrow> sends base cs (Throw e s)"
  by (auto simp: sends_def)

lemma sends_Throw_nothing [simp]: "sends (map snd (sent s)) cs (Throw e s)"
  by (rule sends_Throw) (rule refl)

lemma sign_and_send_sends:
  "sends (map snd (sent s)) [c] (sign_and_send api pol signer nonce what okmsg c s)"
proof (cases "call_encodable c")
  case True
  have "sent (res_state (sign_and_send api pol signer nonce what okmsg c s)) = sent s @ [(nonce, c)]"
    using True by (simp add: sign_and_send_sent)
  then show ?thesis
    by (cases "sign_and_send api pol signer nonce what okmsg c s")
       (auto simp: sends_def intro: exI [where x = 1])
next
  case False
  then show ?thesis by (simp add: sign_and_send_def)
qed

lemma sign_and_send_sends_base:
  "base = map snd (sent s) \<Longrightarrow> sends base [c] (sign_and_send api pol signer nonce what okmsg c s)"
  by (simp add: sign_and_send_sends)

lemma with_units_sends:
  assumes "\<And>v. toChainUnits amount decimals = Inr v \<Longrightarrow> sends base (cs v) (k v s)"
    and "base = map snd (sent s)"
  shows "sends base (cs (amount * 10 ^ decimals)) (with_units amount decimals k s)"
  using assms
  by (auto simp: with_units_def toChainUnits_Inr_iff split: sum.splits)

lemma res_bind_connected:
  "(\<And>s'. connected (res_state (f s')) = connected s') \<Longrightarrow>
     connected (res_state (res_bind m f)) = connected (res_state m)"
  by (cases m) simp_all

lemma sign_and_send_connected [simp]:
  "connected (res_state (sign_and_send api pol signer nonce what okmsg c s)) = connected s"
  by (auto simp: sign_and_send_def Let_def split: prod.splits promise.splits)

text \<open>
  \<open>sends_upto base cs r\<close>: whatever way the run ended, the calls it has sent
  extend \<open>base\<close> by a prefix of \<open>cs\<close>; the form for loops that catch a failure
  and end normally.
\<close>

definition sends_upto :: "call list \<Rightarrow> call list \<Rightarrow> ('n, 'm) session_scheme res \<Rightarrow> bool" where
  "sends_upto base cs r \<longleftrightarrow> (\<exists>k. map snd (sent (res_state r)) = base @ take k cs)"

lemma sends_imp_sends_upto: "sends base cs r \<Longrightarrow> sends_upto base cs r"
  by (cases r) (auto simp: sends_def sends_upto_def intro: exI [of _ "length cs"])

lemma sends_upto_bind:
  assumes m: "sends base cs1 m"
    and f: "\<And>s. map snd (sent s) = base @ cs1 \<Longrightarrow> sends_upto (base @ cs1) cs2 (f s)"
  shows "sends_upto base (cs1 @ cs2) (res_bind m f)"
proof (cases m)
  case (Ok s)
  with m have "map snd (sent s) = base @ cs1" by (simp add: sends_def)
  then obtain k where "map snd (sent (res_state (f s))) = base @ cs1 @ take k cs2"
    using f [of s] by (auto simp: sends_upto_def)
  with Ok show ?thesis
    by (auto simp: sends_upto_def intro!: exI [of _ "length cs1 + k"])
next
  case (Throw e s)
  with m obtain k where "k \<le> length cs1" and "map snd (sent s) = base @ take k cs1"
    by (auto simp: sends_def)
  with Throw show ?thesis by (auto simp: sends_upto_def intro!: exI [of _ k])
next
  case (Hang s)
  with m obtain k where "k \<le> length cs1" and "map snd (sent s) = base @ take k cs1"
    by (auto simp: sends_def)
  with Hang show ?thesis by (auto simp: sends_upto_def intro!: exI [of _ k])
qed

text \<open>A loop step that catches a failure of the body and ends normally.\<close>

lemma sends_upto_catch:
  assumes m: "sends base [c] m"
    and ok: "\<And>s. m = Ok s \<Longrightarrow> map snd (sent s) = base @ [c] \<Longrightarrow> sends_upto (base @ [c]) cs (f s)"
    and thr: "\<And>e s. m = Throw e s \<Longrightarrow> map snd (sent (res_state (g e s))) = map snd (sent s)"
  shows "sends_upto base (c # cs) (case m of Ok s \<Rightarrow> f s | Throw e s \<Rightarrow> g e s | Hang s \<Rightarrow> Hang s)"
proof (cases m)
  case (Ok s)
  with m have "map snd (sent s) = base @ [c]" by (simp add: sends_def)
  then obtain k where "map snd (sent (res_state (f s))) = base @ [c] @ take k cs"
    using ok [OF Ok] by (auto simp: sends_upto_def)
  with Ok show ?thesis by (auto simp: sends_upto_def intro!: exI [of _ "Suc k"])
next
  case (Throw e s)
  with m obtain k where "k \<le> 1" and "map snd (sent s) = base @ take k [c]"
    by (auto simp: sends_def)
  with Throw thr [OF Throw] show ?thesis
    by (auto simp: sends_upto_def le_Suc_eq intro!: exI [of _ k])
next
  case (Hang s)
  with m obtain k where "k \<le> 1" and "map snd (sent s) = base @ take k [c]"
    by (auto simp: sends_def)
  with Hang show ?thesis by (auto simp: sends_upto_def le_Suc_eq intro!: exI [of _ k])
qed

lemma sends_upto_Ok_say [simp]: "sends_upto (map snd (sent s)) cs (Ok (say ls s))"
  by (auto simp: sends_upto_def intro: exI [of _ 0])

section \<open>Test nodes\<close>

text \<open>
  A node with no state that puts every extrinsic in block 1 without error and
  reports every asset as present: enough to run a script to its end.
\<close>

definition inblock_node :: "unit node_api" where
  "inblock_node =
     \<lparr>submit = (\<lambda>n _ _ _. (n, [\<lparr>status = Ready, dispatchError = None\<rparr>,
                                \<lparr>status = InBlock 1, dispatchError = None\<rparr>])),
      query_asset = (\<lambda>_ _. True),
      query_account = (\<lambda>_ _ _. None),
      query_metadata = (\<lambda>_ _. None),
      account_next_index = (\<lambda>_ _. 0),
      chain_name = (\<lambda>_. ''Development''),
      api_registry = (\<lambda>_. (''system'', ''Other''))\<rparr>"

text \<open>A node that includes every extrinsic in block 1 and fails its dispatch with
  module error 0 of pallet 10.\<close>

definition failing_node :: "unit node_api" where
  "failing_node =
     inblock_node\<lparr>submit := (\<lambda>n _ _ _. (n, [\<lparr>status = InBlock 1,
        dispatchError = Some (Module \<lparr>me_index = 10, me_error = 0\<rparr>)\<rparr>])),
      api_registry := (\<lambda>_. (''balances'', ''InsufficientBalance''))\<rparr>"

section \<open>Properties\<close>

text \<open>
  C12. An awaited submission returns normally only when the node reported the
  status its policy waits for without a dispatch error: an update that is in block
  (in-block policy) or finalized (finalized policy) and carries no error.
\<close>

theorem sign_and_send_Ok_confirmed:
  assumes "sign_and_send api pol signer nonce what okmsg c s = Ok s'"
  shows "\<exists>r \<in> set (snd (submit api (chain s) signer nonce c)). dispatchError r = None \<and>
           (case pol of AtInBlock \<Rightarrow> is_in_block (status r) | AtFinalized \<Rightarrow> is_finalized (status r))"
proof -
  have enc: "call_encodable c"
  proof (rule ccontr)
    assume "\<not> call_encodable c"
    then have "sign_and_send api pol signer nonce what okmsg c s = Throw EncodeFailed s"
      by (simp add: sign_and_send_def)
    with assms show False by simp
  qed
  obtain n' ups where sub: "submit api (chain s) signer nonce c = (n', ups)"
    and eq: "sign_and_send api pol signer nonce what okmsg c s =
      (let s' = s\<lparr>chain := n',
                  console := snd (run_subscription (on_status pol (api_registry api) what okmsg) ups (console s)),
                  sent := sent s @ [(nonce, c)]\<rparr>
       in case fst (run_subscription (on_status pol (api_registry api) what okmsg) ups (console s)) of
            Pending \<Rightarrow> Hang s' | Resolved \<Rightarrow> Ok s' | Rejected e \<Rightarrow> Throw (DispatchFailed e) s')"
    using enc by (rule sign_and_send_cases)
  from assms eq have "fst (run_subscription (on_status pol (api_registry api) what okmsg) ups (console s)) = Resolved"
    by (auto simp: Let_def split: promise.splits)
  then have "expected_outcome pol ups = Resolved"
    by (simp add: run_subscription_outcome)
  then obtain r where fr: "find (case pol of AtInBlock \<Rightarrow> settles_in_block | AtFinalized \<Rightarrow> settles_finalized) ups = Some r"
    and ok: "dispatchError r = None"
    by (auto simp: expected_outcome_def outcome_of_def split: option.splits)
  from find_Some_mem [OF fr] ok show ?thesis
    using sub by (cases pol) (auto simp: settles_in_block_def settles_finalized_def)
qed

theorem sign_and_send_Ok_confirmed_witness:
  "\<exists>s'. sign_and_send inblock_node AtInBlock ''alice'' None ''Mint failed: '' (\<lambda>_. ''ok'') (Mint 1 ''alice'' 10)
          (\<lparr>chain = (), console = [], sent = [], connected = True\<rparr> :: unit session) = Ok s' \<and>
     (\<exists>r \<in> set (snd (submit inblock_node () ''alice'' None (Mint 1 ''alice'' 10))). dispatchError r = None \<and>
        is_in_block (status r))"
proof -
  obtain s' where h: "sign_and_send inblock_node AtInBlock ''alice'' None ''Mint failed: '' (\<lambda>_. ''ok'') (Mint 1 ''alice'' 10)
          (\<lparr>chain = (), console = [], sent = [], connected = True\<rparr> :: unit session) = Ok s'"
    by (simp add: sign_and_send_def inblock_node_def run_subscription_def on_status_in_block_def fits_u128_def)
  show ?thesis using h sign_and_send_Ok_confirmed [OF h] by auto
qed

end
