(* ===== verification/FullSetup.thy ===== *)
theory FullSetup
  imports Script
begin

text \<open>
  \<^verbatim>\<open>src/full-setup-sudo.ts\<close>: one admin identity transfers native balance to a
  target, then for each asset of a fixed table creates the asset and its metadata
  when the chain does not have it, mints to the admin, transfers to the target,
  creates a lending pool and activates it through \<^verbatim>\<open>sudo\<close>, and prints the
  target's balance. Every submission passes an explicit nonce taken from a local
  counter (\<^verbatim>\<open>nonce++\<close>) that starts at the admin's next index. A failure inside
  the loop is printed and ends the loop (\<^verbatim>\<open>break\<close>); a failure of the native
  transfer rejects \<^verbatim>\<open>main()\<close>. The \<^verbatim>\<open>sleep\<close>s between steps are steps of the
  model that always resume and change nothing the model observes.
\<close>

section \<open>Configuration\<close>

record asset_config =
  cfg_id :: asset_id
  cfg_name :: string
  cfg_symbol :: string
  cfg_decimals :: nat
  cfg_poolId :: pool_id

definition WS_ENDPOINT :: string where
  "WS_ENDPOINT = ''ws://127.0.0.1:9944''"

definition TARGET :: account where
  "TARGET = ''5EYCAe5hjcu8UT2sh5HhPXrLgSbTtxpeQZCKAjvgSJPmc7LA''"

definition assets :: "asset_config list" where
  "assets =
     [\<lparr>cfg_id = 1, cfg_name = ''USD'', cfg_symbol = ''USD'', cfg_decimals = 1, cfg_poolId = 1001\<rparr>,
      \<lparr>cfg_id = 2, cfg_name = ''Tether'', cfg_symbol = ''USDT'', cfg_decimals = 1, cfg_poolId = 1002\<rparr>,
      \<lparr>cfg_id = 3, cfg_name = ''USD Coin'', cfg_symbol = ''USDC'', cfg_decimals = 1, cfg_poolId = 1003\<rparr>,
      \<lparr>cfg_id = 101, cfg_name = ''Solana'', cfg_symbol = ''SOL'', cfg_decimals = 9, cfg_poolId = 1101\<rparr>,
      \<lparr>cfg_id = 102, cfg_name = ''Ethereum'', cfg_symbol = ''ETH'', cfg_decimals = 18, cfg_poolId = 1102\<rparr>,
      \<lparr>cfg_id = 103, cfg_name = ''Bitcoin'', cfg_symbol = ''BTC'', cfg_decimals = 8, cfg_poolId = 1103\<rparr>,
      \<lparr>cfg_id = 104, cfg_name = ''Sui'', cfg_symbol = ''SUI'', cfg_decimals = 9, cfg_poolId = 1104\<rparr>]"

section \<open>State\<close>

text \<open>The session with the script's \<^verbatim>\<open>let nonce\<close>.\<close>

record 'n fs_state = "'n session" +
  nonce :: nat

definition rule60 :: string where
  "rule60 = replicate 60 (CHR ''='')"

section \<open>Operations\<close>

text \<open>
  \<^verbatim>\<open>tx.signAndSend(admin, { nonce: nonce++ }, cb)\<close> under the in-block policy. The
  extrinsic is built before the counter is read, so a call the codec refuses does
  not use a nonce.
\<close>

definition fs_send ::
  "'n node_api \<Rightarrow> account \<Rightarrow> string \<Rightarrow> (block_hash \<Rightarrow> string) \<Rightarrow> call \<Rightarrow>
   ('n, 'm) fs_state_scheme \<Rightarrow> ('n, 'm) fs_state_scheme res" where
  "fs_send api admin what okmsg c st =
     (if \<not> call_encodable c then Throw EncodeFailed st
      else sign_and_send api AtInBlock admin (Some (nonce st)) what okmsg c
             (st\<lparr>nonce := Suc (nonce st)\<rparr>))"

text \<open>
  Line 26, \<^verbatim>\<open>sleep = (ms) => new Promise((res) => setTimeout(res, ms))\<close>: the
  timer always fires, the promise never rejects, and nothing is logged or sent;
  the model keeps no clock, so the step resumes with the state unchanged.
\<close>

definition fs_sleep :: "nat \<Rightarrow> ('n, 'm) fs_state_scheme \<Rightarrow> ('n, 'm) fs_state_scheme res" where
  "fs_sleep ms st = Ok st"

text \<open>Lines 79--135: create the asset and its metadata when the query finds none.\<close>

definition fs_create_if_absent ::
  "'n node_api \<Rightarrow> account \<Rightarrow> asset_config \<Rightarrow>
   ('n, 'm) fs_state_scheme \<Rightarrow> ('n, 'm) fs_state_scheme res" where
  "fs_create_if_absent api admin a st =
     (if \<not> query_asset api (chain st) (cfg_id a) then
        res_bind
          (fs_send api admin ''Create failed: ''
             (\<lambda>h. ''Asset created in block '' @ show_nat h)
             (AssetsCreate (cfg_id a) admin 1)
             (say [Log (''Creating asset '' @ show_nat (cfg_id a) @ ''...'')] st))
          (\<lambda>st1. res_bind (fs_sleep 2000 st1) (\<lambda>st2.
             res_bind
               (fs_send api admin ''Metadata failed: ''
                  (\<lambda>h. ''Metadata set in block '' @ show_nat h)
                  (SetMetadata (cfg_id a) (cfg_name a) (cfg_symbol a) (cfg_decimals a))
                  (say [Log (''Setting metadata for '' @ cfg_symbol a @ ''...'')] st2))
               (fs_sleep 2000)))
      else Ok (say [Log (''Asset '' @ show_nat (cfg_id a) @ '' already exists, skipping creation'')] st))"

text \<open>Lines 137--239: mint, transfer, create the pool, activate it, print the balance.\<close>

definition fs_fund_and_pool ::
  "'n node_api \<Rightarrow> account \<Rightarrow> asset_config \<Rightarrow>
   ('n, 'm) fs_state_scheme \<Rightarrow> ('n, 'm) fs_state_scheme res" where
  "fs_fund_and_pool api admin a st =
     with_units 1000000 (cfg_decimals a) (\<lambda>mintAmount st1.
       res_bind
         (fs_send api admin ''Mint failed: ''
            (\<lambda>_. ''Minted '' @ show_nat mintAmount @ '' '' @ cfg_symbol a)
            (Mint (cfg_id a) admin mintAmount) st1)
         (\<lambda>st1'. res_bind (fs_sleep 2000 st1') (\<lambda>st2.
            with_units 10000 (cfg_decimals a) (\<lambda>transferTokenAmount st3.
              res_bind
                (fs_send api admin ''Transfer failed: ''
                   (\<lambda>_. ''Transferred '' @ show_nat transferTokenAmount @ '' '' @ cfg_symbol a)
                   (AssetsTransfer (cfg_id a) TARGET transferTokenAmount) st3)
                (\<lambda>st3'. res_bind (fs_sleep 2000 st3') (\<lambda>st4.
                   with_units 10000 (cfg_decimals a) (\<lambda>poolAmount st5.
                     res_bind
                       (fs_send api admin ''Pool creation failed: ''
                          (\<lambda>h. ''Pool '' @ show_nat (cfg_poolId a) @ '' created in block '' @ show_nat h)
                          (CreateLendingPool (cfg_poolId a) (WithId (cfg_id a)) poolAmount) st5)
                       (\<lambda>st5'. res_bind (fs_sleep 3000 st5') (\<lambda>st6.
                          res_bind
                            (fs_send api admin ''Pool activation failed: ''
                               (\<lambda>h. ''Pool '' @ show_nat (cfg_poolId a) @ '' activated in block '' @ show_nat h)
                               (Sudo (ActivateLendingPool (WithId (cfg_id a))))
                               (say [Log (''Activating lending pool '' @ show_nat (cfg_poolId a) @ ''...'')] st6))
                            (\<lambda>st6'. res_bind (fs_sleep 2000 st6') (\<lambda>st7.
                               Ok (say [LogValue (''Target balance for '' @ cfg_symbol a @ '':'')
                                          (map_option QAssetAccount
                                             (query_account api (chain st7) (cfg_id a) TARGET))] st7))))))
                     (say [Log (''Creating lending pool '' @ show_nat (cfg_poolId a) @ ''...'')] st4))))
              (say [Log (''Transferring 10,000 '' @ cfg_symbol a @ '' to target...'')] st2))))
       (say [Log (''Minting 1,000,000 '' @ cfg_symbol a @ '' to admin...'')] st)"

text \<open>The body of the \<^verbatim>\<open>try\<close> block for one asset, lines 75--239.\<close>

definition fs_process_asset ::
  "'n node_api \<Rightarrow> account \<Rightarrow> asset_config \<Rightarrow>
   ('n, 'm) fs_state_scheme \<Rightarrow> ('n, 'm) fs_state_scheme res" where
  "fs_process_asset api admin a st =
     res_bind
       (fs_create_if_absent api admin a
          (say [Log (''\<newline>'' @ rule60),
                Log (''Setting up: '' @ cfg_name a @ '' ('' @ cfg_symbol a @ '') - ID '' @ show_nat (cfg_id a)),
                Log rule60] st))
       (fs_fund_and_pool api admin a)"

text \<open>
  The \<^verbatim>\<open>catch (err)\<close> block, lines 241--244: print the failure and leave the
  loop. The error object that \<^verbatim>\<open>console.error\<close> prints after the message is not
  kept by the console model.
\<close>

definition fs_catch ::
  "asset_config \<Rightarrow> script_error \<Rightarrow> ('n, 'm) fs_state_scheme \<Rightarrow> ('n, 'm) fs_state_scheme res" where
  "fs_catch a err st = Ok (say [LogError (''Error while processing '' @ cfg_name a @ '':'')] st)"

text \<open>The \<^verbatim>\<open>for ... of assets\<close> loop with its \<^verbatim>\<open>catch\<close> and \<^verbatim>\<open>break\<close>, lines 73--245.
  The \<^verbatim>\<open>break\<close> is that the loop does not continue after the \<^verbatim>\<open>catch\<close>.\<close>

fun fs_loop ::
  "'n node_api \<Rightarrow> account \<Rightarrow> asset_config list \<Rightarrow>
   ('n, 'm) fs_state_scheme \<Rightarrow> ('n, 'm) fs_state_scheme res" where
  "fs_loop api admin [] st = Ok st"
| "fs_loop api admin (a # as) st =
     (case fs_process_asset api admin a st of
        Ok st' \<Rightarrow> fs_loop api admin as st'
      | Throw e st' \<Rightarrow> fs_catch a e st'
      | Hang st' \<Rightarrow> Hang st')"

text \<open>Lines 33--45: connect, print, read the admin's next index.\<close>

definition fs_connect ::
  "'n node_api \<Rightarrow> account \<Rightarrow> ('n, 'm) fs_state_scheme \<Rightarrow> ('n, 'm) fs_state_scheme" where
  "fs_connect api admin st =
     (let st1 = (say [Log (''Connecting to node: '' @ WS_ENDPOINT)] st)\<lparr>connected := True\<rparr>;
          st2 = say [Log (''Connected to chain: '' @ chain_name api (chain st1)),
                     Log (''Using admin: '' @ admin),
                     Log (''Target account: '' @ TARGET @ ''\<newline>'')] st1
      in st2\<lparr>nonce := account_next_index api (chain st2) admin\<rparr>)"

text \<open>Lines 47--68: the native transfer, outside the loop's \<^verbatim>\<open>try\<close>.\<close>

definition fs_native_transfer ::
  "'n node_api \<Rightarrow> account \<Rightarrow> ('n, 'm) fs_state_scheme \<Rightarrow> ('n, 'm) fs_state_scheme res" where
  "fs_native_transfer api admin st =
     fs_send api admin ''Transfer failed: ''
       (\<lambda>h. ''Native transfer in block '' @ show_nat h)
       (TransferKeepAlive TARGET 1000000000000000)
       (say [Log (''Transferring native balance to '' @ TARGET @ ''...'')] st)"

text \<open>Lines 247--251: the closing banner and \<^verbatim>\<open>api.disconnect()\<close>.\<close>

definition fs_finish :: "('n, 'm) fs_state_scheme \<Rightarrow> ('n, 'm) fs_state_scheme res" where
  "fs_finish st =
     Ok ((say [Log (''\<newline>'' @ rule60),
               Log ''All assets and lending pools created successfully!'',
               Log (rule60 @ ''\<newline>'')] st)\<lparr>connected := False\<rparr>)"

text \<open>\<^verbatim>\<open>main()\<close>, lines 32--252. A \<open>Throw\<close> is the rejection that the top-level
  \<^verbatim>\<open>main().catch(console.error)\<close> prints.\<close>

definition fs_main ::
  "'n node_api \<Rightarrow> account \<Rightarrow> ('n, 'm) fs_state_scheme \<Rightarrow> ('n, 'm) fs_state_scheme res" where
  "fs_main api admin st =
     res_bind (fs_native_transfer api admin (fs_connect api admin st))
       (\<lambda>st'. res_bind (fs_sleep 2000 st')
       (\<lambda>st''. res_bind (fs_loop api admin assets st'') fs_finish))"

section \<open>Lemmas\<close>

declare fs_sleep_def [simp] fs_catch_def [simp]

lemma sends_Ok_base: "map snd (sent s) = base \<Longrightarrow> sends base [] (Ok s)"
  by (erule subst) (rule sends_Ok_nil)

lemma nonce_say [simp]: "nonce (say ls st) = nonce st"
  by (simp add: say_def)

lemma nonce_sign_and_send [simp]:
  "nonce (res_state (sign_and_send api pol signer n what okmsg c st)) = nonce st"
  by (auto simp: sign_and_send_def Let_def split: prod.splits promise.splits)

lemma sent_sign_and_send_fs:
  "call_encodable c \<Longrightarrow>
     sent (res_state (sign_and_send api pol signer n what okmsg c st)) = sent st @ [(n, c)]"
  by (simp add: sign_and_send_sent)

lemma fs_connect_fields [simp]:
  "chain (fs_connect api admin st) = chain st"
  "sent (fs_connect api admin st) = sent st"
  "connected (fs_connect api admin st)"
  "nonce (fs_connect api admin st) = account_next_index api (chain st) admin"
  by (simp_all add: fs_connect_def Let_def)

lemma fs_send_sends:
  "base = map snd (sent st) \<Longrightarrow> sends base [c] (fs_send api admin what okmsg c st)"
  using sign_and_send_sends [of "st\<lparr>nonce := Suc (nonce st)\<rparr>" c api AtInBlock admin
      "Some (nonce st)" what okmsg]
  by (simp add: fs_send_def)

lemma fs_send_connected:
  "connected (res_state (fs_send api admin what okmsg c st)) = connected st"
  by (simp add: fs_send_def)

subsection \<open>What every submission keeps\<close>

text \<open>
  A property of the state that each \<open>fs_send\<close> keeps, whatever the node
  answers, and that printing does not touch, holds after every asset, after the
  loop and after \<^verbatim>\<open>main()\<close>, on each of their ends.
\<close>

lemma fs_process_asset_res_all:
  assumes send: "\<And>what okmsg c st. P st \<Longrightarrow> res_all P (fs_send api admin what okmsg c st)"
    and say: "\<And>ls st. P (say ls st) = P st" and "P st"
  shows "res_all P (fs_process_asset api admin a st)"
  using assms(3) unfolding fs_process_asset_def fs_create_if_absent_def fs_fund_and_pool_def
  by (auto intro!: res_all_bind with_units_res_all send simp: say)

lemma fs_loop_res_all:
  assumes send: "\<And>what okmsg c st. P st \<Longrightarrow> res_all P (fs_send api admin what okmsg c st)"
    and say: "\<And>ls st. P (say ls st) = P st" and "P st"
  shows "res_all P (fs_loop api admin as st)"
  using assms(3)
proof (induction as arbitrary: st)
  case Nil
  then show ?case by simp
next
  case (Cons a as)
  have "res_all P (fs_process_asset api admin a st)"
    using send say Cons.prems by (rule fs_process_asset_res_all)
  with Cons.IH show ?case
    by (cases "fs_process_asset api admin a st") (simp_all add: say)
qed

lemma fs_main_res_all:
  assumes send: "\<And>what okmsg c st. P st \<Longrightarrow> res_all P (fs_send api admin what okmsg c st)"
    and say: "\<And>ls st. P (say ls st) = P st" and "P (fs_connect api admin st)"
    and disc: "\<And>st. P st \<Longrightarrow> P (st\<lparr>connected := False\<rparr>)"
  shows "res_all P (fs_main api admin st)"
  using assms(3) unfolding fs_main_def fs_native_transfer_def fs_finish_def
  by (auto intro!: res_all_bind send fs_loop_res_all [OF send say] disc simp: say)

subsection \<open>Nonces\<close>

text \<open>The nonces sent so far are the counter's values from \<open>n0\<close> on, in order.\<close>

definition nonces_from :: "nat \<Rightarrow> ('n, 'm) fs_state_scheme \<Rightarrow> bool" where
  "nonces_from n0 st \<longleftrightarrow> n0 \<le> nonce st \<and> map fst (sent st) = map Some [n0 ..< nonce st]"

lemma nonces_from_say [simp]: "nonces_from n0 (say ls st) = nonces_from n0 st"
  by (simp add: nonces_from_def)

lemma fs_send_nonces:
  assumes "nonces_from n0 st"
  shows "res_all (nonces_from n0) (fs_send api admin what okmsg c st)"
proof (cases "call_encodable c")
  case True
  have "sent (res_state (fs_send api admin what okmsg c st)) = sent st @ [(Some (nonce st), c)]"
    and "nonce (res_state (fs_send api admin what okmsg c st)) = Suc (nonce st)"
    using True by (simp_all add: fs_send_def sent_sign_and_send_fs)
  with assms show ?thesis by (simp add: res_all_def nonces_from_def)
next
  case False
  with assms show ?thesis by (simp add: fs_send_def)
qed

lemma fs_main_nonces:
  assumes "sent st = []"
  shows "res_all (nonces_from (account_next_index api (chain st) admin)) (fs_main api admin st)"
  by (rule fs_main_res_all) (use assms in \<open>auto intro: fs_send_nonces simp: nonces_from_def\<close>)

subsection \<open>Calls sent for one asset\<close>

lemma fs_create_if_absent_sends:
  "base = map snd (sent st) \<Longrightarrow> q = query_asset api (chain st) (cfg_id a) \<Longrightarrow>
   sends base
     (if q then []
      else [AssetsCreate (cfg_id a) admin 1,
            SetMetadata (cfg_id a) (cfg_name a) (cfg_symbol a) (cfg_decimals a)])
     (fs_create_if_absent api admin a st)"
  unfolding fs_create_if_absent_def
  by (auto intro!: sends_bind1 fs_send_sends sends_Ok_say sends_Ok_base)

lemma fs_fund_and_pool_sends:
  "base = map snd (sent st) \<Longrightarrow> sends base
     [Mint (cfg_id a) admin (1000000 * 10 ^ cfg_decimals a),
      AssetsTransfer (cfg_id a) TARGET (10000 * 10 ^ cfg_decimals a),
      CreateLendingPool (cfg_poolId a) (WithId (cfg_id a)) (10000 * 10 ^ cfg_decimals a),
      Sudo (ActivateLendingPool (WithId (cfg_id a)))]
     (fs_fund_and_pool api admin a st)"
proof (cases "cfg_decimals a < 2 ^ 53")
  case True
  assume "base = map snd (sent st)"
  with True show ?thesis
    unfolding fs_fund_and_pool_def
    by (auto intro!: sends_bind1 fs_send_sends sends_Ok_say sends_Ok_base)
next
  case False
  assume "base = map snd (sent st)"
  moreover from False have "toChainUnits 1000000 (cfg_decimals a) = Inl BnAssertionFailed"
    by (simp add: toChainUnits_def)
  ultimately show ?thesis
    by (simp add: fs_fund_and_pool_def with_units_def sends_Throw)
qed

lemma fs_process_asset_sends:
  "sends (map snd (sent st))
     ((if query_asset api (chain st) (cfg_id a) then []
       else [AssetsCreate (cfg_id a) admin 1,
             SetMetadata (cfg_id a) (cfg_name a) (cfg_symbol a) (cfg_decimals a)]) @
      [Mint (cfg_id a) admin (1000000 * 10 ^ cfg_decimals a),
       AssetsTransfer (cfg_id a) TARGET (10000 * 10 ^ cfg_decimals a),
       CreateLendingPool (cfg_poolId a) (WithId (cfg_id a)) (10000 * 10 ^ cfg_decimals a),
       Sudo (ActivateLendingPool (WithId (cfg_id a)))])
     (fs_process_asset api admin a st)"
  unfolding fs_process_asset_def
  apply (rule sends_bind)
  subgoal by (rule fs_create_if_absent_sends) simp_all
  subgoal by (rule fs_fund_and_pool_sends) simp
  done

section \<open>Properties\<close>

text \<open>
  C4. The manual nonce counter of \<^verbatim>\<open>full-setup-sudo.ts\<close> gives the extrinsics
  of a run consecutive nonces: whatever the node answers and however the run ends,
  the nonces sent are \<open>n0, n0+1, \<dots>\<close> in sending order, where \<open>n0\<close> is the
  admin's next index read at the start, with no gap and no repeat.
\<close>

theorem fs_main_nonces_consecutive:
  assumes "sent st = []"
  shows "map fst (sent (res_state (fs_main api admin st))) =
           map Some [account_next_index api (chain st) admin ..<
                     account_next_index api (chain st) admin + length (sent (res_state (fs_main api admin st)))]"
proof -
  let ?n0 = "account_next_index api (chain st) admin"
  let ?s = "res_state (fs_main api admin st)"
  have "nonces_from ?n0 ?s"
    using fs_main_nonces [OF assms, of api admin] by (simp add: res_all_def)
  then have "map fst (sent ?s) = map Some [?n0 ..< nonce ?s]" and "?n0 \<le> nonce ?s"
    by (simp_all add: nonces_from_def)
  moreover from this have "length (sent ?s) = nonce ?s - ?n0"
    by (metis length_map length_upt)
  ultimately show ?thesis by simp
qed

theorem fs_main_nonces_consecutive_witness:
  "sent (\<lparr>chain = (), console = [], sent = [], connected = False, nonce = 0\<rparr> :: unit fs_state) = [] \<and>
   map fst (sent (res_state (fs_main inblock_node ''admin''
       (\<lparr>chain = (), console = [], sent = [], connected = False, nonce = 0\<rparr> :: unit fs_state)))) =
     map Some [account_next_index inblock_node () ''admin'' ..<
       account_next_index inblock_node () ''admin'' + length (sent (res_state (fs_main inblock_node ''admin''
         (\<lparr>chain = (), console = [], sent = [], connected = False, nonce = 0\<rparr> :: unit fs_state))))]"
proof -
  have h: "sent (\<lparr>chain = (), console = [], sent = [], connected = False, nonce = 0\<rparr> :: unit fs_state) = []"
    by simp
  show ?thesis using h fs_main_nonces_consecutive [OF h, of inblock_node "''admin''"] by simp
qed

text \<open>
  C5. The calls sent for one asset of the loop follow the source's order: when
  the chain reports the asset absent, \<^verbatim>\<open>assets.create\<close> and
  \<^verbatim>\<open>assets.setMetadata\<close>, and then, whether or not it existed,
  \<^verbatim>\<open>assets.mint\<close> of \<open>10^6\<close> tokens to the admin, \<^verbatim>\<open>assets.transfer\<close> of
  \<open>10^4\<close> tokens to the target, \<^verbatim>\<open>lending.createLendingPool\<close> of \<open>10^4\<close> tokens
  and \<^verbatim>\<open>sudo(lending.activateLendingPool)\<close>, all in chain units. A step that
  throws or never returns stops the sequence there, so only a prefix is sent.
\<close>

theorem fs_process_asset_call_sequence:
  "sends (map snd (sent st))
     ((if query_asset api (chain st) (cfg_id a) then []
       else [AssetsCreate (cfg_id a) admin 1,
             SetMetadata (cfg_id a) (cfg_name a) (cfg_symbol a) (cfg_decimals a)]) @
      [Mint (cfg_id a) admin (1000000 * 10 ^ cfg_decimals a),
       AssetsTransfer (cfg_id a) TARGET (10000 * 10 ^ cfg_decimals a),
       CreateLendingPool (cfg_poolId a) (WithId (cfg_id a)) (10000 * 10 ^ cfg_decimals a),
       Sudo (ActivateLendingPool (WithId (cfg_id a)))])
     (fs_process_asset api admin a st)"
  by (rule fs_process_asset_sends)

theorem fs_process_asset_call_sequence_witness:
  "sends [] [Mint 1 ''admin'' 10000000, AssetsTransfer 1 TARGET 100000,
             CreateLendingPool 1001 (WithId 1) 100000, Sudo (ActivateLendingPool (WithId 1))]
     (fs_process_asset inblock_node ''admin'' (hd assets)
        (\<lparr>chain = (), console = [], sent = [], connected = True, nonce = 0\<rparr> :: unit fs_state))"
  using fs_process_asset_call_sequence [of
      "\<lparr>chain = (), console = [], sent = [], connected = True, nonce = 0\<rparr> :: unit fs_state"
      inblock_node "hd assets" "''admin''"]
  by (simp add: inblock_node_def assets_def)

text \<open>
  C6. A failure while processing an asset ends the loop (\<^verbatim>\<open>break\<close>): no call is
  sent for any later asset, and the script still prints
  \<^verbatim>\<open>All assets and lending pools created successfully!\<close> and disconnects as if
  every asset had been set up.
\<close>

theorem fs_break_still_reports_success:
  assumes "fs_process_asset api admin a st = Throw e st'"
  shows "\<exists>s. res_bind (fs_loop api admin (a # as) st) fs_finish = Ok s \<and>
             sent s = sent st' \<and> \<not> connected s \<and>
             Log ''All assets and lending pools created successfully!'' \<in> set (console s)"
  using assms by (simp add: fs_finish_def)

theorem fs_break_still_reports_success_witness:
  "\<exists>e st'. fs_process_asset failing_node ''admin'' (hd assets)
       (\<lparr>chain = (), console = [], sent = [], connected = True, nonce = 0\<rparr> :: unit fs_state) = Throw e st' \<and>
     (\<exists>s. res_bind (fs_loop failing_node ''admin'' (hd assets # tl assets)
              (\<lparr>chain = (), console = [], sent = [], connected = True, nonce = 0\<rparr> :: unit fs_state)) fs_finish = Ok s \<and>
          sent s = sent st' \<and> \<not> connected s \<and>
          Log ''All assets and lending pools created successfully!'' \<in> set (console s))"
proof -
  obtain e st' where h: "fs_process_asset failing_node ''admin'' (hd assets)
       (\<lparr>chain = (), console = [], sent = [], connected = True, nonce = 0\<rparr> :: unit fs_state) = Throw e st'"
    by (auto simp: fs_process_asset_def fs_create_if_absent_def fs_fund_and_pool_def fs_send_def
        sign_and_send_def run_subscription_def failing_node_def inblock_node_def assets_def
        on_status_in_block_def Let_def fits_u128_def)
  show ?thesis using h fs_break_still_reports_success [OF h, of "tl assets"] by auto
qed

text \<open>
  C9. The native transfer runs outside the loop's \<^verbatim>\<open>try\<close>: when it fails,
  \<^verbatim>\<open>main()\<close> rejects before any asset is processed, with the api still
  connected, since \<^verbatim>\<open>api.disconnect()\<close> is never reached.
\<close>

theorem fs_native_failure_aborts_main:
  assumes "fs_native_transfer api admin (fs_connect api admin st) = Throw e s"
  shows "fs_main api admin st = Throw e s \<and> connected s \<and>
         map snd (sent s) \<in> {map snd (sent st), map snd (sent st) @ [TransferKeepAlive TARGET 1000000000000000]}"
proof -
  have "sends (map snd (sent st)) [TransferKeepAlive TARGET 1000000000000000]
          (fs_native_transfer api admin (fs_connect api admin st))"
    unfolding fs_native_transfer_def by (rule fs_send_sends) simp
  with assms have "map snd (sent s) \<in> {map snd (sent st), map snd (sent st) @ [TransferKeepAlive TARGET 1000000000000000]}"
    by (auto simp: sends_def le_Suc_eq)
  moreover have "connected s"
  proof -
    have "connected (res_state (fs_native_transfer api admin (fs_connect api admin st)))"
      by (simp add: fs_native_transfer_def fs_send_connected)
    with assms show ?thesis by simp
  qed
  ultimately show ?thesis using assms by (simp add: fs_main_def)
qed

theorem fs_native_failure_aborts_main_witness:
  "\<exists>e s. fs_native_transfer failing_node ''admin'' (fs_connect failing_node ''admin''
       (\<lparr>chain = (), console = [], sent = [], connected = False, nonce = 0\<rparr> :: unit fs_state)) = Throw e s \<and>
     fs_main failing_node ''admin''
       (\<lparr>chain = (), console = [], sent = [], connected = False, nonce = 0\<rparr> :: unit fs_state) = Throw e s \<and>
     connected s \<and>
     map snd (sent s) \<in> {map snd (sent (\<lparr>chain = (), console = [], sent = [], connected = False, nonce = 0\<rparr> :: unit fs_state)),
        map snd (sent (\<lparr>chain = (), console = [], sent = [], connected = False, nonce = 0\<rparr> :: unit fs_state)) @
          [TransferKeepAlive TARGET 1000000000000000]}"
proof -
  obtain e s where h: "fs_native_transfer failing_node ''admin'' (fs_connect failing_node ''admin''
       (\<lparr>chain = (), console = [], sent = [], connected = False, nonce = 0\<rparr> :: unit fs_state)) = Throw e s"
    by (auto simp: fs_native_transfer_def fs_send_def sign_and_send_def run_subscription_def
        failing_node_def inblock_node_def on_status_in_block_def Let_def fits_u128_def)
  show ?thesis using h fs_native_failure_aborts_main [OF h] by blast
qed

text \<open>
  The asset table of \<^verbatim>\<open>full-setup-sudo.ts\<close> is well formed for the script:
  asset ids and pool ids are distinct, and every amount and decimals value the
  script derives from it passes bn.js and the codec (balances below \<open>2^128\<close>,
  decimals below 256).
\<close>

theorem fs_assets_well_formed:
  "distinct (map cfg_id assets) \<and> distinct (map cfg_poolId assets) \<and>
   list_all (\<lambda>a. cfg_decimals a < 2 ^ 53 \<and>
       call_encodable (Mint (cfg_id a) admin (1000000 * 10 ^ cfg_decimals a)) \<and>
       call_encodable (AssetsTransfer (cfg_id a) TARGET (10000 * 10 ^ cfg_decimals a)) \<and>
       call_encodable (CreateLendingPool (cfg_poolId a) (WithId (cfg_id a)) (10000 * 10 ^ cfg_decimals a)) \<and>
       call_encodable (SetMetadata (cfg_id a) (cfg_name a) (cfg_symbol a) (cfg_decimals a))) assets"
  by (simp add: assets_def fits_u128_def)

end
