(* ===== verification/CreateLendingPool.thy ===== *)
theory CreateLendingPool
  imports Script
begin

text \<open>
  \<^verbatim>\<open>src/create-lending-pool.ts\<close>: a native transfer to the target, then one
  \<^verbatim>\<open>lending.createLendingPool\<close> per asset of its table. It differs from
  \<^verbatim>\<open>full-setup-sudo.ts\<close> in three ways the model keeps: every await waits for
  finality (\<open>on_status_finalized\<close>), no nonce is passed (polkadot.js asks the
  node for the next index, \<open>None\<close> in the model), and the pool amount is the
  inline expression \<open>clp_pool_amount\<close>. A failure in the loop is printed and
  breaks it; the closing line is printed in any case.
\<close>

section \<open>Configuration\<close>

record asset_info =
  ai_name :: string
  assetId :: asset_id
  ai_decimals :: nat
  ai_poolId :: pool_id

definition clp_WS_ENDPOINT :: string where
  "clp_WS_ENDPOINT = ''ws://127.0.0.1:9944''"

text \<open>\<^verbatim>\<open>ADMIN\<close> is declared and never used; it is the address of \<^verbatim>\<open>//Alice\<close>.\<close>

definition clp_ADMIN :: account where
  "clp_ADMIN = ''5GrwvaEF5zXb26Fz9rcQpDWS57CtERHpNehXCPcNoHGKutQY''"

definition clp_TARGET :: account where
  "clp_TARGET = ''5EYCAe5hjcu8UT2sh5HhPXrLgSbTtxpeQZCKAjvgSJPmc7LA''"

definition clp_assets :: "asset_info list" where
  "clp_assets =
     [\<lparr>ai_name = ''USD'', assetId = 1, ai_decimals = 1, ai_poolId = 1001\<rparr>,
      \<lparr>ai_name = ''Tether'', assetId = 2, ai_decimals = 1, ai_poolId = 1002\<rparr>,
      \<lparr>ai_name = ''USD Coin'', assetId = 3, ai_decimals = 1, ai_poolId = 1003\<rparr>,
      \<lparr>ai_name = ''Solana'', assetId = 101, ai_decimals = 9, ai_poolId = 1101\<rparr>,
      \<lparr>ai_name = ''Ethereum'', assetId = 102, ai_decimals = 18, ai_poolId = 1102\<rparr>,
      \<lparr>ai_name = ''Bitcoin'', assetId = 103, ai_decimals = 8, ai_poolId = 1103\<rparr>,
      \<lparr>ai_name = ''Sui'', assetId = 104, ai_decimals = 9, ai_poolId = 1104\<rparr>]"

section \<open>Operations\<close>

text \<open>\<^verbatim>\<open>tx.signAndSend(alice, cb)\<close> awaited under the finalized policy.\<close>

definition clp_send ::
  "'n node_api \<Rightarrow> account \<Rightarrow> string \<Rightarrow> (block_hash \<Rightarrow> string) \<Rightarrow> call \<Rightarrow>
   ('n, 'm) session_scheme \<Rightarrow> ('n, 'm) session_scheme res" where
  "clp_send api alice what okmsg c s = sign_and_send api AtFinalized alice None what okmsg c s"

text \<open>Lines 36--53.\<close>

definition clp_native_transfer ::
  "'n node_api \<Rightarrow> account \<Rightarrow> ('n, 'm) session_scheme \<Rightarrow> ('n, 'm) session_scheme res" where
  "clp_native_transfer api alice s =
     clp_send api alice ''Native transfer failed: ''
       (\<lambda>h. ''Native transfer in block '' @ show_nat h)
       (TransferKeepAlive clp_TARGET 1000000000000000)
       (say [Log (''Transferring native balance to '' @ clp_TARGET @ '' ...'')] s)"

text \<open>The body of the \<^verbatim>\<open>try\<close> block, lines 58--74.\<close>

definition clp_create_pool ::
  "'n node_api \<Rightarrow> account \<Rightarrow> asset_info \<Rightarrow> ('n, 'm) session_scheme \<Rightarrow> ('n, 'm) session_scheme res" where
  "clp_create_pool api alice a s =
     (let s1 = say [Log (''\<newline>Creating lending pool for '' @ ai_name a @ '' (asset '' @
                         show_nat (assetId a) @ '') ...'')] s
      in case clp_pool_amount (ai_decimals a) of
           Inl e \<Rightarrow> Throw (BnFailed e) s1
         | Inr amount \<Rightarrow>
             clp_send api alice ''Pool failed: ''
               (\<lambda>h. ''Pool '' @ show_nat (ai_poolId a) @ '' in block '' @ show_nat h)
               (CreateLendingPool (ai_poolId a) (WithId (assetId a)) amount) s1)"

text \<open>The loop with its \<^verbatim>\<open>catch\<close> and \<^verbatim>\<open>break\<close>, lines 56--79.\<close>

fun clp_loop ::
  "'n node_api \<Rightarrow> account \<Rightarrow> asset_info list \<Rightarrow> ('n, 'm) session_scheme \<Rightarrow> ('n, 'm) session_scheme res" where
  "clp_loop api alice [] s = Ok s"
| "clp_loop api alice (a # as) s =
     (case clp_create_pool api alice a s of
        Ok s' \<Rightarrow> clp_loop api alice as s'
      | Throw e s' \<Rightarrow> Ok (say [LogError (''Error for '' @ ai_name a @ '':'')] s')
      | Hang s' \<Rightarrow> Hang s')"

text \<open>Lines 81--82: the closing line and \<^verbatim>\<open>api.disconnect()\<close>.\<close>

definition clp_finish :: "('n, 'm) session_scheme \<Rightarrow> ('n, 'm) session_scheme res" where
  "clp_finish s = Ok ((say [Log ''\<newline>All lending pools created successfully.''] s)\<lparr>connected := False\<rparr>)"

text \<open>\<^verbatim>\<open>main()\<close>, lines 25--83.\<close>

definition clp_main ::
  "'n node_api \<Rightarrow> account \<Rightarrow> ('n, 'm) session_scheme \<Rightarrow> ('n, 'm) session_scheme res" where
  "clp_main api alice s =
     (let s1 = (say [Log (''Connecting to node: '' @ clp_WS_ENDPOINT)] s)\<lparr>connected := True\<rparr>;
          s2 = say [Log (''Connected to chain: '' @ chain_name api (chain s1)),
                    Log (''Using admin: '' @ alice)] s1
      in res_bind (clp_native_transfer api alice s2)
           (\<lambda>s3. res_bind (clp_loop api alice clp_assets s3) clp_finish))"

section \<open>Lemmas\<close>

definition clp_pool_call :: "asset_info \<Rightarrow> call" where
  "clp_pool_call a = CreateLendingPool (ai_poolId a) (WithId (assetId a)) (10000 * 10 ^ ai_decimals a)"

lemma clp_create_pool_sends:
  assumes "base = map snd (sent s)"
  shows "sends base [clp_pool_call a] (clp_create_pool api alice a s)"
proof (cases "ai_decimals a < 2 ^ 53")
  case True
  then have "clp_pool_amount (ai_decimals a) = Inr (10000 * 10 ^ ai_decimals a)"
    by (simp add: clp_pool_amount_def)
  with assms show ?thesis
    by (auto simp: clp_create_pool_def clp_send_def clp_pool_call_def Let_def
        intro!: sign_and_send_sends_base)
next
  case False
  then have "clp_pool_amount (ai_decimals a) = Inl BnAssertionFailed"
    by (simp add: clp_pool_amount_def)
  with assms show ?thesis by (simp add: clp_create_pool_def Let_def sends_Throw)
qed

lemma clp_loop_sends_upto:
  "base = map snd (sent s) \<Longrightarrow> sends_upto base (map clp_pool_call as) (clp_loop api alice as s)"
proof (induction as arbitrary: s base)
  case Nil
  then show ?case by (simp add: sends_upto_def)
next
  case (Cons a as)
  show ?case
    unfolding clp_loop.simps list.map
    by (rule sends_upto_catch) (use Cons.prems in \<open>auto intro!: clp_create_pool_sends Cons.IH\<close>)
qed

lemma clp_native_transfer_sends:
  "base = map snd (sent s) \<Longrightarrow>
     sends base [TransferKeepAlive clp_TARGET 1000000000000000] (clp_native_transfer api alice s)"
  by (auto simp: clp_native_transfer_def clp_send_def intro!: sign_and_send_sends_base)

lemma sends_upto_finish:
  "sends_upto base cs r \<Longrightarrow> sends_upto base cs (res_bind r clp_finish)"
  by (cases r) (simp_all add: sends_upto_def clp_finish_def)

text \<open>A property of the session that each submission keeps, whatever the node
  answers, and that printing does not touch, holds after the loop on each of its ends.\<close>

lemma clp_loop_res_all:
  assumes send: "\<And>pol signer n what okmsg c s. P s \<Longrightarrow> res_all P (sign_and_send api pol signer n what okmsg c s)"
    and say: "\<And>ls s. P (say ls s) = P s" and "P s"
  shows "res_all P (clp_loop api alice as s)"
  using assms(3)
proof (induction as arbitrary: s)
  case Nil
  then show ?case by simp
next
  case (Cons a as)
  have "res_all P (clp_create_pool api alice a s)"
    using Cons.prems by (auto simp: clp_create_pool_def clp_send_def Let_def say intro!: send split: sum.splits)
  with Cons.IH show ?case
    by (cases "clp_create_pool api alice a s") (simp_all add: say)
qed

section \<open>Properties\<close>

text \<open>
  C13. \<^verbatim>\<open>create-lending-pool.ts\<close> sends, whatever the node answers, a prefix of
  this sequence: the native transfer of \<open>10^15\<close> units to the target, then one
  \<^verbatim>\<open>createLendingPool(poolId, { WithId: assetId }, 10^4 \<cdot> 10^decimals)\<close> per
  asset, in the order of the table.
\<close>

theorem clp_main_sends_prefix:
  "\<exists>k. map snd (sent (res_state (clp_main api alice s))) =
        map snd (sent s) @ take k (TransferKeepAlive clp_TARGET 1000000000000000 # map clp_pool_call clp_assets)"
proof -
  let ?s2 = "say [Log (''Connected to chain: '' @ chain_name api (chain s)), Log (''Using admin: '' @ alice)]
               ((say [Log (''Connecting to node: '' @ clp_WS_ENDPOINT)] s)\<lparr>connected := True\<rparr>)"
  have "sends_upto (map snd (sent s)) ([TransferKeepAlive clp_TARGET 1000000000000000] @ map clp_pool_call clp_assets)
          (res_bind (clp_native_transfer api alice ?s2) (\<lambda>s3. res_bind (clp_loop api alice clp_assets s3) clp_finish))"
    by (rule sends_upto_bind)
       (auto intro!: clp_native_transfer_sends sends_upto_finish clp_loop_sends_upto)
  then show ?thesis by (simp add: clp_main_def sends_upto_def)
qed

text \<open>
  C14. As in \<^verbatim>\<open>full-setup-sudo.ts\<close>, a failed pool creation breaks the loop:
  no pool is requested for a later asset, and the script still prints
  \<^verbatim>\<open>All lending pools created successfully.\<close> and disconnects.
\<close>

theorem clp_break_still_reports_success:
  assumes "clp_create_pool api alice a s = Throw e s'"
  shows "\<exists>s''. res_bind (clp_loop api alice (a # as) s) clp_finish = Ok s'' \<and>
             sent s'' = sent s' \<and> \<not> connected s'' \<and>
             Log ''\<newline>All lending pools created successfully.'' \<in> set (console s'')"
  using assms by (simp add: clp_finish_def)

theorem clp_break_still_reports_success_witness:
  "\<exists>e s'. clp_create_pool failing_node ''alice'' (hd clp_assets)
       (\<lparr>chain = (), console = [], sent = [], connected = True\<rparr> :: unit session) = Throw e s' \<and>
     (\<exists>s''. res_bind (clp_loop failing_node ''alice'' (hd clp_assets # tl clp_assets)
              (\<lparr>chain = (), console = [], sent = [], connected = True\<rparr> :: unit session)) clp_finish = Ok s'' \<and>
          sent s'' = sent s' \<and> \<not> connected s'' \<and>
          Log ''\<newline>All lending pools created successfully.'' \<in> set (console s''))"
proof -
  obtain e s' where h: "clp_create_pool failing_node ''alice'' (hd clp_assets)
       (\<lparr>chain = (), console = [], sent = [], connected = True\<rparr> :: unit session) = Throw e s'"
    by (auto simp: clp_create_pool_def clp_pool_amount_def clp_send_def clp_assets_def sign_and_send_def
        run_subscription_def failing_node_def inblock_node_def on_status_finalized_def Let_def fits_u128_def)
  show ?thesis using h clp_break_still_reports_success [OF h, of "tl clp_assets"] by auto
qed

end
