(* ===== verification/SetMetadata.thy ===== *)
theory SetMetadata
  imports Script
begin

text \<open>
  \<^verbatim>\<open>src/set-asset-metadata.ts\<close>: for each asset of its table, submit
  \<^verbatim>\<open>assets.setMetadata(id, name, symbol, decimals)\<close>, wait for it to be in a
  block, and print the stored metadata. The loop has no \<^verbatim>\<open>try\<close>: the first
  failure rejects \<^verbatim>\<open>main()\<close>, so the remaining assets are left alone and the
  api is not disconnected.
\<close>

section \<open>Configuration\<close>

definition sma_RPC :: string where
  "sma_RPC = ''ws://127.0.0.1:9944''"

definition sma_assets :: "meta_asset list" where
  "sma_assets =
     [\<lparr>ma_id = 101, ma_name = ''Solana'', ma_symbol = ''SOL'', ma_decimals = 9\<rparr>,
      \<lparr>ma_id = 104, ma_name = ''Sui'', ma_symbol = ''SUI'', ma_decimals = 9\<rparr>,
      \<lparr>ma_id = 103, ma_name = ''Bitcoin'', ma_symbol = ''BTC'', ma_decimals = 8\<rparr>,
      \<lparr>ma_id = 102, ma_name = ''Ethereum'', ma_symbol = ''ETH'', ma_decimals = 18\<rparr>]"

section \<open>Operations\<close>

text \<open>The loop body, lines 26--53.\<close>

definition sma_step ::
  "'n node_api \<Rightarrow> account \<Rightarrow> meta_asset \<Rightarrow> ('n, 'm) session_scheme \<Rightarrow> ('n, 'm) session_scheme res" where
  "sma_step api admin a s =
     res_bind
       (sign_and_send api AtInBlock admin None ''''
          (\<lambda>h. ''Metadata set for '' @ ma_name a @ '' in block '' @ show_nat h)
          (SetMetadata (ma_id a) (ma_name a) (ma_symbol a) (ma_decimals a))
          (say [Log (''\<newline>Setting metadata for '' @ ma_name a @ '' (id='' @ show_nat (ma_id a) @ '')'')] s))
       (\<lambda>s'. Ok (say [LogValue ''Metadata confirmed:''
                         (map_option (\<lambda>(n, sy, d). QMetadata n sy d) (query_metadata api (chain s') (ma_id a)))] s'))"

text \<open>The \<^verbatim>\<open>for ... of\<close> loop, lines 25--54: a failure propagates.\<close>

fun sma_loop ::
  "'n node_api \<Rightarrow> account \<Rightarrow> meta_asset list \<Rightarrow> ('n, 'm) session_scheme \<Rightarrow> ('n, 'm) session_scheme res" where
  "sma_loop api admin [] s = Ok s"
| "sma_loop api admin (a # as) s = res_bind (sma_step api admin a s) (sma_loop api admin as)"

text \<open>Lines 15--23: connect, print the chain and the admin.\<close>

definition sma_open ::
  "'n node_api \<Rightarrow> account \<Rightarrow> ('n, 'm) session_scheme \<Rightarrow> ('n, 'm) session_scheme" where
  "sma_open api admin s =
     (let s1 = (say [Log (''Connecting to node: '' @ sma_RPC)] s)\<lparr>connected := True\<rparr>
      in say [Log (''Connected to chain: '' @ chain_name api (chain s1)),
              Log (''Using admin: '' @ admin)] s1)"

text \<open>\<^verbatim>\<open>main()\<close>, lines 15--58: \<^verbatim>\<open>api.disconnect()\<close> comes before the closing line.\<close>

definition sma_main ::
  "'n node_api \<Rightarrow> account \<Rightarrow> ('n, 'm) session_scheme \<Rightarrow> ('n, 'm) session_scheme res" where
  "sma_main api admin s =
     res_bind (sma_loop api admin sma_assets (sma_open api admin s))
       (\<lambda>s3. Ok (say [Log ''\<newline>All metadata updated successfully''] (s3\<lparr>connected := False\<rparr>)))"

section \<open>Lemmas\<close>

definition sma_call :: "meta_asset \<Rightarrow> call" where
  "sma_call a = SetMetadata (ma_id a) (ma_name a) (ma_symbol a) (ma_decimals a)"

lemma sma_step_sends:
  "base = map snd (sent s) \<Longrightarrow> sends base [sma_call a] (sma_step api admin a s)"
  unfolding sma_step_def sma_call_def
  by (rule sends_bind1) (auto intro!: sign_and_send_sends_base sends_Ok_say)

lemma sma_loop_sends:
  "base = map snd (sent s) \<Longrightarrow> sends base (map sma_call as) (sma_loop api admin as s)"
proof (induction as arbitrary: s base)
  case Nil
  then show ?case by simp
next
  case (Cons a as)
  show ?case
    unfolding sma_loop.simps list.map
    by (rule sends_bind1) (use Cons.prems in \<open>auto intro!: sma_step_sends Cons.IH\<close>)
qed

lemma sma_loop_append:
  "sma_loop api admin as s = Ok s1 \<Longrightarrow> sma_loop api admin (as @ bs) s = sma_loop api admin bs s1"
proof (induction as arbitrary: s)
  case Nil
  then show ?case by simp
next
  case (Cons a as)
  then show ?case by (cases "sma_step api admin a s") simp_all
qed

lemma sma_step_connected:
  "connected (res_state (sma_step api admin a s)) = connected s"
  unfolding sma_step_def by (subst res_bind_connected) simp_all

lemma sma_loop_connected:
  "connected (res_state (sma_loop api admin as s)) = connected s"
proof (induction as arbitrary: s)
  case Nil
  then show ?case by simp
next
  case (Cons a as)
  show ?case
    using Cons.IH sma_step_connected [of api admin a s]
    by (cases "sma_step api admin a s") simp_all
qed

text \<open>A property of the session that each submission keeps, whatever the node
  answers, and that printing does not touch, holds after the loop on each of its ends.\<close>

lemma sma_loop_res_all:
  assumes send: "\<And>pol signer n what okmsg c s. P s \<Longrightarrow> res_all P (sign_and_send api pol signer n what okmsg c s)"
    and say: "\<And>ls s. P (say ls s) = P s" and "P s"
  shows "res_all P (sma_loop api admin as s)"
  using assms(3)
  by (induction as arbitrary: s) (auto simp: sma_step_def say intro!: res_all_bind send)

section \<open>Properties\<close>

text \<open>
  C15. \<^verbatim>\<open>set-asset-metadata.ts\<close> submits \<^verbatim>\<open>setMetadata(id, name, symbol,
  decimals)\<close> for every asset of its table, in table order, when it completes;
  when a submission fails or never completes, the run stops there, having sent a
  prefix of that sequence.
\<close>

theorem sma_main_sends:
  "sends (map snd (sent s)) (map sma_call sma_assets) (sma_main api admin s)"
proof -
  have "sends (map snd (sent s)) (map sma_call sma_assets @ []) (sma_main api admin s)"
    unfolding sma_main_def sma_open_def Let_def
    apply (rule sends_bind)
    subgoal by (rule sma_loop_sends) simp
    subgoal by (simp add: sends_def)
    done
  then show ?thesis by simp
qed

text \<open>
  C16. The loop of \<^verbatim>\<open>set-asset-metadata.ts\<close> has no \<^verbatim>\<open>try\<close>: when the
  \<^verbatim>\<open>setMetadata\<close> of one asset is rejected after the earlier assets went
  through, \<^verbatim>\<open>main()\<close> rejects with that error, no later asset is submitted,
  and the api is left connected, since \<^verbatim>\<open>api.disconnect()\<close> is never reached.
\<close>

theorem sma_rejection_ends_main:
  assumes "sma_assets = as @ a # bs"
    and "sma_loop api admin as (sma_open api admin s) = Ok s1"
    and "sma_step api admin a s1 = Throw e s'"
  shows "sma_main api admin s = Throw e s' \<and> connected s' \<and>
         map snd (sent s') \<in> {map snd (sent s) @ map sma_call as, map snd (sent s) @ map sma_call as @ [sma_call a]}"
proof -
  have loop: "sma_loop api admin sma_assets (sma_open api admin s) = Throw e s'"
    using sma_loop_append [OF assms(2), of "a # bs"] assms(1,3) by simp
  have "connected s' = connected (sma_open api admin s)"
    using sma_loop_connected [of api admin sma_assets "sma_open api admin s"] loop by simp
  moreover have "map snd (sent s1) = map snd (sent s) @ map sma_call as"
    using sma_loop_sends [OF refl, where s = "sma_open api admin s" and api = api and admin = admin and as = as] assms(2)
    by (simp add: sma_open_def Let_def sends_def)
  moreover have "sends (map snd (sent s1)) [sma_call a] (Throw e s')"
    using sma_step_sends [OF refl, where s = s1 and api = api and admin = admin and a = a] assms(3) by simp
  ultimately show ?thesis
    using loop by (auto simp: sma_main_def sma_open_def Let_def sends_def le_Suc_eq)
qed

theorem sma_rejection_ends_main_witness:
  "\<exists>e s'. sma_assets = [] @ hd sma_assets # tl sma_assets \<and>
     sma_loop failing_node ''alice'' [] (sma_open failing_node ''alice''
       (\<lparr>chain = (), console = [], sent = [], connected = False\<rparr> :: unit session)) =
       Ok (sma_open failing_node ''alice'' (\<lparr>chain = (), console = [], sent = [], connected = False\<rparr> :: unit session)) \<and>
     sma_step failing_node ''alice'' (hd sma_assets)
       (sma_open failing_node ''alice'' (\<lparr>chain = (), console = [], sent = [], connected = False\<rparr> :: unit session)) =
       Throw e s' \<and>
     sma_main failing_node ''alice'' (\<lparr>chain = (), console = [], sent = [], connected = False\<rparr> :: unit session) =
       Throw e s' \<and> connected s' \<and>
     map snd (sent s') \<in> {map snd (sent (\<lparr>chain = (), console = [], sent = [], connected = False\<rparr> :: unit session)) @ map sma_call [],
       map snd (sent (\<lparr>chain = (), console = [], sent = [], connected = False\<rparr> :: unit session)) @ map sma_call [] @ [sma_call (hd sma_assets)]}"
proof -
  let ?s = "\<lparr>chain = (), console = [], sent = [], connected = False\<rparr> :: unit session"
  have h1: "sma_assets = [] @ hd sma_assets # tl sma_assets" by (simp add: sma_assets_def)
  have h2: "sma_loop failing_node ''alice'' [] (sma_open failing_node ''alice'' ?s) = Ok (sma_open failing_node ''alice'' ?s)"
    by simp
  obtain e s' where h3: "sma_step failing_node ''alice'' (hd sma_assets) (sma_open failing_node ''alice'' ?s) = Throw e s'"
    by (simp add: sma_assets_def sma_step_def sign_and_send_def run_subscription_def sma_open_def
        failing_node_def inblock_node_def on_status_in_block_def Let_def)
  show ?thesis using h1 h2 h3 sma_rejection_ends_main [OF h1 h2 h3] by blast
qed

end
