(* ===== verification/LendingPoolScripts.thy ===== *)
theory LendingPoolScripts
  imports Script
begin

text \<open>
  The two scripts of \<^verbatim>\<open>src/lending-pool/\<close>. \<^verbatim>\<open>create-assets.ts\<close> creates each
  asset of its table and sets its metadata, skipping (\<^verbatim>\<open>continue\<close>) an asset
  the chain already has. \<^verbatim>\<open>mint-transfer.ts\<close> mints \<open>10^6\<close> tokens of each
  existing asset to the admin and transfers \<open>10^4\<close> to \<^verbatim>\<open>RECEIVER\<close>, skipping
  an asset the chain does not have. Both wait for inclusion in a block, pass no
  explicit nonce, and have no \<^verbatim>\<open>try\<close>: a failure rejects \<^verbatim>\<open>main()\<close>.
\<close>

section \<open>create-assets.ts\<close>

definition ca_RPC :: string where
  "ca_RPC = ''ws://127.0.0.1:9944''"

definition ca_assets :: "meta_asset list" where
  "ca_assets =
     [\<lparr>ma_id = 101, ma_name = ''Solana'', ma_symbol = ''SOL'', ma_decimals = 9\<rparr>,
      \<lparr>ma_id = 102, ma_name = ''Ethereum'', ma_symbol = ''ETH'', ma_decimals = 18\<rparr>,
      \<lparr>ma_id = 103, ma_name = ''Bitcoin'', ma_symbol = ''BTC'', ma_decimals = 8\<rparr>,
      \<lparr>ma_id = 104, ma_name = ''Sui'', ma_symbol = ''SUI'', ma_decimals = 9\<rparr>]"

text \<open>The loop body, lines 26--81.\<close>

definition ca_step ::
  "'n node_api \<Rightarrow> account \<Rightarrow> meta_asset \<Rightarrow> ('n, 'm) session_scheme \<Rightarrow> ('n, 'm) session_scheme res" where
  "ca_step api admin a s =
     (let s1 = say [Log (''\<newline>Creating asset '' @ ma_name a @ '' (id='' @ show_nat (ma_id a) @ '')'')] s
      in if query_asset api (chain s1) (ma_id a)
         then Ok (say [Log (''Asset '' @ show_nat (ma_id a) @ '' already exists. Skipping creation.'')] s1)
         else
           res_bind
             (sign_and_send api AtInBlock admin None ''''
                (\<lambda>h. ''Created asset '' @ show_nat (ma_id a) @ '' in block '' @ show_nat h)
                (AssetsCreate (ma_id a) admin 1) s1)
             (\<lambda>s2. res_bind
                (sign_and_send api AtInBlock admin None ''''
                   (\<lambda>h. ''Metadata set for '' @ ma_name a @ '' in block '' @ show_nat h)
                   (SetMetadata (ma_id a) (ma_name a) (ma_symbol a) (ma_decimals a)) s2)
                (\<lambda>s3. Ok (say [LogValue ''Metadata confirmed:''
                                 (map_option (\<lambda>(n, sy, d). QMetadata n sy d)
                                    (query_metadata api (chain s3) (ma_id a)))] s3))))"

fun ca_loop ::
  "'n node_api \<Rightarrow> account \<Rightarrow> meta_asset list \<Rightarrow> ('n, 'm) session_scheme \<Rightarrow> ('n, 'm) session_scheme res" where
  "ca_loop api admin [] s = Ok s"
| "ca_loop api admin (a # as) s = res_bind (ca_step api admin a s) (ca_loop api admin as)"

text \<open>\<^verbatim>\<open>main()\<close>, lines 15--88.\<close>

definition ca_main ::
  "'n node_api \<Rightarrow> account \<Rightarrow> ('n, 'm) session_scheme \<Rightarrow> ('n, 'm) session_scheme res" where
  "ca_main api admin s =
     (let s1 = (say [Log (''Connecting to node: '' @ ca_RPC)] s)\<lparr>connected := True\<rparr>;
          s2 = say [Log (''Connected to chain: '' @ chain_name api (chain s1)),
                    Log (''Using admin: '' @ admin)] s1
      in res_bind (ca_loop api admin ca_assets s2)
           (\<lambda>s3. Ok ((say [Log ''\<newline>All assets created successfully!''] s3)\<lparr>connected := False\<rparr>)))"

section \<open>mint-transfer.ts\<close>

definition mt_RPC :: string where
  "mt_RPC = ''ws://127.0.0.1:9944''"

definition mt_RECEIVER :: account where
  "mt_RECEIVER = ''5GrwvaEF5zXb26Fz9rcQpDWS57CtERHpNehXCPcNoHGKutQY''"

definition mt_assets :: "meta_asset list" where
  "mt_assets =
     [\<lparr>ma_id = 1, ma_name = ''USD'', ma_symbol = ''USD'', ma_decimals = 1\<rparr>,
      \<lparr>ma_id = 101, ma_name = ''Solana'', ma_symbol = ''SOL'', ma_decimals = 9\<rparr>,
      \<lparr>ma_id = 102, ma_name = ''Ethereum'', ma_symbol = ''ETH'', ma_decimals = 18\<rparr>,
      \<lparr>ma_id = 103, ma_name = ''Bitcoin'', ma_symbol = ''BTC'', ma_decimals = 8\<rparr>,
      \<lparr>ma_id = 104, ma_name = ''Sui'', ma_symbol = ''SUI'', ma_decimals = 9\<rparr>]"

text \<open>\<^verbatim>\<open>const x = toChainUnits(amount, decimals)\<close> inside the loop body (lines 45
  and 66), with the script's own \<^verbatim>\<open>toChainUnits\<close>: a bn.js assertion throws.\<close>

definition mt_with_units :: "nat \<Rightarrow> nat \<Rightarrow> (balance \<Rightarrow> 's \<Rightarrow> 's res) \<Rightarrow> 's \<Rightarrow> 's res" where
  "mt_with_units amount decimals k s =
     (case mt_toChainUnits amount decimals of Inl e \<Rightarrow> Throw (BnFailed e) s | Inr v \<Rightarrow> k v s)"

text \<open>The loop body, lines 36--88. \<^verbatim>\<open>console.warn\<close> writes to standard error.\<close>

definition mt_step ::
  "'n node_api \<Rightarrow> account \<Rightarrow> meta_asset \<Rightarrow> ('n, 'm) session_scheme \<Rightarrow> ('n, 'm) session_scheme res" where
  "mt_step api admin a s =
     (let s1 = say [Log (''\<newline>Processing '' @ ma_symbol a @ '' (id='' @ show_nat (ma_id a) @ '')'')] s
      in if \<not> query_asset api (chain s1) (ma_id a)
         then Ok (say [LogError (''Asset '' @ show_nat (ma_id a) @ '' ('' @ ma_symbol a @
                                  '') does not exist! Skipping.'')] s1)
         else
           mt_with_units 1000000 (ma_decimals a) (\<lambda>mintAmount s2.
             res_bind
               (sign_and_send api AtInBlock admin None ''Mint failed: ''
                  (\<lambda>_. ''Minted '' @ show_nat mintAmount @ '' '' @ ma_symbol a @ '' to admin'')
                  (Mint (ma_id a) admin mintAmount) s2)
               (\<lambda>s3. mt_with_units 10000 (ma_decimals a) (\<lambda>transferAmount s4.
                  res_bind
                    (sign_and_send api AtInBlock admin None ''Transfer failed: ''
                       (\<lambda>_. ''Transferred '' @ show_nat transferAmount @ '' '' @ ma_symbol a @ '' to Alice'')
                       (AssetsTransfer (ma_id a) mt_RECEIVER transferAmount) s4)
                    (\<lambda>s5. Ok (say [LogValue (''Alice'' @ [CHR 0x27] @ ''s '' @ ma_symbol a @ '' balance:'')
                                     (map_option QAssetAccount
                                        (query_account api (chain s5) (ma_id a) mt_RECEIVER))] s5))) s3)) s1)"

fun mt_loop ::
  "'n node_api \<Rightarrow> account \<Rightarrow> meta_asset list \<Rightarrow> ('n, 'm) session_scheme \<Rightarrow> ('n, 'm) session_scheme res" where
  "mt_loop api admin [] s = Ok s"
| "mt_loop api admin (a # as) s = res_bind (mt_step api admin a s) (mt_loop api admin as)"

text \<open>\<^verbatim>\<open>main()\<close>, lines 23--95.\<close>

definition mt_main ::
  "'n node_api \<Rightarrow> account \<Rightarrow> ('n, 'm) session_scheme \<Rightarrow> ('n, 'm) session_scheme res" where
  "mt_main api admin s =
     (let s1 = (say [Log (''Connecting to node: '' @ mt_RPC)] s)\<lparr>connected := True\<rparr>;
          s2 = say [Log (''Connected to chain: '' @ chain_name api (chain s1)),
                    Log (''Admin: '' @ admin), Log (''Receiver: '' @ mt_RECEIVER)] s1
      in res_bind (mt_loop api admin mt_assets s2)
           (\<lambda>s3. Ok ((say [Log ''\<newline>All assets minted and transferred successfully!''] s3)\<lparr>connected := False\<rparr>)))"

section \<open>Lemmas\<close>

lemma mt_with_units_with_units [simp]: "mt_with_units = with_units"
  by (simp add: fun_eq_iff mt_with_units_def with_units_def mt_toChainUnits_toChainUnits)

lemma ca_step_sends:
  "base = map snd (sent s) \<Longrightarrow>
   sends base
     (if query_asset api (chain s) (ma_id a) then []
      else [AssetsCreate (ma_id a) admin 1, SetMetadata (ma_id a) (ma_name a) (ma_symbol a) (ma_decimals a)])
     (ca_step api admin a s)"
  unfolding ca_step_def Let_def
  by (auto intro!: sends_bind1 sign_and_send_sends_base sends_Ok_say)

lemma mt_step_sends:
  "base = map snd (sent s) \<Longrightarrow>
   sends base
     (if query_asset api (chain s) (ma_id a)
      then [Mint (ma_id a) admin (1000000 * 10 ^ ma_decimals a),
            AssetsTransfer (ma_id a) mt_RECEIVER (10000 * 10 ^ ma_decimals a)]
      else [])
     (mt_step api admin a s)"
proof (cases "ma_decimals a < 2 ^ 53")
  case True
  assume "base = map snd (sent s)"
  with True show ?thesis
    unfolding mt_step_def Let_def
    by (auto intro!: sends_bind1 sign_and_send_sends_base sends_Ok_say)
next
  case False
  assume b: "base = map snd (sent s)"
  from False have "toChainUnits 1000000 (ma_decimals a) = Inl BnAssertionFailed"
    by (simp add: toChainUnits_def)
  with b show ?thesis
    by (auto simp: mt_step_def Let_def with_units_def sends_Throw intro!: sends_Ok_say)
qed

lemma ca_step_skip:
  "query_asset api (chain s) (ma_id a) \<Longrightarrow>
     \<exists>s'. ca_step api admin a s = Ok s' \<and> sent s' = sent s \<and> chain s' = chain s"
  by (simp add: ca_step_def Let_def)

text \<open>A property of the session that each submission keeps, whatever the node
  answers, and that printing does not touch, holds after the loop on each of its ends.\<close>

lemma ca_loop_res_all:
  assumes send: "\<And>pol signer n what okmsg c s. P s \<Longrightarrow> res_all P (sign_and_send api pol signer n what okmsg c s)"
    and say: "\<And>ls s. P (say ls s) = P s" and "P s"
  shows "res_all P (ca_loop api admin as s)"
  using assms(3)
  by (induction as arbitrary: s) (auto simp: ca_step_def Let_def say intro!: res_all_bind send)

lemma mt_loop_res_all:
  assumes send: "\<And>pol signer n what okmsg c s. P s \<Longrightarrow> res_all P (sign_and_send api pol signer n what okmsg c s)"
    and say: "\<And>ls s. P (say ls s) = P s" and "P s"
  shows "res_all P (mt_loop api admin as s)"
  using assms(3)
  by (induction as arbitrary: s) (auto simp: mt_step_def Let_def say intro!: res_all_bind with_units_res_all send)

section \<open>Properties\<close>

text \<open>
  C17. \<^verbatim>\<open>create-assets.ts\<close> is idempotent on a chain that already has its
  assets: when every asset of the table is reported present, the run completes
  without submitting any extrinsic and leaves the chain as it was.
\<close>

theorem ca_loop_idempotent:
  assumes "list_all (\<lambda>a. query_asset api (chain s) (ma_id a)) as"
  shows "\<exists>s'. ca_loop api admin as s = Ok s' \<and> sent s' = sent s \<and> chain s' = chain s"
  using assms
proof (induction as arbitrary: s)
  case Nil
  then show ?case by simp
next
  case (Cons a as)
  from Cons.prems obtain s1 where s1: "ca_step api admin a s = Ok s1"
    and same: "sent s1 = sent s" "chain s1 = chain s"
    using ca_step_skip [of api s a admin] by auto
  from Cons.prems same have "list_all (\<lambda>a. query_asset api (chain s1) (ma_id a)) as" by simp
  then obtain s2 where "ca_loop api admin as s1 = Ok s2" "sent s2 = sent s1" "chain s2 = chain s1"
    using Cons.IH by blast
  with s1 same show ?case by simp
qed

theorem ca_loop_idempotent_witness:
  "list_all (\<lambda>a. query_asset inblock_node () (ma_id a)) ca_assets \<and>
   (\<exists>s'. ca_loop inblock_node ''alice'' ca_assets
           (\<lparr>chain = (), console = [], sent = [], connected = True\<rparr> :: unit session) = Ok s' \<and>
         sent s' = [] \<and> chain s' = ())"
proof -
  have h: "list_all (\<lambda>a. query_asset inblock_node
      (chain (\<lparr>chain = (), console = [], sent = [], connected = True\<rparr> :: unit session)) (ma_id a)) ca_assets"
    by (simp add: inblock_node_def ca_assets_def)
  show ?thesis using h ca_loop_idempotent [OF h, of "''alice''"] by simp
qed

text \<open>
  C18. For one asset, \<^verbatim>\<open>mint-transfer.ts\<close> submits nothing when the chain does
  not have the asset, and otherwise \<^verbatim>\<open>assets.mint\<close> of \<open>10^6\<close> tokens to the
  signer followed by \<^verbatim>\<open>assets.transfer\<close> of \<open>10^4\<close> tokens to \<^verbatim>\<open>RECEIVER\<close>,
  in chain units; a failed or unfinished step stops after a prefix.
\<close>

theorem mt_step_call_sequence:
  "sends (map snd (sent s))
     (if query_asset api (chain s) (ma_id a)
      then [Mint (ma_id a) admin (1000000 * 10 ^ ma_decimals a),
            AssetsTransfer (ma_id a) mt_RECEIVER (10000 * 10 ^ ma_decimals a)]
      else [])
     (mt_step api admin a s)"
  by (rule mt_step_sends) (rule refl)

text \<open>
  Every amount \<^verbatim>\<open>mint-transfer.ts\<close> derives from its table passes bn.js and
  the 128-bit codec, the 18-decimal asset included.
\<close>

theorem mt_assets_amounts_fit:
  "list_all (\<lambda>a. ma_decimals a < 2 ^ 53 \<and>
      call_encodable (Mint (ma_id a) admin (1000000 * 10 ^ ma_decimals a)) \<and>
      call_encodable (AssetsTransfer (ma_id a) mt_RECEIVER (10000 * 10 ^ ma_decimals a))) mt_assets"
  by (simp add: mt_assets_def fits_u128_def)

end
