(* ===== verification/RefNode.thy ===== *)
theory RefNode
  imports Script
begin

text \<open>
  A reference node for the scripts: the fake node of the spec's testable
  properties (section 8), as a ledger with the part of the balances, assets,
  lending and sudo pallets that the scripts call. It is not code of this
  repository; it implements the interface \<open>node_api\<close> so that the scripts'
  models can be run end to end. What it keeps:
  \<^item> native balances, assets (owner and issuer), asset metadata, asset accounts,
    one lending pool per asset (pool id, reserve, active flag), the account
    nonces, the sudo key and a block counter;
  \<^item> nonce checking as a transaction pool does it: a nonce below the account's
    is \<^verbatim>\<open>Invalid\<close> (a real node refuses such a submission at the RPC level,
    a path the node interface does not express), one above it waits as
    \<^verbatim>\<open>Future\<close>, the account's nonce is
    included, and inclusion increments the account nonce whether the dispatch
    succeeds or fails;
  \<^item> \<^verbatim>\<open>sudo.sudo\<close> as \<^verbatim>\<open>pallet_sudo\<close> does it: the key's call is dispatched
    as root, and its own error goes into the \<^verbatim>\<open>Sudid\<close> event, not into the
    extrinsic's dispatch error.
  Fees and the existential deposit of assets are left out.
\<close>

section \<open>State\<close>

record pool =
  pool_no :: pool_id
  reserve :: balance
  active :: bool

record ledger =
  native :: "account \<Rightarrow> balance"
  asset_issuer :: "asset_id \<Rightarrow> account option"
  asset_owner :: "asset_id \<Rightarrow> account option"
  asset_meta :: "asset_id \<Rightarrow> (string \<times> string \<times> nat) option"
  asset_bal :: "asset_id \<Rightarrow> account \<Rightarrow> balance option"
  pools :: "asset_id \<Rightarrow> pool option"
  acct_nonce :: "account \<Rightarrow> nat"
  sudo_key :: account
  block_no :: nat
  sudid :: "(dispatch_error option) list"   \<comment> \<open>results of the \<^verbatim>\<open>Sudid\<close> events\<close>

datatype origin = Signed account | Root

section \<open>Errors\<close>

definition merr :: "nat \<Rightarrow> nat \<Rightarrow> dispatch_error" where
  "merr p e = Module \<lparr>me_index = p, me_error = e\<rparr>"

definition ledger_errors :: "((nat \<times> nat) \<times> (string \<times> string)) list" where
  "ledger_errors =
     [((10, 0), (''balances'', ''InsufficientBalance'')),
      ((10, 1), (''balances'', ''KeepAlive'')),
      ((50, 0), (''assets'', ''InUse'')),
      ((50, 1), (''assets'', ''Unknown'')),
      ((50, 2), (''assets'', ''NoPermission'')),
      ((50, 3), (''assets'', ''BalanceLow'')),
      ((50, 4), (''assets'', ''MinBalanceZero'')),
      ((60, 0), (''lending'', ''PoolAlreadyExists'')),
      ((60, 1), (''lending'', ''AssetNotFound'')),
      ((60, 2), (''lending'', ''PoolNotFound'')),
      ((60, 3), (''lending'', ''PoolAlreadyActive'')),
      ((11, 0), (''sudo'', ''RequireSudo''))]"

definition ledger_registry :: registry where
  "ledger_registry m =
     (case map_of ledger_errors (me_index m, me_error m) of
        Some se \<Rightarrow> se | None \<Rightarrow> (''Unknown'', ''Unknown''))"

section \<open>Dispatch\<close>

definition bal_of :: "ledger \<Rightarrow> asset_id \<Rightarrow> account \<Rightarrow> balance" where
  "bal_of l i who = (case asset_bal l i who of None \<Rightarrow> 0 | Some b \<Rightarrow> b)"

definition set_bal :: "asset_id \<Rightarrow> account \<Rightarrow> balance \<Rightarrow> ledger \<Rightarrow> ledger" where
  "set_bal i who b l = l\<lparr>asset_bal := (asset_bal l)(i := (asset_bal l i)(who := Some b))\<rparr>"

text \<open>Moving asset units between two accounts; the same account is a no-op.\<close>

definition move_asset :: "asset_id \<Rightarrow> account \<Rightarrow> account \<Rightarrow> balance \<Rightarrow> ledger \<Rightarrow> ledger" where
  "move_asset i src dst v l =
     (if src = dst then set_bal i src (bal_of l i src) l
      else set_bal i dst (bal_of l i dst + v) (set_bal i src (bal_of l i src - v) l))"

fun ledger_dispatch :: "origin \<Rightarrow> call \<Rightarrow> ledger \<Rightarrow> dispatch_error + ledger" where
  "ledger_dispatch (Signed who) (TransferKeepAlive dest v) l =
     (if native l who < v + 1 then Inl (merr 10 1)
      else if who = dest then Inr l
      else Inr (l\<lparr>native := (native l)(who := native l who - v, dest := native l dest + v)\<rparr>))"
| "ledger_dispatch (Signed who) (AssetsCreate i adm minb) l =
     (if asset_owner l i \<noteq> None then Inl (merr 50 0)
      else if minb = 0 then Inl (merr 50 4)
      else Inr (l\<lparr>asset_owner := (asset_owner l)(i := Some who),
                  asset_issuer := (asset_issuer l)(i := Some adm)\<rparr>))"
| "ledger_dispatch (Signed who) (SetMetadata i n sy d) l =
     (if asset_owner l i = None then Inl (merr 50 1)
      else if asset_owner l i \<noteq> Some who then Inl (merr 50 2)
      else Inr (l\<lparr>asset_meta := (asset_meta l)(i := Some (n, sy, d))\<rparr>))"
| "ledger_dispatch (Signed who) (Mint i ben v) l =
     (if asset_owner l i = None then Inl (merr 50 1)
      else if asset_issuer l i \<noteq> Some who then Inl (merr 50 2)
      else Inr (set_bal i ben (bal_of l i ben + v) l))"
| "ledger_dispatch (Signed who) (AssetsTransfer i dest v) l =
     (if asset_owner l i = None then Inl (merr 50 1)
      else if bal_of l i who < v then Inl (merr 50 3)
      else Inr (move_asset i who dest v l))"
| "ledger_dispatch (Signed who) (CreateLendingPool pid (WithId i) v) l =
     (if pools l i \<noteq> None then Inl (merr 60 0)
      else if asset_owner l i = None then Inl (merr 60 1)
      else if bal_of l i who < v then Inl (merr 50 3)
      else Inr ((set_bal i who (bal_of l i who - v) l)
                  \<lparr>pools := (pools l)(i := Some \<lparr>pool_no = pid, reserve = v, active = False\<rparr>)\<rparr>))"
| "ledger_dispatch Root (ActivateLendingPool (WithId i)) l =
     (case pools l i of
        None \<Rightarrow> Inl (merr 60 2)
      | Some p \<Rightarrow> if active p then Inl (merr 60 3)
                  else Inr (l\<lparr>pools := (pools l)(i := Some (p\<lparr>active := True\<rparr>))\<rparr>))"
| "ledger_dispatch (Signed who) (Sudo c) l =
     (if who \<noteq> sudo_key l then Inl (merr 11 0)
      else (case ledger_dispatch Root c l of
              Inl e \<Rightarrow> Inr (l\<lparr>sudid := sudid l @ [Some e]\<rparr>)
            | Inr l' \<Rightarrow> Inr (l'\<lparr>sudid := sudid l' @ [None]\<rparr>)))"
| "ledger_dispatch _ _ l = Inl (NonModule ''BadOrigin'')"

section \<open>Submission\<close>

text \<open>
  The status updates of one submission. An included extrinsic reports its
  dispatch error (if any) with the in-block and the finalized status.
\<close>

definition ledger_submit :: "ledger \<Rightarrow> account \<Rightarrow> nat option \<Rightarrow> call \<Rightarrow> ledger \<times> sub_result list" where
  "ledger_submit l who n c =
     (let k = acct_nonce l who; n' = (case n of None \<Rightarrow> k | Some m \<Rightarrow> m)
      in if n' < k then (l, [\<lparr>status = Invalid, dispatchError = None\<rparr>])
         else if k < n' then (l, [\<lparr>status = Future, dispatchError = None\<rparr>])
         else
           (let b = Suc (block_no l);
                (l1, err) = (case ledger_dispatch (Signed who) c l of
                               Inl e \<Rightarrow> (l, Some e) | Inr l' \<Rightarrow> (l', None));
                l2 = l1\<lparr>acct_nonce := (acct_nonce l1)(who := Suc k), block_no := b\<rparr>
            in (l2, [\<lparr>status = Ready, dispatchError = None\<rparr>,
                     \<lparr>status = InBlock b, dispatchError = err\<rparr>,
                     \<lparr>status = Finalized b, dispatchError = err\<rparr>])))"

definition ledger_api :: "ledger node_api" where
  "ledger_api =
     \<lparr>submit = ledger_submit,
      query_asset = (\<lambda>l i. asset_owner l i \<noteq> None),
      query_account = (\<lambda>l i who. asset_bal l i who),
      query_metadata = (\<lambda>l i. asset_meta l i),
      account_next_index = acct_nonce,
      chain_name = (\<lambda>_. ''Development''),
      api_registry = ledger_registry\<rparr>"

text \<open>
  A development chain at genesis: the sudo key \<open>k\<close> is endowed with
  \<open>2^60\<close> native units (the endowment of the Substrate node template), and
  nothing else exists.
\<close>

definition genesis :: "account \<Rightarrow> ledger" where
  "genesis k =
     \<lparr>native = (\<lambda>_. 0)(k := 2 ^ 60), asset_issuer = Map.empty, asset_owner = Map.empty,
      asset_meta = Map.empty, asset_bal = (\<lambda>_. Map.empty), pools = Map.empty,
      acct_nonce = (\<lambda>_. 0), sudo_key = k, block_no = 0, sudid = []\<rparr>"

text \<open>
  The same node with one fork pending: the next extrinsic is put in a block
  that is then retracted, and the transaction pool drops it; the ledger is
  left as it was. Later submissions go to the ledger as usual.
\<close>

definition fork_submit ::
  "ledger \<times> bool \<Rightarrow> account \<Rightarrow> nat option \<Rightarrow> call \<Rightarrow> (ledger \<times> bool) \<times> sub_result list" where
  "fork_submit nl who n c =
     (case nl of
        (l, True) \<Rightarrow>
          ((l, False), [\<lparr>status = Ready, dispatchError = None\<rparr>,
                        \<lparr>status = InBlock (Suc (block_no l)), dispatchError = None\<rparr>,
                        \<lparr>status = Retracted (Suc (block_no l)), dispatchError = None\<rparr>,
                        \<lparr>status = Dropped, dispatchError = None\<rparr>])
      | (l, False) \<Rightarrow> (case ledger_submit l who n c of (l', ups) \<Rightarrow> ((l', False), ups)))"

definition fork_api :: "(ledger \<times> bool) node_api" where
  "fork_api =
     \<lparr>submit = fork_submit,
      query_asset = (\<lambda>nl i. asset_owner (fst nl) i \<noteq> None),
      query_account = (\<lambda>nl i who. asset_bal (fst nl) i who),
      query_metadata = (\<lambda>nl i. asset_meta (fst nl) i),
      account_next_index = (\<lambda>nl. acct_nonce (fst nl)),
      chain_name = (\<lambda>_. ''Development''),
      api_registry = ledger_registry\<rparr>"

section \<open>The node as a state machine\<close>

text \<open>One submission, by any signer, with any nonce and call, is one step.\<close>

inductive ledger_step :: "ledger \<Rightarrow> ledger \<Rightarrow> bool" where
  submit_step: "fst (ledger_submit l who n c) = l' \<Longrightarrow> ledger_step l l'"

inductive_cases ledger_step_cases: "ledger_step l l'"

text \<open>
  The node's well-formedness, asset by asset: an asset has an owner exactly
  when it has an issuer, and an asset that does not exist has no pool and no
  accounts.
\<close>

definition asset_wf :: "ledger \<Rightarrow> asset_id \<Rightarrow> bool" where
  "asset_wf l i \<longleftrightarrow>
     (asset_owner l i = None \<longleftrightarrow> asset_issuer l i = None) \<and>
     (asset_owner l i = None \<longrightarrow> pools l i = None \<and> asset_bal l i = Map.empty)"

definition ledger_wf :: "ledger \<Rightarrow> bool" where
  "ledger_wf l \<longleftrightarrow> (\<forall>i. asset_wf l i)"

section \<open>Lemmas\<close>

lemma ledger_api_simps [simp]:
  "submit ledger_api = ledger_submit"
  "query_asset ledger_api l i = (asset_owner l i \<noteq> None)"
  "query_account ledger_api l i who = asset_bal l i who"
  "query_metadata ledger_api l i = asset_meta l i"
  "account_next_index ledger_api = acct_nonce"
  "api_registry ledger_api = ledger_registry"
  by (simp_all add: ledger_api_def)

text \<open>A submission without a nonce, or with the account's own, is included.\<close>

lemma ledger_submit_nonce:
  assumes "n = None \<or> n = Some (acct_nonce l who)"
  shows "acct_nonce (fst (ledger_submit l who n c)) who = Suc (acct_nonce l who)"
  using assms
  by (auto simp: ledger_submit_def Let_def split: sum.splits prod.splits)

lemma ledger_submit_updates:
  assumes "n = None \<or> n = Some (acct_nonce l who)"
  shows "\<exists>b err. snd (ledger_submit l who n c) =
           [\<lparr>status = Ready, dispatchError = None\<rparr>, \<lparr>status = InBlock b, dispatchError = err\<rparr>,
            \<lparr>status = Finalized b, dispatchError = err\<rparr>]"
  using assms
  by (auto simp: ledger_submit_def Let_def split: sum.splits prod.splits)

subsection \<open>Invariant\<close>

text \<open>An update that keeps owners and issuers and touches pools and accounts
  only of one existing asset keeps the node well-formed.\<close>

lemma ledger_wf_at:
  assumes "ledger_wf l" and "asset_owner l i \<noteq> None"
    and "asset_owner l' = asset_owner l" and "asset_issuer l' = asset_issuer l"
    and "\<And>j. j \<noteq> i \<Longrightarrow> pools l' j = pools l j \<and> asset_bal l' j = asset_bal l j"
  shows "ledger_wf l'"
  unfolding ledger_wf_def
proof
  fix j
  show "asset_wf l' j"
  proof (cases "j = i")
    case True
    have "asset_wf l i" using assms(1) by (simp add: ledger_wf_def)
    with True assms(2-4) show ?thesis by (auto simp: asset_wf_def)
  next
    case False
    with assms(1,3,4) assms(5) [of j] show ?thesis by (simp add: ledger_wf_def asset_wf_def)
  qed
qed

lemma ledger_wf_frame:
  "ledger_wf l \<Longrightarrow> asset_owner l' = asset_owner l \<Longrightarrow> asset_issuer l' = asset_issuer l \<Longrightarrow>
     pools l' = pools l \<Longrightarrow> asset_bal l' = asset_bal l \<Longrightarrow> ledger_wf l'"
  by (simp add: ledger_wf_def asset_wf_def)

lemma set_bal_fields [simp]:
  "asset_owner (set_bal i who b l) = asset_owner l" "asset_issuer (set_bal i who b l) = asset_issuer l"
  "pools (set_bal i who b l) = pools l"
  by (simp_all add: set_bal_def)

lemma ledger_wf_set_bal:
  "ledger_wf l \<Longrightarrow> asset_owner l i \<noteq> None \<Longrightarrow> ledger_wf (set_bal i who b l)"
  by (rule ledger_wf_at [of l i]) (simp_all add: set_bal_def)

lemma ledger_wf_move_asset:
  "ledger_wf l \<Longrightarrow> asset_owner l i \<noteq> None \<Longrightarrow> ledger_wf (move_asset i src dst v l)"
  by (simp add: move_asset_def ledger_wf_set_bal)

lemma ledger_wf_pool:
  "ledger_wf l \<Longrightarrow> asset_owner l i \<noteq> None \<Longrightarrow> ledger_wf (l\<lparr>pools := (pools l)(i := p)\<rparr>)"
  by (rule ledger_wf_at [of l i]) simp_all

lemma ledger_wf_pool_owner:
  assumes "ledger_wf l" and "pools l i \<noteq> None"
  shows "asset_owner l i \<noteq> None"
proof -
  have "asset_wf l i" using assms(1) by (simp add: ledger_wf_def)
  with assms(2) show ?thesis by (auto simp: asset_wf_def)
qed

lemma ledger_wf_nonce [simp]:
  "ledger_wf (l\<lparr>acct_nonce := f, block_no := b\<rparr>) = ledger_wf l"
  by (simp add: ledger_wf_def asset_wf_def)

lemma ledger_wf_create:
  "ledger_wf l \<Longrightarrow> asset_owner l i = None \<Longrightarrow>
     ledger_wf (l\<lparr>asset_owner := (asset_owner l)(i := Some who), asset_issuer := (asset_issuer l)(i := Some adm)\<rparr>)"
  by (simp add: ledger_wf_def asset_wf_def)

lemma ledger_dispatch_wf:
  "ledger_wf l \<Longrightarrow> ledger_dispatch org c l = Inr l' \<Longrightarrow> ledger_wf l'"
proof (induction org c l arbitrary: l' rule: ledger_dispatch.induct)
  case (1 who dest v l)
  then show ?case by (auto elim: ledger_wf_frame split: if_splits)
next
  case (2 who i adm minb l)
  then show ?case by (auto simp: ledger_wf_create split: if_splits)
next
  case (3 who i n sy d l)
  then show ?case by (auto elim: ledger_wf_frame split: if_splits)
next
  case (4 who i ben v l)
  then show ?case by (auto simp: ledger_wf_set_bal split: if_splits)
next
  case (5 who i dest v l)
  then show ?case by (auto simp: ledger_wf_move_asset split: if_splits)
next
  case (6 who pid i v l)
  then show ?case
    by (auto split: if_splits intro!: ledger_wf_at [of l i] simp: set_bal_def)
next
  case (7 i l)
  then have "asset_owner l i \<noteq> None"
    by (intro ledger_wf_pool_owner) (auto split: option.splits if_splits)
  with 7 show ?case
    by (auto split: option.splits if_splits intro!: ledger_wf_pool)
next
  case (8 who c l)
  then show ?case by (auto elim: ledger_wf_frame split: if_splits sum.splits)
qed simp_all

lemma ledger_submit_wf:
  "ledger_wf l \<Longrightarrow> ledger_wf (fst (ledger_submit l who n c))"
  by (auto simp: ledger_submit_def Let_def elim: ledger_wf_frame dest: ledger_dispatch_wf
      split: sum.splits prod.splits)

lemma ledger_steps_wf:
  "ledger_step\<^sup>*\<^sup>* l l' \<Longrightarrow> ledger_wf l \<Longrightarrow> ledger_wf l'"
  by (induction rule: rtranclp_induct) (auto elim: ledger_step_cases intro: ledger_submit_wf)

lemma genesis_wf: "ledger_wf (genesis k)"
  by (simp add: ledger_wf_def asset_wf_def genesis_def)

end
