(* ===== verification/Scenarios.thy ===== *)
theory Scenarios
  imports FullSetup CreateLendingPool SetMetadata LendingPoolScripts RefNode
begin

text \<open>
  The scripts run against the reference node \<open>ledger_api\<close> of \<open>RefNode\<close>:
  that every await of every script settles there (so no script hangs), that
  the nonce counter of \<^verbatim>\<open>full-setup-sudo.ts\<close> stays equal to the chain's
  account nonce, and the end-to-end scenarios of the spec.
\<close>

section \<open>Runs that settle\<close>

definition hangs :: "'s res \<Rightarrow> bool" where
  "hangs r = (case r of Hang _ \<Rightarrow> True | _ \<Rightarrow> False)"

text \<open>A step that ends \<open>Ok\<close> or \<open>Throw\<close>, in a state where \<open>P\<close> holds.\<close>

definition settled :: "('s \<Rightarrow> bool) \<Rightarrow> 's res \<Rightarrow> bool" where
  "settled P r \<longleftrightarrow> \<not> hangs r \<and> P (res_state r)"

lemma settled_simps [simp]:
  "settled P (Ok s) = P s" "settled P (Throw e s) = P s" "settled P (Hang s) = False"
  by (simp_all add: settled_def hangs_def)

lemma settled_bind:
  assumes "settled P m" and "\<And>s. P s \<Longrightarrow> settled P (f s)"
  shows "settled P (res_bind m f)"
  using assms by (cases m) simp_all

lemma settled_with_units:
  assumes "P s" and "\<And>v. settled P (k v s)"
  shows "settled P (with_units amount decimals k s)"
  using assms by (simp add: with_units_def split: sum.splits)

lemma settled_not_hangs: "settled P r \<Longrightarrow> \<not> hangs r"
  by (simp add: settled_def)

lemmas settled_intros = settled_bind settled_with_units

subsection \<open>One submission to the reference node\<close>

text \<open>The three updates of an included extrinsic settle the promise under either policy.\<close>

lemma included_updates_settle:
  "fst (run_subscription (on_status pol reg what okmsg)
          [\<lparr>status = Ready, dispatchError = None\<rparr>, \<lparr>status = InBlock b, dispatchError = err\<rparr>,
           \<lparr>status = Finalized b, dispatchError = err\<rparr>] out) \<noteq> Pending"
  unfolding run_subscription_outcome
  by (cases pol; cases err) (simp_all add: expected_outcome_def settles_in_block_def
      settles_finalized_def outcome_of_def)

lemma ledger_sign_and_send:
  assumes "n = None \<or> n = Some (acct_nonce (chain s) signer)"
  shows "settled (\<lambda>s'. chain s' = (if call_encodable c then fst (ledger_submit (chain s) signer n c)
                                   else chain s))
           (sign_and_send ledger_api pol signer n what okmsg c s)"
proof -
  obtain b err where u: "snd (ledger_submit (chain s) signer n c) =
      [\<lparr>status = Ready, dispatchError = None\<rparr>, \<lparr>status = InBlock b, dispatchError = err\<rparr>,
       \<lparr>status = Finalized b, dispatchError = err\<rparr>]"
    using ledger_submit_updates [OF assms] by blast
  then show ?thesis
    using included_updates_settle [of pol "ledger_registry" what okmsg b err "console s"]
    by (auto simp: sign_and_send_def Let_def split: prod.splits promise.splits)
qed

text \<open>Without a nonce (as four of the scripts submit), every await settles.\<close>

lemma ledger_sign_and_send_None:
  "settled (\<lambda>_. True) (sign_and_send ledger_api pol signer None what okmsg c s)"
  using ledger_sign_and_send [of None s signer c pol what okmsg]
  by (simp add: settled_def)

section \<open>\<^verbatim>\<open>full-setup-sudo.ts\<close> on the reference node\<close>

text \<open>The script's counter equals the chain's nonce of the admin account.\<close>

definition nonce_synced :: "account \<Rightarrow> (ledger, 'm) fs_state_scheme \<Rightarrow> bool" where
  "nonce_synced admin st \<longleftrightarrow> nonce st = acct_nonce (chain st) admin"

lemma nonce_synced_say [simp]: "nonce_synced admin (say ls st) = nonce_synced admin st"
  by (simp add: nonce_synced_def)

lemma fs_send_synced:
  assumes "nonce_synced admin st"
  shows "settled (nonce_synced admin) (fs_send ledger_api admin what okmsg c st)"
proof (cases "call_encodable c")
  case True
  let ?st = "st\<lparr>nonce := Suc (nonce st)\<rparr>"
  let ?r = "sign_and_send ledger_api AtInBlock admin (Some (nonce st)) what okmsg c ?st"
  have n: "Some (nonce st) = Some (acct_nonce (chain ?st) admin)"
    using assms by (simp add: nonce_synced_def)
  have "settled (\<lambda>s'. chain s' = fst (ledger_submit (chain st) admin (Some (nonce st)) c)) ?r"
    using ledger_sign_and_send [of "Some (nonce st)" ?st admin c AtInBlock what okmsg] n True by simp
  moreover have "acct_nonce (fst (ledger_submit (chain st) admin (Some (nonce st)) c)) admin = Suc (nonce st)"
    using ledger_submit_nonce [of "Some (nonce st)" "chain st" admin c] assms
    by (simp add: nonce_synced_def)
  ultimately have "settled (nonce_synced admin) ?r"
    by (simp add: settled_def nonce_synced_def)
  then show ?thesis using True by (simp add: fs_send_def)
next
  case False
  with assms show ?thesis by (simp add: fs_send_def)
qed

lemmas fs_synced_intros = settled_intros fs_send_synced

lemma fs_process_asset_synced:
  assumes "nonce_synced admin st"
  shows "settled (nonce_synced admin) (fs_process_asset ledger_api admin a st)"
proof -
  have "\<And>st. nonce_synced admin st \<Longrightarrow> settled (nonce_synced admin) (fs_create_if_absent ledger_api admin a st)"
    unfolding fs_create_if_absent_def by (auto intro!: fs_synced_intros)
  moreover have "\<And>st. nonce_synced admin st \<Longrightarrow> settled (nonce_synced admin) (fs_fund_and_pool ledger_api admin a st)"
    unfolding fs_fund_and_pool_def by (auto intro!: fs_synced_intros)
  ultimately show ?thesis
    using assms unfolding fs_process_asset_def by (auto intro!: settled_bind)
qed

lemma fs_loop_synced:
  "nonce_synced admin st \<Longrightarrow> settled (nonce_synced admin) (fs_loop ledger_api admin as st)"
proof (induction as arbitrary: st)
  case Nil
  then show ?case by simp
next
  case (Cons a as)
  have "settled (nonce_synced admin) (fs_process_asset ledger_api admin a st)"
    using Cons.prems by (rule fs_process_asset_synced)
  with Cons.IH show ?case
    by (cases "fs_process_asset ledger_api admin a st") simp_all
qed

subsection \<open>The chain a run leaves\<close>

text \<open>A run changes the node only by submissions: its chain is reached from the
  initial one by steps of \<open>ledger_step\<close>, so it keeps \<open>ledger_wf\<close>.\<close>

definition reached_from :: "ledger \<Rightarrow> (ledger, 'm) session_scheme \<Rightarrow> bool" where
  "reached_from l0 s \<longleftrightarrow> ledger_step\<^sup>*\<^sup>* l0 (chain s)"

lemma reached_from_say [simp]: "reached_from l0 (say ls s) = reached_from l0 s"
  by (simp add: reached_from_def)

lemma chain_sign_and_send:
  "chain (res_state (sign_and_send api pol signer n what okmsg c s)) =
     (if call_encodable c then fst (submit api (chain s) signer n c) else chain s)"
  by (auto simp: sign_and_send_def Let_def split: prod.splits promise.splits)

lemma sign_and_send_reached:
  assumes "reached_from l0 s"
  shows "res_all (reached_from l0) (sign_and_send ledger_api pol signer n what okmsg c s)"
proof -
  have "ledger_step (chain s) (fst (ledger_submit (chain s) signer n c))"
    by (rule submit_step) (rule refl)
  with assms show ?thesis
    by (auto simp: res_all_def reached_from_def chain_sign_and_send)
qed

lemma fs_send_reached:
  "reached_from l0 st \<Longrightarrow> res_all (reached_from l0) (fs_send ledger_api admin what okmsg c st)"
  unfolding fs_send_def
  by (auto intro!: sign_and_send_reached simp: reached_from_def)

lemma fs_main_reached:
  "ledger_step\<^sup>*\<^sup>* (chain st) (chain (res_state (fs_main ledger_api admin st)))"
proof -
  have "res_all (reached_from (chain st)) (fs_main ledger_api admin st)"
    by (rule fs_main_res_all) (auto intro: fs_send_reached simp: reached_from_def)
  then show ?thesis by (simp add: res_all_def reached_from_def)
qed

lemma fs_main_ledger_wf:
  "ledger_wf (chain st) \<Longrightarrow> ledger_wf (chain (res_state (fs_main ledger_api admin st)))"
  using fs_main_reached ledger_steps_wf by blast

section \<open>The other scripts on the reference node\<close>

text \<open>They submit without a nonce, so every await settles.\<close>

abbreviation always :: "'s \<Rightarrow> bool" where
  "always \<equiv> \<lambda>_. True"

lemmas none_intros = settled_intros ledger_sign_and_send_None

lemma clp_loop_settles: "settled always (clp_loop ledger_api alice as s)"
proof (induction as arbitrary: s)
  case Nil
  then show ?case by simp
next
  case (Cons a as)
  have "settled always (clp_create_pool ledger_api alice a s)"
    by (auto simp: clp_create_pool_def clp_send_def Let_def intro!: none_intros split: sum.splits)
  with Cons.IH show ?case
    by (cases "clp_create_pool ledger_api alice a s") simp_all
qed

lemma sma_loop_settles: "settled always (sma_loop ledger_api admin as s)"
  by (induction as arbitrary: s) (auto simp: sma_step_def intro!: none_intros)

lemma ca_loop_settles: "settled always (ca_loop ledger_api admin as s)"
  by (induction as arbitrary: s) (auto simp: ca_step_def Let_def intro!: none_intros)

lemma mt_loop_settles: "settled always (mt_loop ledger_api admin as s)"
  by (induction as arbitrary: s) (auto simp: mt_step_def Let_def intro!: none_intros)

section \<open>The effect of \<^verbatim>\<open>full-setup-sudo.ts\<close> on a fresh asset\<close>

text \<open>
  What the spec's end-to-end scenario expects of one asset: the asset exists
  with the admin as owner and issuer and its metadata, the admin holds
  \<open>10^6 - 2 \<cdot> 10^4\<close> whole tokens, the target \<open>10^4\<close>, a pool holds
  \<open>10^4\<close> and is active, and six extrinsics of the admin were included.
\<close>

definition asset_setup_effect :: "account \<Rightarrow> asset_config \<Rightarrow> ledger \<Rightarrow> ledger" where
  "asset_setup_effect admin a l =
     (let i = cfg_id a; d = cfg_decimals a
      in l\<lparr>asset_owner := (asset_owner l)(i := Some admin),
           asset_issuer := (asset_issuer l)(i := Some admin),
           asset_meta := (asset_meta l)(i := Some (cfg_name a, cfg_symbol a, d)),
           asset_bal := (asset_bal l)(i := (asset_bal l i)(TARGET := Some (10000 * 10 ^ d),
                                                          admin := Some (980000 * 10 ^ d))),
           pools := (pools l)(i := Some \<lparr>pool_no = cfg_poolId a, reserve = 10000 * 10 ^ d, active = True\<rparr>),
           sudid := sudid l @ [None],
           acct_nonce := (acct_nonce l)(admin := acct_nonce l admin + 6),
           block_no := block_no l + 6\<rparr>)"

definition fresh_for :: "account \<Rightarrow> ledger \<Rightarrow> asset_config \<Rightarrow> bool" where
  "fresh_for admin l a \<longleftrightarrow> asset_owner l (cfg_id a) = None \<and> pools l (cfg_id a) = None \<and>
     asset_bal l (cfg_id a) admin = None \<and> asset_bal l (cfg_id a) TARGET = None \<and> cfg_decimals a \<le> 32"

definition asset_ready :: "account \<Rightarrow> ledger \<Rightarrow> asset_config \<Rightarrow> bool" where
  "asset_ready admin l a \<longleftrightarrow>
     asset_owner l (cfg_id a) = Some admin \<and> asset_issuer l (cfg_id a) = Some admin \<and>
     asset_meta l (cfg_id a) = Some (cfg_name a, cfg_symbol a, cfg_decimals a) \<and>
     asset_bal l (cfg_id a) admin = Some (980000 * 10 ^ cfg_decimals a) \<and>
     asset_bal l (cfg_id a) TARGET = Some (10000 * 10 ^ cfg_decimals a) \<and>
     pools l (cfg_id a) = Some \<lparr>pool_no = cfg_poolId a, reserve = 10000 * 10 ^ cfg_decimals a, active = True\<rparr>"

lemma fits_scripts_amounts:
  assumes "d \<le> 32"
  shows "fits_u128 (1000000 * 10 ^ d)" "fits_u128 (10000 * 10 ^ d)" "d < 2 ^ 53" "fits_u128 1"
proof -
  have "(10::nat) ^ d \<le> 10 ^ 32" using assms by (rule power_increasing) simp
  then show "fits_u128 (1000000 * 10 ^ d)" "fits_u128 (10000 * 10 ^ d)"
    by (simp_all add: fits_u128_def)
  show "d < 2 ^ 53" using assms by simp
  show "fits_u128 1" by (simp add: fits_u128_def)
qed

lemma Suc6: "Suc (Suc (Suc (Suc (Suc (Suc n))))) = n + 6"
  by simp

lemma fs_process_asset_effect:
  assumes "nonce_synced admin st" "asset_owner (chain st) (cfg_id a) = None"
    "pools (chain st) (cfg_id a) = None" "asset_bal (chain st) (cfg_id a) admin = None"
    "asset_bal (chain st) (cfg_id a) TARGET = None"
    "sudo_key (chain st) = admin" "admin \<noteq> TARGET" "cfg_decimals a \<le> 32"
  shows "\<exists>st'. fs_process_asset ledger_api admin a st = Ok st' \<and>
           chain st' = asset_setup_effect admin a (chain st) \<and> nonce st' = nonce st + 6"
  using assms fits_scripts_amounts [OF assms(8)]
  by (simp add: fs_process_asset_def fs_create_if_absent_def fs_fund_and_pool_def fs_send_def
      sign_and_send_def ledger_submit_def run_subscription_def on_status_in_block_def Let_def
      nonce_synced_def bal_of_def set_bal_def move_asset_def asset_setup_effect_def Suc6)

lemma fresh_for_effect:
  "cfg_id b \<noteq> cfg_id a \<Longrightarrow> fresh_for admin (asset_setup_effect admin a l) b = fresh_for admin l b"
  by (simp add: fresh_for_def asset_setup_effect_def Let_def)

lemma sudo_key_effect [simp]: "sudo_key (asset_setup_effect admin a l) = sudo_key l"
  by (simp add: asset_setup_effect_def Let_def)

lemma acct_nonce_effect [simp]:
  "acct_nonce (asset_setup_effect admin a l) admin = acct_nonce l admin + 6"
  by (simp add: asset_setup_effect_def Let_def)

lemma fs_loop_effect:
  assumes "nonce_synced admin st" "sudo_key (chain st) = admin" "admin \<noteq> TARGET"
    "distinct (map cfg_id as)" "list_all (fresh_for admin (chain st)) as"
  shows "\<exists>st'. fs_loop ledger_api admin as st = Ok st' \<and>
           chain st' = fold (asset_setup_effect admin) as (chain st)"
  using assms
proof (induction as arbitrary: st)
  case Nil
  then show ?case by simp
next
  case (Cons a as)
  obtain st1 where 1: "fs_process_asset ledger_api admin a st = Ok st1"
      and c1: "chain st1 = asset_setup_effect admin a (chain st)" and n1: "nonce st1 = nonce st + 6"
    using fs_process_asset_effect [of admin st a] Cons.prems by (auto simp: fresh_for_def)
  have "list_all (fresh_for admin (chain st1)) as"
  proof -
    have "\<And>b. b \<in> set as \<Longrightarrow> cfg_id b \<noteq> cfg_id a"
    proof -
      have "cfg_id a \<notin> cfg_id ` set as" using Cons.prems(4) by simp
      then show "\<And>b. b \<in> set as \<Longrightarrow> cfg_id b \<noteq> cfg_id a" by (metis image_eqI)
    qed
    then show ?thesis using Cons.prems(5) by (simp add: c1 list_all_iff fresh_for_effect)
  qed
  moreover have "nonce_synced admin st1"
    using Cons.prems(1) by (simp add: nonce_synced_def c1 n1)
  ultimately obtain st' where "fs_loop ledger_api admin as st1 = Ok st'"
      "chain st' = fold (asset_setup_effect admin) as (chain st1)"
    using Cons.IH [of st1] Cons.prems(2-4) c1 by auto
  then show ?case using 1 c1 by simp
qed

lemma native_fold_effect [simp]: "native (fold (asset_setup_effect admin) as l) = native l"
  by (induction as arbitrary: l) (simp_all add: asset_setup_effect_def Let_def)

lemma asset_ready_effect:
  "admin \<noteq> TARGET \<Longrightarrow> asset_ready admin (asset_setup_effect admin a l) a"
  by (simp add: asset_ready_def asset_setup_effect_def Let_def)

lemma asset_ready_frame:
  "cfg_id b \<noteq> cfg_id a \<Longrightarrow> asset_ready admin (asset_setup_effect admin a l) b = asset_ready admin l b"
  by (simp add: asset_ready_def asset_setup_effect_def Let_def)

lemma asset_ready_fold_frame:
  "cfg_id b \<notin> cfg_id ` set as \<Longrightarrow>
     asset_ready admin (fold (asset_setup_effect admin) as l) b = asset_ready admin l b"
  by (induction as arbitrary: l) (simp_all add: asset_ready_frame)

lemma asset_ready_fold:
  "admin \<noteq> TARGET \<Longrightarrow> distinct (map cfg_id as) \<Longrightarrow> list_all (asset_ready admin (fold (asset_setup_effect admin) as l)) as"
  by (induction as arbitrary: l) (simp_all add: asset_ready_fold_frame asset_ready_effect)

subsection \<open>A second run of \<^verbatim>\<open>full-setup-sudo.ts\<close>\<close>

text \<open>The native transfer of \<^verbatim>\<open>full-setup-sudo.ts\<close> on the ledger.\<close>

definition ledger_native_step :: "account \<Rightarrow> nat \<Rightarrow> ledger \<Rightarrow> ledger" where
  "ledger_native_step admin n l =
     l\<lparr>native := (native l)(admin := native l admin - 10 ^ 15, TARGET := native l TARGET + 10 ^ 15),
       acct_nonce := (acct_nonce l)(admin := Suc n), block_no := Suc (block_no l)\<rparr>"

lemma asset_ready_native_step [simp]:
  "asset_ready admin' (ledger_native_step admin n l) a = asset_ready admin' l a"
  by (simp add: asset_ready_def ledger_native_step_def)

lemma fs_native_transfer_ledger:
  assumes "nonce_synced admin st" and "admin \<noteq> TARGET" and "10 ^ 15 < native (chain st) admin"
  shows "\<exists>st1. fs_native_transfer ledger_api admin st = Ok st1 \<and>
           chain st1 = ledger_native_step admin (nonce st) (chain st) \<and> nonce st1 = Suc (nonce st) \<and>
           map snd (sent st1) = map snd (sent st) @ [TransferKeepAlive TARGET (10 ^ 15)]"
  using assms
  by (simp add: fs_native_transfer_def fs_send_def sign_and_send_def ledger_submit_def
      run_subscription_def on_status_in_block_def Let_def fits_u128_def nonce_synced_def
      ledger_native_step_def)

text \<open>The calls a second run sends for an asset that is already set up.\<close>

definition fs_rerun_calls :: "account \<Rightarrow> asset_config \<Rightarrow> call list" where
  "fs_rerun_calls admin a =
     [Mint (cfg_id a) admin (1000000 * 10 ^ cfg_decimals a),
      AssetsTransfer (cfg_id a) TARGET (10000 * 10 ^ cfg_decimals a),
      CreateLendingPool (cfg_poolId a) (WithId (cfg_id a)) (10000 * 10 ^ cfg_decimals a)]"

lemma fs_process_asset_rerun:
  assumes "nonce_synced admin st" and "asset_ready admin (chain st) a" and "admin \<noteq> TARGET"
    and "cfg_decimals a \<le> 32"
  shows "\<exists>st'. fs_process_asset ledger_api admin a st = Throw (DispatchFailed (merr 60 0)) st' \<and>
           asset_bal (chain st') (cfg_id a) TARGET = Some (20000 * 10 ^ cfg_decimals a) \<and>
           map snd (sent st') = map snd (sent st) @ fs_rerun_calls admin a"
  using assms fits_scripts_amounts [OF assms(4)]
  by (simp add: fs_process_asset_def fs_create_if_absent_def fs_fund_and_pool_def fs_send_def
      sign_and_send_def ledger_submit_def run_subscription_def on_status_in_block_def Let_def
      nonce_synced_def asset_ready_def bal_of_def set_bal_def move_asset_def fs_rerun_calls_def)

section \<open>Properties\<close>

text \<open>
  C19. On the reference node, \<^verbatim>\<open>full-setup-sudo.ts\<close> never hangs, whatever the
  chain holds: each of its awaits settles, because the nonce it passes with
  \<^verbatim>\<open>{ nonce: nonce++ }\<close> is at every submission the one the node expects (the
  counter starts at \<^verbatim>\<open>accountNextIndex\<close> and moves with every included
  extrinsic, failed or not), and at the end the counter still equals the
  admin's nonce on the chain.
\<close>

theorem fs_main_ledger_settles:
  "settled (nonce_synced admin) (fs_main ledger_api admin st)"
proof -
  have "nonce_synced admin (fs_connect ledger_api admin st)"
    by (simp add: nonce_synced_def)
  then show ?thesis
    unfolding fs_main_def fs_native_transfer_def fs_finish_def
    by (auto intro!: settled_bind fs_send_synced fs_loop_synced simp: nonce_synced_def)
qed

text \<open>
  C20. On the reference node the four other scripts never hang either:
  \<^verbatim>\<open>create-lending-pool.ts\<close>, which waits for finality,
  \<^verbatim>\<open>set-asset-metadata.ts\<close>, \<^verbatim>\<open>create-assets.ts\<close> and \<^verbatim>\<open>mint-transfer.ts\<close>
  end with success or a rejection, whatever the chain holds, because the node
  includes every extrinsic they send without a nonce.
\<close>

theorem scripts_ledger_settle:
  "\<not> hangs (clp_main ledger_api alice s) \<and> \<not> hangs (sma_main ledger_api alice s) \<and>
   \<not> hangs (ca_main ledger_api alice s) \<and> \<not> hangs (mt_main ledger_api alice s)"
proof -
  have "settled always (clp_main ledger_api alice s)"
    unfolding clp_main_def clp_native_transfer_def clp_send_def clp_finish_def Let_def
    by (auto intro!: none_intros clp_loop_settles)
  moreover have "settled always (sma_main ledger_api alice s)"
    unfolding sma_main_def sma_open_def Let_def by (auto intro!: settled_bind sma_loop_settles)
  moreover have "settled always (ca_main ledger_api alice s)"
    unfolding ca_main_def Let_def by (auto intro!: settled_bind ca_loop_settles)
  moreover have "settled always (mt_main ledger_api alice s)"
    unfolding mt_main_def Let_def by (auto intro!: settled_bind mt_loop_settles)
  ultimately show ?thesis by (simp add: settled_def)
qed

text \<open>
  The spec's end-to-end scenario for \<^verbatim>\<open>full-setup-sudo.ts\<close> (C21 states it for
  the whole program in \<open>Program\<close>): run by
  \<^verbatim>\<open>//Alice\<close> on a development chain at genesis, the script succeeds, the
  target holds the \<open>10^15\<close> native units, and for every asset of the table the
  target holds \<open>10^4\<close> whole tokens, the admin \<open>980\,000\<close>, the asset carries
  its metadata and its lending pool holds \<open>10^4\<close> tokens and is active.
\<close>

theorem fs_main_genesis:
  "\<exists>st'. fs_main ledger_api mt_RECEIVER
            \<lparr>chain = genesis mt_RECEIVER, console = [], sent = [], connected = False, nonce = 0\<rparr> = Ok st' \<and>
     native (chain st') TARGET = 10 ^ 15 \<and> \<not> connected st' \<and>
     list_all (\<lambda>a. asset_owner (chain st') (cfg_id a) = Some mt_RECEIVER \<and>
        asset_meta (chain st') (cfg_id a) = Some (cfg_name a, cfg_symbol a, cfg_decimals a) \<and>
        asset_bal (chain st') (cfg_id a) mt_RECEIVER = Some (980000 * 10 ^ cfg_decimals a) \<and>
        asset_bal (chain st') (cfg_id a) TARGET = Some (10000 * 10 ^ cfg_decimals a) \<and>
        pools (chain st') (cfg_id a) =
          Some \<lparr>pool_no = cfg_poolId a, reserve = 10000 * 10 ^ cfg_decimals a, active = True\<rparr>) assets"
proof -
  let ?st0 = "\<lparr>chain = genesis mt_RECEIVER, console = [], sent = [], connected = False, nonce = 0\<rparr>
                :: (ledger, unit) fs_state_scheme"
  obtain st1 where t: "fs_native_transfer ledger_api mt_RECEIVER (fs_connect ledger_api mt_RECEIVER ?st0) = Ok st1"
      and c1: "chain st1 = (genesis mt_RECEIVER)\<lparr>native := (native (genesis mt_RECEIVER))
                 (mt_RECEIVER := 2 ^ 60 - 10 ^ 15, TARGET := 10 ^ 15),
                 acct_nonce := (\<lambda>_. 0)(mt_RECEIVER := 1), block_no := 1\<rparr>"
      and n1: "nonce st1 = 1"
    by (simp add: fs_native_transfer_def fs_connect_def fs_send_def sign_and_send_def ledger_submit_def
        run_subscription_def on_status_in_block_def Let_def genesis_def fits_u128_def TARGET_def mt_RECEIVER_def)
  obtain st2 where l: "fs_loop ledger_api mt_RECEIVER assets st1 = Ok st2"
      and c2: "chain st2 = fold (asset_setup_effect mt_RECEIVER) assets (chain st1)"
    using fs_loop_effect [of mt_RECEIVER st1 assets] c1 n1
    by (auto simp: nonce_synced_def genesis_def assets_def fresh_for_def TARGET_def mt_RECEIVER_def)
  have "list_all (asset_ready mt_RECEIVER (chain st2)) assets"
    unfolding c2 by (rule asset_ready_fold) (simp_all add: assets_def TARGET_def mt_RECEIVER_def)
  moreover have "native (chain st2) TARGET = 10 ^ 15"
    unfolding c2 c1 by (simp add: native_fold_effect genesis_def TARGET_def mt_RECEIVER_def)
  ultimately show ?thesis
    using t l by (simp add: fs_main_def fs_finish_def asset_ready_def list_all_iff)
qed

text \<open>
  C22. \<^verbatim>\<open>sudo.sudo\<close> hides the failure of the call it wraps. When the pool to
  activate does not exist, the activation step of \<^verbatim>\<open>full-setup-sudo.ts\<close>
  (lines 197--222) sees no \<^verbatim>\<open>dispatchError\<close>, resolves, and prints the
  \<^verbatim>\<open>activated in block\<close> line, while the node only records the
  \<^verbatim>\<open>lending.PoolNotFound\<close> result in its \<^verbatim>\<open>Sudid\<close> event and no pool is
  active.
\<close>

theorem fs_sudo_activation_swallowed:
  assumes "nonce_synced admin st" and "sudo_key (chain st) = admin" and "pools (chain st) i = None"
  shows "\<exists>st'. fs_send ledger_api admin ''Pool activation failed: '' okmsg
                  (Sudo (ActivateLendingPool (WithId i))) st = Ok st' \<and>
           pools (chain st') i = None \<and>
           sudid (chain st') = sudid (chain st) @ [Some (merr 60 2)] \<and>
           console st' = console st @ [Log (okmsg (Suc (block_no (chain st))))]"
  using assms
  by (simp add: fs_send_def sign_and_send_def ledger_submit_def run_subscription_def
      on_status_in_block_def Let_def nonce_synced_def)


theorem fs_sudo_activation_swallowed_witness:
  "nonce_synced mt_RECEIVER
      (\<lparr>chain = genesis mt_RECEIVER, console = [], sent = [], connected = True, nonce = 0\<rparr>
         :: (ledger, unit) fs_state_scheme) \<and>
   sudo_key (genesis mt_RECEIVER) = mt_RECEIVER \<and> pools (genesis mt_RECEIVER) 101 = None \<and>
   (\<exists>st'. fs_send ledger_api mt_RECEIVER ''Pool activation failed: '' (\<lambda>h. ''activated in block '' @ show_nat h)
                  (Sudo (ActivateLendingPool (WithId 101)))
                  \<lparr>chain = genesis mt_RECEIVER, console = [], sent = [], connected = True, nonce = 0\<rparr> = Ok st' \<and>
           pools (chain st') 101 = None \<and>
           sudid (chain st') = sudid (genesis mt_RECEIVER) @ [Some (merr 60 2)] \<and>
           console st' = [] @ [Log (''activated in block '' @ show_nat (Suc (block_no (genesis mt_RECEIVER))))])"
proof -
  let ?st = "\<lparr>chain = genesis mt_RECEIVER, console = [], sent = [], connected = True, nonce = 0\<rparr>
               :: (ledger, unit) fs_state_scheme"
  have h: "nonce_synced mt_RECEIVER ?st" "sudo_key (chain ?st) = mt_RECEIVER" "pools (chain ?st) 101 = None"
    by (simp_all add: nonce_synced_def genesis_def)
  show ?thesis
    using h fs_sudo_activation_swallowed [OF h, of "\<lambda>h. ''activated in block '' @ show_nat h"] by simp
qed


text \<open>
  C23. \<^verbatim>\<open>mint-transfer.ts\<close> sends its \<open>10^4\<close> tokens to \<^verbatim>\<open>RECEIVER\<close>, the
  address of \<^verbatim>\<open>//Alice\<close>, which is the signer: run by \<^verbatim>\<open>//Alice\<close> on an
  asset she issues, the receiver's balance grows by the whole minted
  \<open>10^6\<close> tokens and the transfer moves nothing, where the spec's scenario
  expects the receiver to hold exactly \<open>10^4\<close>.
\<close>

theorem mt_step_self_transfer:
  assumes "asset_owner (chain s) (ma_id a) \<noteq> None" and "asset_issuer (chain s) (ma_id a) = Some mt_RECEIVER"
    and "ma_decimals a \<le> 32"
  shows "\<exists>s'. mt_step ledger_api mt_RECEIVER a s = Ok s' \<and>
           asset_bal (chain s') (ma_id a) mt_RECEIVER =
             Some (bal_of (chain s) (ma_id a) mt_RECEIVER + 1000000 * 10 ^ ma_decimals a)"
  using assms fits_scripts_amounts [OF assms(3)]
  by (auto simp: mt_step_def sign_and_send_def ledger_submit_def run_subscription_def
      on_status_in_block_def Let_def bal_of_def set_bal_def move_asset_def)


theorem mt_step_self_transfer_witness:
  "asset_owner (chain (\<lparr>chain = asset_setup_effect mt_RECEIVER (assets ! 3) (genesis mt_RECEIVER),
       console = [], sent = [], connected = True\<rparr> :: ledger session)) (ma_id (mt_assets ! 1)) \<noteq> None \<and>
   asset_issuer (asset_setup_effect mt_RECEIVER (assets ! 3) (genesis mt_RECEIVER)) (ma_id (mt_assets ! 1))
     = Some mt_RECEIVER \<and>
   ma_decimals (mt_assets ! 1) \<le> 32 \<and>
   (\<exists>s'. mt_step ledger_api mt_RECEIVER (mt_assets ! 1)
          \<lparr>chain = asset_setup_effect mt_RECEIVER (assets ! 3) (genesis mt_RECEIVER),
           console = [], sent = [], connected = True\<rparr> = Ok s' \<and>
        asset_bal (chain s') 101 mt_RECEIVER = Some (1980000 * 10 ^ 9))"
proof -
  let ?s = "\<lparr>chain = asset_setup_effect mt_RECEIVER (assets ! 3) (genesis mt_RECEIVER),
             console = [], sent = [], connected = True\<rparr> :: ledger session"
  have h: "asset_owner (chain ?s) (ma_id (mt_assets ! 1)) \<noteq> None"
      "asset_issuer (chain ?s) (ma_id (mt_assets ! 1)) = Some mt_RECEIVER"
      "ma_decimals (mt_assets ! 1) \<le> 32"
    by (simp_all add: asset_setup_effect_def assets_def mt_assets_def)
  have b: "bal_of (chain ?s) (ma_id (mt_assets ! 1)) mt_RECEIVER = 980000 * 10 ^ 9"
    by (simp add: bal_of_def asset_setup_effect_def assets_def mt_assets_def TARGET_def mt_RECEIVER_def)
  show ?thesis
    using mt_step_self_transfer [OF h] h b by (simp add: mt_assets_def)
qed

text \<open>
  C24. Running \<^verbatim>\<open>full-setup-sudo.ts\<close> again on a chain where it already set
  up the first asset: the asset is found and its creation skipped (the
  "create if absent" check), the mint and the transfer go through again, so
  the target now holds twice the \<open>10^4\<close> tokens, the pool creation fails
  because the pool exists, the loop breaks before any other asset, and the
  script still prints that all assets and pools were created.
\<close>

theorem fs_rerun_breaks_after_first_asset:
  assumes "asset_ready admin (chain st) (hd assets)" and "admin \<noteq> TARGET"
    and "10 ^ 15 < native (chain st) admin"
  shows "\<exists>st'. fs_main ledger_api admin st = Ok st' \<and>
           asset_bal (chain st') 1 TARGET = Some 200000 \<and>
           map snd (sent st') = map snd (sent st) @
             [TransferKeepAlive TARGET (10 ^ 15), Mint 1 admin 10000000, AssetsTransfer 1 TARGET 100000,
              CreateLendingPool 1001 (WithId 1) 100000] \<and>
           Log ''All assets and lending pools created successfully!'' \<in> set (console st')"
proof -
  let ?st0 = "fs_connect ledger_api admin st"
  have s0: "nonce_synced admin ?st0" by (simp add: nonce_synced_def)
  obtain st1 where t: "fs_native_transfer ledger_api admin ?st0 = Ok st1"
      and c1: "chain st1 = ledger_native_step admin (nonce ?st0) (chain st)"
      and n1: "nonce st1 = Suc (nonce ?st0)"
      and e1: "map snd (sent st1) = map snd (sent st) @ [TransferKeepAlive TARGET (10 ^ 15)]"
    using fs_native_transfer_ledger [OF s0] assms(2,3) by auto
  have r1: "asset_ready admin (chain st1) (hd assets)" using assms(1) c1 by simp
  have s1: "nonce_synced admin st1" using s0 c1 n1 by (simp add: nonce_synced_def ledger_native_step_def)
  obtain st2 where p: "fs_process_asset ledger_api admin (hd assets) st1 = Throw (DispatchFailed (merr 60 0)) st2"
      and b2: "asset_bal (chain st2) (cfg_id (hd assets)) TARGET = Some (20000 * 10 ^ cfg_decimals (hd assets))"
      and e2: "map snd (sent st2) = map snd (sent st1) @ fs_rerun_calls admin (hd assets)"
    using fs_process_asset_rerun [OF s1 r1 assms(2)] by (auto simp: assets_def)
  have "fs_loop ledger_api admin assets st1 =
          Ok (say [LogError (''Error while processing '' @ cfg_name (hd assets) @ '':'')] st2)"
    using p by (simp add: assets_def)
  then show ?thesis
    using t b2 e1 e2 by (simp add: fs_main_def fs_finish_def fs_rerun_calls_def assets_def)
qed

theorem fs_rerun_breaks_after_first_asset_witness:
  "asset_ready mt_RECEIVER (asset_setup_effect mt_RECEIVER (hd assets) (genesis mt_RECEIVER)) (hd assets) \<and>
   mt_RECEIVER \<noteq> TARGET \<and>
   10 ^ 15 < native (asset_setup_effect mt_RECEIVER (hd assets) (genesis mt_RECEIVER)) mt_RECEIVER \<and>
   (\<exists>st'. fs_main ledger_api mt_RECEIVER
            \<lparr>chain = asset_setup_effect mt_RECEIVER (hd assets) (genesis mt_RECEIVER),
             console = [], sent = [], connected = False, nonce = 0\<rparr> = Ok st' \<and>
        asset_bal (chain st') 1 TARGET = Some 200000 \<and>
        map snd (sent st') = [] @
          [TransferKeepAlive TARGET (10 ^ 15), Mint 1 mt_RECEIVER 10000000, AssetsTransfer 1 TARGET 100000,
           CreateLendingPool 1001 (WithId 1) 100000] \<and>
        Log ''All assets and lending pools created successfully!'' \<in> set (console st'))"
proof -
  let ?st = "\<lparr>chain = asset_setup_effect mt_RECEIVER (hd assets) (genesis mt_RECEIVER),
              console = [], sent = [], connected = False, nonce = 0\<rparr> :: (ledger, unit) fs_state_scheme"
  have ne: "mt_RECEIVER \<noteq> TARGET" by (simp add: mt_RECEIVER_def TARGET_def)
  have h1: "asset_ready mt_RECEIVER (chain ?st) (hd assets)"
    using asset_ready_effect [OF ne] by simp
  have h3: "10 ^ 15 < native (chain ?st) mt_RECEIVER"
    by (simp add: asset_setup_effect_def genesis_def Let_def)
  note h = h1 ne h3
  show ?thesis
    using h fs_rerun_breaks_after_first_asset [OF h] by simp
qed

text \<open>
  The spec's native-transfer scenario, as \<^verbatim>\<open>create-lending-pool.ts\<close>
  runs it: on a development chain at genesis, the transfer of \<open>10^15\<close> units
  to the target resolves only once the finalized status is seen, no failure
  line is printed, and the units have moved.
\<close>

theorem clp_native_transfer_genesis:
  "\<exists>s'. clp_native_transfer ledger_api clp_ADMIN
          \<lparr>chain = genesis clp_ADMIN, console = [], sent = [], connected = True\<rparr> = Ok s' \<and>
     native (chain s') clp_TARGET = 10 ^ 15 \<and> native (chain s') clp_ADMIN = 2 ^ 60 - 10 ^ 15 \<and>
     console s' = [Log (''Transferring native balance to '' @ clp_TARGET @ '' ...''), Log (''Native transfer in block '' @ show_nat 1)]"
  by (simp add: clp_native_transfer_def clp_send_def sign_and_send_def ledger_submit_def
      run_subscription_def on_status_finalized_def Let_def genesis_def fits_u128_def clp_TARGET_def clp_ADMIN_def)

text \<open>
  C26. The in-block policy and the manual nonce counter together, on any
  chain: when the block holding the native transfer of
  \<^verbatim>\<open>full-setup-sudo.ts\<close> is retracted and the transaction dropped, the script
  has already printed the transfer as done and goes on; whether the first asset
  exists or not, the next extrinsic carries the admin's nonce plus one while the
  chain still expects the nonce itself, so the node holds it as
  \<^verbatim>\<open>Future\<close>, the script waits for ever, and the ledger is left as it was.
\<close>

theorem fs_fork_hangs:
  assumes "chain st = (l, True)"
  shows "\<exists>st'. fs_main fork_api admin st = Hang st' \<and>
     map fst (sent st') = map fst (sent st) @ [Some (acct_nonce l admin), Some (Suc (acct_nonce l admin))] \<and>
     fst (chain st') = l \<and>
     Log (''Native transfer in block '' @ show_nat (Suc (block_no l))) \<in> set (console st')"
  using assms
  by (cases "asset_owner l 1")
     (simp_all add: fs_main_def fs_connect_def fs_native_transfer_def fs_send_def sign_and_send_def
      fork_api_def fork_submit_def ledger_submit_def run_subscription_def on_status_in_block_def Let_def
      fits_u128_def assets_def fs_loop.simps fs_process_asset_def fs_create_if_absent_def fs_fund_and_pool_def
      with_units_def toChainUnits_def)

theorem fs_fork_hangs_witness:
  "chain (\<lparr>chain = (genesis mt_RECEIVER, True), console = [], sent = [], connected = False, nonce = 0\<rparr>
            :: (ledger \<times> bool, unit) fs_state_scheme) = (genesis mt_RECEIVER, True) \<and>
   (\<exists>st'. fs_main fork_api mt_RECEIVER
            (\<lparr>chain = (genesis mt_RECEIVER, True), console = [], sent = [], connected = False, nonce = 0\<rparr>
              :: (ledger \<times> bool, unit) fs_state_scheme) = Hang st' \<and>
     map fst (sent st') = [Some 0, Some 1] \<and> fst (chain st') = genesis mt_RECEIVER \<and>
     native (fst (chain st')) TARGET = 0 \<and>
     Log (''Native transfer in block '' @ show_nat 1) \<in> set (console st'))"
proof -
  let ?st = "\<lparr>chain = (genesis mt_RECEIVER, True), console = [], sent = [], connected = False, nonce = 0\<rparr>
              :: (ledger \<times> bool, unit) fs_state_scheme"
  have h: "chain ?st = (genesis mt_RECEIVER, True)" by simp
  obtain st' where r: "fs_main fork_api mt_RECEIVER ?st = Hang st'"
    and f: "map fst (sent st') = map fst (sent ?st) @
              [Some (acct_nonce (genesis mt_RECEIVER) mt_RECEIVER), Some (Suc (acct_nonce (genesis mt_RECEIVER) mt_RECEIVER))]"
      "fst (chain st') = genesis mt_RECEIVER"
      "Log (''Native transfer in block '' @ show_nat (Suc (block_no (genesis mt_RECEIVER)))) \<in> set (console st')"
    using fs_fork_hangs [OF h, of mt_RECEIVER] by blast
  have g: "acct_nonce (genesis mt_RECEIVER) mt_RECEIVER = 0" "block_no (genesis mt_RECEIVER) = 0"
    "native (genesis mt_RECEIVER) TARGET = 0"
    by (simp_all add: genesis_def TARGET_def mt_RECEIVER_def)
  show ?thesis using h r f g by auto
qed

text \<open>
  The \<^verbatim>\<open>lending-pool/\<close> scripts in their order, run by \<^verbatim>\<open>//Alice\<close> from
  genesis: \<^verbatim>\<open>create-assets.ts\<close> creates assets 101 to 104 with their
  metadata; \<^verbatim>\<open>mint-transfer.ts\<close> then skips asset 1, which nothing created,
  and leaves \<^verbatim>\<open>RECEIVER\<close> with the whole \<open>10^6\<close> tokens of each asset it
  mints, e.g. \<open>10^6 \<cdot> 10^9\<close> units of asset 101 where the spec's scenario
  expects \<open>10^4 \<cdot> 10^9\<close>.
\<close>

theorem ca_then_mt_genesis:
  "\<exists>s1 s2. ca_main ledger_api mt_RECEIVER
              (\<lparr>chain = genesis mt_RECEIVER, console = [], sent = [], connected = False\<rparr> :: ledger session) = Ok s1 \<and>
     mt_main ledger_api mt_RECEIVER s1 = Ok s2 \<and>
     list_all (\<lambda>a. asset_owner (chain s1) (ma_id a) = Some mt_RECEIVER \<and>
                   asset_meta (chain s1) (ma_id a) = Some (ma_name a, ma_symbol a, ma_decimals a)) ca_assets \<and>
     asset_owner (chain s2) 1 = None \<and>
     asset_bal (chain s2) 101 mt_RECEIVER = Some (1000000 * 10 ^ 9) \<and>
     asset_bal (chain s2) 102 mt_RECEIVER = Some (1000000 * 10 ^ 18)"
  by (simp add: ca_main_def ca_step_def mt_main_def mt_step_def sign_and_send_def ledger_submit_def
      run_subscription_def on_status_in_block_def Let_def genesis_def fits_u128_def ca_assets_def
      mt_assets_def bal_of_def set_bal_def move_asset_def)

text \<open>
  \<^verbatim>\<open>set-asset-metadata.ts\<close> on a chain where its assets do not exist:
  the first \<^verbatim>\<open>setMetadata\<close> fails with the module error of
  \<^verbatim>\<open>assets.Unknown\<close>, the console shows exactly that decoded
  \<open>section.name\<close>, the rejection ends \<^verbatim>\<open>main()\<close> after one extrinsic, and
  the connection is left open.
\<close>

theorem sma_genesis_unknown_asset:
  "\<exists>s'. sma_main ledger_api mt_RECEIVER
          (\<lparr>chain = genesis mt_RECEIVER, console = [], sent = [], connected = False\<rparr> :: ledger session) =
        Throw (DispatchFailed (merr 50 1)) s' \<and>
     connected s' \<and> LogError ''assets.Unknown'' \<in> set (console s') \<and>
     sent s' = [(None, SetMetadata 101 ''Solana'' ''SOL'' 9)]"
  by (simp add: sma_main_def sma_open_def sma_step_def sign_and_send_def ledger_submit_def
      run_subscription_def on_status_in_block_def Let_def genesis_def sma_assets_def merr_def
      ledger_registry_def ledger_errors_def describe_dispatch_error_def)

text \<open>
  C27. The same fork, on any chain, under the finalized policy of
  \<^verbatim>\<open>create-lending-pool.ts\<close>: the retracted and dropped native transfer is
  never taken as done, the script sends no further extrinsic, never prints
  its success line and leaves the ledger as it was; the await stays pending.
\<close>

theorem clp_fork_stops_at_transfer:
  assumes "chain s = (l, True)"
  shows "\<exists>s'. clp_main fork_api admin s = Hang s' \<and>
     sent s' = sent s @ [(None, TransferKeepAlive clp_TARGET (10 ^ 15))] \<and> fst (chain s') = l \<and>
     (\<exists>ls. console s' = console s @ ls \<and> Log ''\<newline>All lending pools created successfully.'' \<notin> set ls)"
  using assms
  by (simp add: clp_main_def clp_native_transfer_def clp_send_def sign_and_send_def fork_api_def
      fork_submit_def run_subscription_def on_status_finalized_def Let_def fits_u128_def)

theorem clp_fork_stops_at_transfer_witness:
  "chain (\<lparr>chain = (genesis clp_ADMIN, True), console = [], sent = [], connected = False\<rparr>
            :: (ledger \<times> bool) session) = (genesis clp_ADMIN, True) \<and>
   (\<exists>s'. clp_main fork_api clp_ADMIN
          (\<lparr>chain = (genesis clp_ADMIN, True), console = [], sent = [], connected = False\<rparr>
             :: (ledger \<times> bool) session) = Hang s' \<and>
     sent s' = [(None, TransferKeepAlive clp_TARGET (10 ^ 15))] \<and> fst (chain s') = genesis clp_ADMIN \<and>
     Log ''\<newline>All lending pools created successfully.'' \<notin> set (console s'))"
proof -
  let ?s = "\<lparr>chain = (genesis clp_ADMIN, True), console = [], sent = [], connected = False\<rparr>
              :: (ledger \<times> bool) session"
  have h: "chain ?s = (genesis clp_ADMIN, True)" by simp
  show ?thesis
    using h clp_fork_stops_at_transfer [OF h, of clp_ADMIN] by auto
qed

end
