(* ===== verification/Program.thy ===== *)
theory Program
  imports Scenarios
begin

text \<open>
  The five scripts as programs: what happens around \<^verbatim>\<open>main()\<close>. Each script
  prints the endpoint, opens a \<^verbatim>\<open>WsProvider\<close> and awaits
  \<^verbatim>\<open>ApiPromise.create\<close>, derives its signer with
  \<^verbatim>\<open>keyring.addFromUri(ADMIN_SEED)\<close>, runs \<^verbatim>\<open>main()\<close>, and hands a rejection
  to the top-level \<^verbatim>\<open>main().catch(console.error)\<close>. The sr25519 derivation of
  an address from a seed is a parameter (\<open>keyring\<close>); how \<^verbatim>\<open>console.error\<close>
  renders an error object is a parameter (\<open>inspect\<close>); whether the endpoint
  accepts the connection is a parameter. A Node.js process ends when nothing
  keeps its event loop alive: here only the open websocket of the provider does,
  so the process exits exactly when \<^verbatim>\<open>api.disconnect()\<close> has run.
\<close>

section \<open>Definitions\<close>

text \<open>\<^verbatim>\<open>new Keyring({ type: 'sr25519' }).addFromUri(uri).address\<close>.\<close>

type_synonym keyring = "string \<Rightarrow> account"

definition fs_ADMIN_SEED :: string where
  "fs_ADMIN_SEED = ''//Alice''"

definition sma_ADMIN_SEED :: string where
  "sma_ADMIN_SEED = ''//Alice''"

definition ca_ADMIN_SEED :: string where
  "ca_ADMIN_SEED = ''//Alice''"

definition mt_ADMIN_SEED :: string where
  "mt_ADMIN_SEED = ''//Alice''"

text \<open>
  The connection when the endpoint refuses it: the script has printed the
  endpoint; \<^verbatim>\<open>new WsProvider(endpoint)\<close> keeps the socket open and retries, and
  \<^verbatim>\<open>await ApiPromise.create({ provider })\<close>, called without
  \<^verbatim>\<open>throwOnConnect\<close>, waits for \<^verbatim>\<open>isReady\<close> and never resolves.
\<close>

definition ws_unreachable :: "string \<Rightarrow> ('n, 'm) session_scheme \<Rightarrow> ('n, 'm) session_scheme res" where
  "ws_unreachable endpoint s = Hang ((say [Log (''Connecting to node: '' @ endpoint)] s)\<lparr>connected := True\<rparr>)"

text \<open>\<^verbatim>\<open>main().catch(console.error)\<close>: a rejection is printed and the promise
  the catch returns resolves; success and a pending \<^verbatim>\<open>main()\<close> pass through.\<close>

definition main_catch ::
  "(script_error \<Rightarrow> string) \<Rightarrow> ('n, 'm) session_scheme res \<Rightarrow> ('n, 'm) session_scheme res" where
  "main_catch inspect r =
     (case r of
        Ok s \<Rightarrow> Ok s
      | Throw e s \<Rightarrow> Ok (say [LogError (inspect e)] s)
      | Hang s \<Rightarrow> Hang s)"

text \<open>The Node.js process exits once nothing is left on its event loop: the
  provider's socket is the only handle that outlives the awaits. An unhandled
  rejection, which ends the process in Node.js 15 and later, does not occur
  in the model (see \<open>sign_and_send\<close>), so this is exit by an empty loop only.\<close>

definition process_exits :: "('n, 'm) session_scheme res \<Rightarrow> bool" where
  "process_exits r \<longleftrightarrow> \<not> connected (res_state r)"

text \<open>The five programs.\<close>

definition fs_program ::
  "'n node_api \<Rightarrow> keyring \<Rightarrow> (script_error \<Rightarrow> string) \<Rightarrow> bool \<Rightarrow>
   ('n, 'm) fs_state_scheme \<Rightarrow> ('n, 'm) fs_state_scheme res" where
  "fs_program api keyring inspect reachable st =
     main_catch inspect
       (if reachable then fs_main api (keyring fs_ADMIN_SEED) st else ws_unreachable WS_ENDPOINT st)"

definition clp_program ::
  "'n node_api \<Rightarrow> keyring \<Rightarrow> (script_error \<Rightarrow> string) \<Rightarrow> bool \<Rightarrow>
   ('n, 'm) session_scheme \<Rightarrow> ('n, 'm) session_scheme res" where
  "clp_program api keyring inspect reachable s =
     main_catch inspect
       (if reachable then clp_main api (keyring ''//Alice'') s else ws_unreachable clp_WS_ENDPOINT s)"

definition sma_program ::
  "'n node_api \<Rightarrow> keyring \<Rightarrow> (script_error \<Rightarrow> string) \<Rightarrow> bool \<Rightarrow>
   ('n, 'm) session_scheme \<Rightarrow> ('n, 'm) session_scheme res" where
  "sma_program api keyring inspect reachable s =
     main_catch inspect
       (if reachable then sma_main api (keyring sma_ADMIN_SEED) s else ws_unreachable sma_RPC s)"

definition ca_program ::
  "'n node_api \<Rightarrow> keyring \<Rightarrow> (script_error \<Rightarrow> string) \<Rightarrow> bool \<Rightarrow>
   ('n, 'm) session_scheme \<Rightarrow> ('n, 'm) session_scheme res" where
  "ca_program api keyring inspect reachable s =
     main_catch inspect
       (if reachable then ca_main api (keyring ca_ADMIN_SEED) s else ws_unreachable ca_RPC s)"

definition mt_program ::
  "'n node_api \<Rightarrow> keyring \<Rightarrow> (script_error \<Rightarrow> string) \<Rightarrow> bool \<Rightarrow>
   ('n, 'm) session_scheme \<Rightarrow> ('n, 'm) session_scheme res" where
  "mt_program api keyring inspect reachable s =
     main_catch inspect
       (if reachable then mt_main api (keyring mt_ADMIN_SEED) s else ws_unreachable mt_RPC s)"

section \<open>Ends of a run\<close>

text \<open>The shape of a run's end that makes the process exit on success only:
  disconnected after success, still connected after a rejection or while an
  await hangs.\<close>

definition closes_on_success :: "('n, 'm) session_scheme res \<Rightarrow> bool" where
  "closes_on_success r \<longleftrightarrow>
     (case r of Ok s \<Rightarrow> \<not> connected s | Throw e s \<Rightarrow> connected s | Hang s \<Rightarrow> connected s)"

text \<open>What the program does on each end of \<^verbatim>\<open>main()\<close> that the model
  expresses: on success it resolves with the same state and the process exits;
  on a rejection the top-level catch prints the error and the process keeps
  running. A pending \<^verbatim>\<open>main()\<close> is not constrained.\<close>

definition exit_behaviour ::
  "(script_error \<Rightarrow> string) \<Rightarrow> ('n, 'm) session_scheme res \<Rightarrow> ('n, 'm) session_scheme res \<Rightarrow> bool" where
  "exit_behaviour inspect m p \<longleftrightarrow>
     (case m of
        Ok s \<Rightarrow> p = Ok s \<and> process_exits p
      | Throw e s \<Rightarrow> p = Ok (say [LogError (inspect e)] s) \<and> \<not> process_exits p
      | Hang s \<Rightarrow> True)"

section \<open>Lemmas\<close>

lemma closes_on_success_simps [simp]:
  "closes_on_success (Ok s) \<longleftrightarrow> \<not> connected s"
  "closes_on_success (Throw e s) \<longleftrightarrow> connected s"
  "closes_on_success (Hang s) \<longleftrightarrow> connected s"
  by (simp_all add: closes_on_success_def)

lemma closes_on_success_bind:
  assumes "res_all connected m" and "\<And>s. m = Ok s \<Longrightarrow> connected s \<Longrightarrow> closes_on_success (f s)"
  shows "closes_on_success (res_bind m f)"
  using assms by (cases m) simp_all

lemma connected_sign_and_send:
  "connected s \<Longrightarrow> res_all connected (sign_and_send api pol signer n what okmsg c s)"
  by (simp add: res_all_def)

lemma connected_fs_send:
  "connected st \<Longrightarrow> res_all connected (fs_send api admin what okmsg c st)"
  by (simp add: res_all_def fs_send_connected)

lemmas connected_kept = connected_sign_and_send connected_fs_send

lemma fs_main_closes: "closes_on_success (fs_main api admin st)"
  unfolding fs_main_def fs_native_transfer_def fs_finish_def
  by (auto intro!: closes_on_success_bind fs_loop_res_all connected_kept simp: fs_connect_def Let_def)

lemma clp_main_closes: "closes_on_success (clp_main api alice s)"
  unfolding clp_main_def clp_native_transfer_def clp_send_def clp_finish_def Let_def
  by (auto intro!: closes_on_success_bind clp_loop_res_all connected_kept)

lemma sma_main_closes: "closes_on_success (sma_main api admin s)"
  unfolding sma_main_def sma_open_def Let_def
  by (auto intro!: closes_on_success_bind sma_loop_res_all connected_kept)

lemma ca_main_closes: "closes_on_success (ca_main api admin s)"
  unfolding ca_main_def Let_def
  by (auto intro!: closes_on_success_bind ca_loop_res_all connected_kept)

lemma mt_main_closes: "closes_on_success (mt_main api admin s)"
  unfolding mt_main_def Let_def
  by (auto intro!: closes_on_success_bind mt_loop_res_all connected_kept)

lemma exit_behaviour_catch:
  "closes_on_success m \<Longrightarrow> exit_behaviour inspect m (main_catch inspect m)"
  by (cases m) (simp_all add: exit_behaviour_def main_catch_def process_exits_def)

lemma exits_unreachable: "\<not> process_exits (main_catch inspect (ws_unreachable endpoint s))"
  by (simp add: main_catch_def process_exits_def ws_unreachable_def)

text \<open>
  C21. The spec's end-to-end scenario for the whole of
  \<^verbatim>\<open>full-setup-sudo.ts\<close>: with a keyring that derives \<^verbatim>\<open>//Alice\<close> to
  Alice's address (the \<^verbatim>\<open>ADMIN\<close> of \<^verbatim>\<open>create-lending-pool.ts\<close>), a
  reachable endpoint and a development chain at genesis whose sudo key and
  endowed account is Alice, the program resolves without reaching the top-level
  catch, its process exits, the target holds the \<open>10^15\<close> native units, and for
  every asset of the table the target holds \<open>10^4\<close> whole tokens, the admin
  \<open>980\,000\<close>, the asset carries its metadata and its lending pool holds
  \<open>10^4\<close> tokens and is active.
\<close>

theorem fs_program_genesis:
  assumes "kr ''//Alice'' = clp_ADMIN"
  shows "\<exists>st'. fs_program ledger_api kr inspect True
            \<lparr>chain = genesis clp_ADMIN, console = [], sent = [], connected = False, nonce = 0\<rparr> = Ok st' \<and>
     process_exits (Ok st') \<and> native (chain st') TARGET = 10 ^ 15 \<and>
     list_all (\<lambda>a. asset_owner (chain st') (cfg_id a) = Some clp_ADMIN \<and>
        asset_meta (chain st') (cfg_id a) = Some (cfg_name a, cfg_symbol a, cfg_decimals a) \<and>
        asset_bal (chain st') (cfg_id a) clp_ADMIN = Some (980000 * 10 ^ cfg_decimals a) \<and>
        asset_bal (chain st') (cfg_id a) TARGET = Some (10000 * 10 ^ cfg_decimals a) \<and>
        pools (chain st') (cfg_id a) =
          Some \<lparr>pool_no = cfg_poolId a, reserve = 10000 * 10 ^ cfg_decimals a, active = True\<rparr>) assets"
proof -
  have admin: "clp_ADMIN = mt_RECEIVER" by (simp add: clp_ADMIN_def mt_RECEIVER_def)
  obtain st' where run: "fs_main ledger_api mt_RECEIVER
      \<lparr>chain = genesis mt_RECEIVER, console = [], sent = [], connected = False, nonce = 0\<rparr> = Ok st'"
    and facts: "native (chain st') TARGET = 10 ^ 15 \<and> \<not> connected st' \<and>
     list_all (\<lambda>a. asset_owner (chain st') (cfg_id a) = Some mt_RECEIVER \<and>
        asset_meta (chain st') (cfg_id a) = Some (cfg_name a, cfg_symbol a, cfg_decimals a) \<and>
        asset_bal (chain st') (cfg_id a) mt_RECEIVER = Some (980000 * 10 ^ cfg_decimals a) \<and>
        asset_bal (chain st') (cfg_id a) TARGET = Some (10000 * 10 ^ cfg_decimals a) \<and>
        pools (chain st') (cfg_id a) =
          Some \<lparr>pool_no = cfg_poolId a, reserve = 10000 * 10 ^ cfg_decimals a, active = True\<rparr>) assets"
    using fs_main_genesis by blast
  have "fs_program ledger_api kr inspect True
          \<lparr>chain = genesis clp_ADMIN, console = [], sent = [], connected = False, nonce = 0\<rparr> = Ok st'"
    using run assms by (simp add: fs_program_def main_catch_def fs_ADMIN_SEED_def admin)
  with facts show ?thesis by (auto simp: process_exits_def admin)
qed

theorem fs_program_genesis_witness:
  "(\<lambda>_. clp_ADMIN) ''//Alice'' = clp_ADMIN \<and>
   (\<exists>st'. fs_program ledger_api (\<lambda>_. clp_ADMIN) (\<lambda>_. '''') True
            \<lparr>chain = genesis clp_ADMIN, console = [], sent = [], connected = False, nonce = 0\<rparr> = Ok st' \<and>
     process_exits (Ok st') \<and> native (chain st') TARGET = 10 ^ 15 \<and>
     list_all (\<lambda>a. asset_owner (chain st') (cfg_id a) = Some clp_ADMIN \<and>
        asset_meta (chain st') (cfg_id a) = Some (cfg_name a, cfg_symbol a, cfg_decimals a) \<and>
        asset_bal (chain st') (cfg_id a) clp_ADMIN = Some (980000 * 10 ^ cfg_decimals a) \<and>
        asset_bal (chain st') (cfg_id a) TARGET = Some (10000 * 10 ^ cfg_decimals a) \<and>
        pools (chain st') (cfg_id a) =
          Some \<lparr>pool_no = cfg_poolId a, reserve = 10000 * 10 ^ cfg_decimals a, active = True\<rparr>) assets)"
  using fs_program_genesis [of "\<lambda>_. clp_ADMIN" "\<lambda>_. ''''"] by simp

text \<open>
  C25. None of the five scripts ends its process after a failure of
  \<^verbatim>\<open>main()\<close>. When \<^verbatim>\<open>main()\<close> resolves, the program resolves with the same
  state and the process exits. When it rejects with \<open>e\<close>,
  \<^verbatim>\<open>main().catch(console.error)\<close> prints \<open>e\<close> as the last line, the program
  resolves, and the process keeps running, because \<^verbatim>\<open>api.disconnect()\<close> was
  never called and the open websocket keeps it alive. With an unreachable
  endpoint, \<^verbatim>\<open>ApiPromise.create\<close> never resolves and the process never
  exits. A pending \<^verbatim>\<open>main()\<close> is left out (\<open>exit_behaviour\<close> says nothing
  of it): an RPC-level refusal of a \<^verbatim>\<open>signAndSend\<close>, which the model does not
  express, would end the process while \<^verbatim>\<open>main()\<close> is pending.
\<close>

theorem scripts_exit_only_on_success:
  "exit_behaviour inspect (fs_main api (kr fs_ADMIN_SEED) st) (fs_program api kr inspect True st) \<and>
   exit_behaviour inspect (clp_main api (kr ''//Alice'') s) (clp_program api kr inspect True s) \<and>
   exit_behaviour inspect (sma_main api (kr sma_ADMIN_SEED) s) (sma_program api kr inspect True s) \<and>
   exit_behaviour inspect (ca_main api (kr ca_ADMIN_SEED) s) (ca_program api kr inspect True s) \<and>
   exit_behaviour inspect (mt_main api (kr mt_ADMIN_SEED) s) (mt_program api kr inspect True s) \<and>
   \<not> process_exits (fs_program api kr inspect False st) \<and> \<not> process_exits (clp_program api kr inspect False s) \<and>
   \<not> process_exits (sma_program api kr inspect False s) \<and> \<not> process_exits (ca_program api kr inspect False s) \<and>
   \<not> process_exits (mt_program api kr inspect False s)"
  unfolding fs_program_def clp_program_def sma_program_def ca_program_def mt_program_def
  by (simp add: exit_behaviour_catch exits_unreachable
      fs_main_closes clp_main_closes sma_main_closes ca_main_closes mt_main_closes)

end
