(* ===== verification/Await.thy ===== *)
theory Await
  imports Submitter "HOL-Library.Stream"
begin

text \<open>
  The await of one submission over the whole, unbounded sequence of status
  updates a node may send: \<^verbatim>\<open>await new Promise((resolve, reject) =>
  tx.signAndSend(signer, opts, cb))\<close> resumes the script as soon as the callback
  has settled the promise, and never if it does not. The sequence is a
  \<open>sub_result stream\<close> and the await a \<open>partial_function (option)\<close>, whose
  \<open>None\<close> is the await that never returns. The theorems say exactly when it
  returns, and that it then agrees with the finite-list model
  \<open>run_subscription\<close> on the prefix up to the settling update, the model the
  scripts' theories use.
\<close>

section \<open>Definitions\<close>

text \<open>The updates that settle the promise under each policy.\<close>

definition settles_by :: "confirm_policy \<Rightarrow> sub_result \<Rightarrow> bool" where
  "settles_by pol = (case pol of AtInBlock \<Rightarrow> settles_in_block | AtFinalized \<Rightarrow> settles_finalized)"

text \<open>
  The promise is checked before each update is delivered; the state returned is
  the promise and the console when the script resumes.
\<close>

partial_function (option) await_updates ::
  "(sub_result \<Rightarrow> sub_state \<Rightarrow> sub_state) \<Rightarrow> sub_result stream \<Rightarrow> sub_state \<Rightarrow> sub_state option" where
  "await_updates cb us st =
     (if fst st \<noteq> Pending then Some st else await_updates cb (stl us) (cb (shd us) st))"

section \<open>Lemmas\<close>

lemma outcome_of_Some_settled: "outcome_of (Some r) \<noteq> Pending"
  by (simp add: outcome_of_def split: option.splits)

text \<open>One update delivered to a pending promise: it settles it exactly when it
  is a settling update.\<close>

lemma on_status_Pending_iff:
  "fst (on_status pol reg what okmsg r (Pending, out)) = Pending \<longleftrightarrow> \<not> settles_by pol r"
  by (simp add: on_status_fst_Pending settles_by_def outcome_of_Some_settled)

lemma on_status_Pending_state:
  assumes "\<not> settles_by pol r"
  shows "on_status pol reg what okmsg r (Pending, out) =
           (Pending, snd (on_status pol reg what okmsg r (Pending, out)))"
  using assms on_status_Pending_iff [of pol reg what okmsg r out]
  by (metis prod.collapse)

lemma await_updates_settled [simp]:
  "p \<noteq> Pending \<Longrightarrow> await_updates cb us (p, out) = Some (p, out)"
  by (simp add: await_updates.simps)

lemma await_updates_Pending:
  "await_updates cb us (Pending, out) = await_updates cb (stl us) (cb (shd us) (Pending, out))"
  by (simp add: await_updates.simps)

text \<open>
  The first settling update is at index \<open>k\<close>: the await returns the state the
  callback reaches on the first \<open>k + 1\<close> updates.
\<close>

lemma await_updates_first:
  assumes "settles_by pol (us !! k)" and "\<forall>j<k. \<not> settles_by pol (us !! j)"
  shows "await_updates (on_status pol reg what okmsg) us (Pending, out) =
           Some (fold (on_status pol reg what okmsg) (stake (Suc k) us) (Pending, out))"
  using assms
proof (induction k arbitrary: us out)
  case 0
  let ?s = "on_status pol reg what okmsg (shd us) (Pending, out)"
  have "fst ?s \<noteq> Pending" using "0.prems"(1) by (simp add: on_status_Pending_iff)
  then have "await_updates (on_status pol reg what okmsg) (stl us) ?s = Some ?s"
    by (metis await_updates_settled prod.collapse)
  then show ?case by (simp add: await_updates_Pending)
next
  case (Suc k)
  let ?out = "snd (on_status pol reg what okmsg (shd us) (Pending, out))"
  have ns: "\<not> settles_by pol (shd us)" using Suc.prems(2) by (metis snth.simps(1) zero_less_Suc)
  have "await_updates (on_status pol reg what okmsg) (stl us) (Pending, ?out) =
          Some (fold (on_status pol reg what okmsg) (stake (Suc k) (stl us)) (Pending, ?out))"
    using Suc.prems by (intro Suc.IH) auto
  then show ?case
    using on_status_Pending_state [OF ns] by (simp add: await_updates_Pending)
qed

text \<open>An await that returns has seen a settling update (partial correctness of
  the fixpoint, by its induction rule).\<close>

lemma await_updates_returns:
  assumes "await_updates (on_status pol reg what okmsg) us st = Some r" and "fst st = Pending"
  shows "\<exists>k. settles_by pol (us !! k)"
proof -
  have "on_status pol reg what okmsg = on_status pol reg what okmsg \<longrightarrow> fst st = Pending \<longrightarrow>
          (\<exists>k. settles_by pol (us !! k))"
  proof (rule await_updates.raw_induct
      [where P = "\<lambda>cb us st r. cb = on_status pol reg what okmsg \<longrightarrow> fst st = Pending \<longrightarrow>
                   (\<exists>k. settles_by pol (us !! k))", OF _ assms(1)])
    fix f cb us st r
    assume IH: "\<And>cb us st r. f cb us st = Some r \<Longrightarrow> cb = on_status pol reg what okmsg \<longrightarrow>
                  fst st = Pending \<longrightarrow> (\<exists>k. settles_by pol (us !! k))"
      and eq: "(if fst st \<noteq> Pending then Some st else f cb (stl us) (cb (shd us) st)) = Some r"
    show "cb = on_status pol reg what okmsg \<longrightarrow> fst st = Pending \<longrightarrow> (\<exists>k. settles_by pol (us !! k))"
    proof (intro impI)
      assume cb: "cb = on_status pol reg what okmsg" and p: "fst st = Pending"
      show "\<exists>k. settles_by pol (us !! k)"
      proof (cases "settles_by pol (shd us)")
        case True
        then show ?thesis by (metis snth.simps(1))
      next
        case False
        have st: "st = (Pending, snd st)" using p by (metis prod.collapse)
        have "fst (cb (shd us) st) = Pending"
          using False on_status_Pending_iff cb st by metis
        moreover have "f cb (stl us) (cb (shd us) st) = Some r" using eq p by simp
        ultimately obtain k where "settles_by pol (stl us !! k)" using IH cb by blast
        then show ?thesis by (metis snth.simps(2))
      qed
    qed
  qed
  with assms(2) show ?thesis by blast
qed

section \<open>Properties\<close>

text \<open>
  C28. The await of a submission returns exactly when some status update of
  the (unbounded) sequence settles the promise under the script's policy: an
  error or \<^verbatim>\<open>isInBlock\<close> for the in-block scripts, an error or
  \<^verbatim>\<open>isFinalized\<close> for \<^verbatim>\<open>create-lending-pool.ts\<close>; if none ever does, the
  script waits for ever.
\<close>

theorem await_returns_iff_settles:
  "(await_updates (on_status pol reg what okmsg) us (Pending, out) \<noteq> None) \<longleftrightarrow>
     (\<exists>k. settles_by pol (us !! k))"
proof
  assume "await_updates (on_status pol reg what okmsg) us (Pending, out) \<noteq> None"
  then obtain r where "await_updates (on_status pol reg what okmsg) us (Pending, out) = Some r" by blast
  then show "\<exists>k. settles_by pol (us !! k)" by (rule await_updates_returns) simp
next
  assume "\<exists>k. settles_by pol (us !! k)"
  then obtain k where "settles_by pol (us !! k)" and "\<forall>j<k. \<not> settles_by pol (us !! j)"
    using exists_least_iff [of "\<lambda>k. settles_by pol (us !! k)"] by blast
  then show "await_updates (on_status pol reg what okmsg) us (Pending, out) \<noteq> None"
    by (simp add: await_updates_first)
qed

text \<open>
  When the await returns, the finite model agrees with it: if the first
  settling update is the \<open>k\<close>-th, the await returns the promise and console
  that \<open>run_subscription\<close> computes on the first \<open>k + 1\<close> updates, so the
  scripts' theories lose nothing by handing \<open>sign_and_send\<close> a finite list.
\<close>

theorem await_eq_run_subscription:
  assumes "settles_by pol (us !! k)" and "\<forall>j<k. \<not> settles_by pol (us !! j)"
  shows "await_updates (on_status pol reg what okmsg) us (Pending, out) =
           Some (run_subscription (on_status pol reg what okmsg) (stake (Suc k) us) out)"
  using await_updates_first [OF assms] by (simp add: run_subscription_def)

theorem await_eq_run_subscription_witness:
  "settles_by AtInBlock
     (shift [\<lparr>status = Ready, dispatchError = None\<rparr>] (sconst \<lparr>status = InBlock 3, dispatchError = None\<rparr>) !! 1) \<and>
   list_all (\<lambda>j. \<not> settles_by AtInBlock
     (shift [\<lparr>status = Ready, dispatchError = None\<rparr>] (sconst \<lparr>status = InBlock 3, dispatchError = None\<rparr>) !! j)) [0] \<and>
   await_updates (on_status AtInBlock (\<lambda>_. (''assets'', ''InUse'')) ''Transfer failed: '' (\<lambda>_. ''ok''))
     (shift [\<lparr>status = Ready, dispatchError = None\<rparr>] (sconst \<lparr>status = InBlock 3, dispatchError = None\<rparr>))
     (Pending, []) =
   Some (Resolved, [Log ''ok''])"
proof -
  let ?us = "shift [\<lparr>status = Ready, dispatchError = None\<rparr>] (sconst \<lparr>status = InBlock 3, dispatchError = None\<rparr>)"
  have h1: "settles_by AtInBlock (?us !! 1)"
    by (simp add: settles_by_def settles_in_block_def)
  have h2: "\<forall>j<1. \<not> settles_by AtInBlock (?us !! j)"
    by (simp add: settles_by_def settles_in_block_def)
  show ?thesis
    using await_eq_run_subscription [OF h1 h2, of "\<lambda>_. (''assets'', ''InUse'')" "''Transfer failed: ''"
        "\<lambda>_. ''ok''" "[]"] h1 h2
    by (simp add: run_subscription_def on_status_in_block_def settles_by_def settles_in_block_def
        eval_nat_numeral)
qed

end
