(* ===== verification/Supply.thy ===== *)
theory Supply
  imports Scenarios
begin

text \<open>
  Conservation of asset units in the reference node, and what it gives for
  \<^verbatim>\<open>full-setup-sudo.ts\<close>. The units of an asset are the sum of its account
  balances and the reserve of its lending pool. A dispatch moves units between
  accounts and into a pool but creates them only by \<^verbatim>\<open>assets.mint\<close>; so a run
  of the script changes each asset's units by at most what the mints it sent
  ask for, and never lowers them.
\<close>

section \<open>Definitions\<close>

definition asset_units :: "ledger \<Rightarrow> asset_id \<Rightarrow> balance" where
  "asset_units l i =
     (\<Sum>a\<in>dom (asset_bal l i). bal_of l i a) + (case pools l i of None \<Rightarrow> 0 | Some p \<Rightarrow> reserve p)"

text \<open>The units a call asks to create for asset \<open>j\<close>.\<close>

fun minted :: "call \<Rightarrow> asset_id \<Rightarrow> balance" where
  "minted (Mint i _ v) j = (if i = j then v else 0)"
| "minted _ j = 0"

definition minted_by :: "(nat option \<times> call) list \<Rightarrow> asset_id \<Rightarrow> balance" where
  "minted_by xs j = sum_list (map (\<lambda>(n, c). minted c j) xs)"

text \<open>Every asset has finitely many accounts.\<close>

definition bal_finite :: "ledger \<Rightarrow> bool" where
  "bal_finite l \<longleftrightarrow> (\<forall>i. finite (dom (asset_bal l i)))"

section \<open>Lemmas\<close>

subsection \<open>Sums over the accounts\<close>

lemma bal_sum_remove:
  assumes "finite (dom (asset_bal l i))"
  shows "(\<Sum>a\<in>dom (asset_bal l i). bal_of l i a) =
           bal_of l i who + (\<Sum>a\<in>dom (asset_bal l i) - {who}. bal_of l i a)"
proof (cases "who \<in> dom (asset_bal l i)")
  case True
  with assms show ?thesis by (simp add: sum.remove)
next
  case False
  then have "bal_of l i who = 0" by (simp add: bal_of_def domIff)
  with False show ?thesis by simp
qed

lemma bal_sum_set_bal:
  assumes "finite (dom (asset_bal l i))"
  shows "(\<Sum>a\<in>dom (asset_bal (set_bal i who b l) i). bal_of (set_bal i who b l) i a) + bal_of l i who =
           (\<Sum>a\<in>dom (asset_bal l i). bal_of l i a) + b"
proof -
  have d: "dom (asset_bal (set_bal i who b l) i) = insert who (dom (asset_bal l i))"
    by (simp add: set_bal_def)
  have "(\<Sum>a\<in>dom (asset_bal l i) - {who}. bal_of (set_bal i who b l) i a) =
          (\<Sum>a\<in>dom (asset_bal l i) - {who}. bal_of l i a)"
    by (rule sum.cong) (auto simp: bal_of_def set_bal_def)
  moreover have "bal_of (set_bal i who b l) i who = b"
    by (simp add: bal_of_def set_bal_def)
  ultimately have "(\<Sum>a\<in>dom (asset_bal (set_bal i who b l) i). bal_of (set_bal i who b l) i a) =
          b + (\<Sum>a\<in>dom (asset_bal l i) - {who}. bal_of l i a)"
    unfolding d using assms by (simp add: sum.insert_remove)
  then show ?thesis using bal_sum_remove [OF assms, of who] by simp
qed

lemma bal_of_set_bal:
  "bal_of (set_bal i who b l) j x = (if j = i \<and> x = who then b else bal_of l j x)"
  by (simp add: bal_of_def set_bal_def)

lemma bal_of_pools [simp]: "bal_of (l\<lparr>pools := p\<rparr>) = bal_of l"
  by (simp add: fun_eq_iff bal_of_def)

subsection \<open>Finiteness\<close>

lemma bal_finite_set_bal [simp]: "bal_finite (set_bal i who b l) = bal_finite l"
proof -
  have "\<And>j. finite (dom (asset_bal (set_bal i who b l) j)) = finite (dom (asset_bal l j))"
    by (simp add: set_bal_def)
  then show ?thesis by (simp add: bal_finite_def)
qed

lemma bal_finite_upd [simp]:
  "bal_finite (l\<lparr>native := x1\<rparr>) = bal_finite l"
  "bal_finite (l\<lparr>asset_owner := x2, asset_issuer := x3\<rparr>) = bal_finite l"
  "bal_finite (l\<lparr>asset_meta := x4\<rparr>) = bal_finite l"
  "bal_finite (l\<lparr>pools := x5\<rparr>) = bal_finite l"
  "bal_finite (l\<lparr>sudid := x6\<rparr>) = bal_finite l"
  "bal_finite (l\<lparr>acct_nonce := x7, block_no := x8\<rparr>) = bal_finite l"
  by (simp_all add: bal_finite_def)

lemma genesis_bal_finite: "bal_finite (genesis k)"
  by (simp add: bal_finite_def genesis_def)

subsection \<open>Units\<close>

lemma units_frame:
  "asset_bal l' = asset_bal l \<Longrightarrow> pools l' = pools l \<Longrightarrow> asset_units l' = asset_units l"
  by (rule ext) (simp add: asset_units_def bal_of_def)

lemma units_upd [simp]:
  "asset_units (l\<lparr>native := x1\<rparr>) = asset_units l"
  "asset_units (l\<lparr>asset_owner := x2, asset_issuer := x3\<rparr>) = asset_units l"
  "asset_units (l\<lparr>asset_meta := x4\<rparr>) = asset_units l"
  "asset_units (l\<lparr>sudid := x6\<rparr>) = asset_units l"
  "asset_units (l\<lparr>acct_nonce := x7, block_no := x8\<rparr>) = asset_units l"
  by (simp_all add: fun_eq_iff asset_units_def bal_of_def)

lemma units_set_bal:
  assumes "bal_finite l"
  shows "asset_units (set_bal i who b l) j + (if j = i then bal_of l i who else 0) =
           asset_units l j + (if j = i then b else 0)"
proof (cases "j = i")
  case True
  have "finite (dom (asset_bal l i))" using assms by (simp add: bal_finite_def)
  from bal_sum_set_bal [OF this, of who b] True show ?thesis
    by (simp add: asset_units_def)
next
  case False
  then have "asset_bal (set_bal i who b l) j = asset_bal l j" by (simp add: set_bal_def)
  with False show ?thesis by (simp add: asset_units_def bal_of_def)
qed

lemma units_move_asset:
  assumes "bal_finite l" and "v \<le> bal_of l i src"
  shows "asset_units (move_asset i src dst v l) j = asset_units l j"
proof (cases "src = dst")
  case True
  then show ?thesis using units_set_bal [OF assms(1), of i src "bal_of l i src" j]
    by (simp add: move_asset_def split: if_splits)
next
  case False
  let ?l1 = "set_bal i src (bal_of l i src - v) l"
  have 1: "asset_units ?l1 j + (if j = i then bal_of l i src else 0) =
             asset_units l j + (if j = i then bal_of l i src - v else 0)"
    by (rule units_set_bal [OF assms(1)])
  have 2: "asset_units (set_bal i dst (bal_of l i dst + v) ?l1) j + (if j = i then bal_of ?l1 i dst else 0) =
             asset_units ?l1 j + (if j = i then bal_of l i dst + v else 0)"
    by (rule units_set_bal) (simp add: assms(1))
  have "bal_of ?l1 i dst = bal_of l i dst" using False by (simp add: bal_of_set_bal)
  with 1 2 assms(2) False show ?thesis by (simp add: move_asset_def split: if_splits)
qed

lemma root_dispatch_activate:
  "ledger_dispatch Root c l = Inr l' \<Longrightarrow> \<exists>k. c = ActivateLendingPool k"
  by (cases c) (auto elim: ledger_dispatch.elims)

lemma ledger_dispatch_finite:
  "bal_finite l \<Longrightarrow> ledger_dispatch org c l = Inr l' \<Longrightarrow> bal_finite l'"
  by (induction org c l arbitrary: l' rule: ledger_dispatch.induct)
     (auto simp: move_asset_def split: if_splits option.splits sum.splits)

lemma ledger_dispatch_units:
  "bal_finite l \<Longrightarrow> ledger_dispatch org c l = Inr l' \<Longrightarrow> asset_units l' j = asset_units l j + minted c j"
proof (induction org c l arbitrary: l' rule: ledger_dispatch.induct)
  case (1 who dest v l)
  then show ?case by (auto split: if_splits)
next
  case (2 who i adm minb l)
  then show ?case by (auto split: if_splits)
next
  case (3 who i n sy d l)
  then show ?case by (auto split: if_splits)
next
  case (4 who i ben v l)
  then have l': "l' = set_bal i ben (bal_of l i ben + v) l" by (auto split: if_splits)
  show ?case using units_set_bal [OF "4.prems"(1), of i ben "bal_of l i ben + v" j] by (simp add: l' split: if_splits)
next
  case (5 who i dest v l)
  then have "v \<le> bal_of l i who" and l': "l' = move_asset i who dest v l" by (auto split: if_splits)
  then show ?case using units_move_asset [OF "5.prems"(1)] by simp
next
  case (6 who pid i v l)
  let ?l1 = "set_bal i who (bal_of l i who - v) l"
  from "6.prems"(2) have g: "pools l i = None" "v \<le> bal_of l i who"
      and l': "l' = ?l1\<lparr>pools := (pools l)(i := Some \<lparr>pool_no = pid, reserve = v, active = False\<rparr>)\<rparr>"
    by (auto split: if_splits)
  have "asset_units ?l1 j + (if j = i then bal_of l i who else 0) =
          asset_units l j + (if j = i then bal_of l i who - v else 0)"
    by (rule units_set_bal) (rule "6.prems"(1))
  moreover have "asset_units l' j = asset_units ?l1 j + (if j = i then v else 0)"
    using g(1) unfolding l' by (simp add: asset_units_def bal_of_def set_bal_def)
  ultimately show ?case using g(2) by (simp split: if_splits)
next
  case (7 i l)
  then show ?case by (auto simp: asset_units_def split: option.splits if_splits)
next
  case (8 who c l)
  show ?case
  proof (cases "ledger_dispatch Root c l")
    case (Inl e)
    with "8.prems" show ?thesis by (auto split: if_splits)
  next
    case (Inr l1)
    with "8.prems" have "l' = l1\<lparr>sudid := sudid l1 @ [None]\<rparr>" by (auto split: if_splits)
    moreover have "asset_units l1 j = asset_units l j + minted c j"
      using "8.IH" Inr "8.prems" by (auto split: if_splits)
    moreover obtain k where "c = ActivateLendingPool k" using root_dispatch_activate [OF Inr] by blast
    ultimately show ?thesis by simp
  qed
qed simp_all


text \<open>One submission: included or not, it never lowers an asset's units and
  raises them by at most what the call mints.\<close>

lemma ledger_submit_units:
  assumes "bal_finite l"
  shows "bal_finite (fst (ledger_submit l who n c)) \<and>
         asset_units l j \<le> asset_units (fst (ledger_submit l who n c)) j \<and>
         asset_units (fst (ledger_submit l who n c)) j \<le> asset_units l j + minted c j"
proof (cases "ledger_dispatch (Signed who) c l")
  case (Inl e)
  then show ?thesis using assms by (simp add: ledger_submit_def Let_def)
next
  case (Inr l')
  then show ?thesis
    using assms ledger_dispatch_units [OF assms Inr, of j] ledger_dispatch_finite [OF assms Inr]
    by (simp add: ledger_submit_def Let_def)
qed

subsection \<open>The bound along a run of \<^verbatim>\<open>full-setup-sudo.ts\<close>\<close>

text \<open>The units of asset \<open>j\<close> lie between their initial value \<open>u0\<close> and
  \<open>u0\<close> plus what the mints sent since (from \<open>m0\<close> on) ask for.\<close>

definition units_within :: "asset_id \<Rightarrow> nat \<Rightarrow> nat \<Rightarrow> (ledger, 'm) session_scheme \<Rightarrow> bool" where
  "units_within j u0 m0 s \<longleftrightarrow>
     bal_finite (chain s) \<and> u0 \<le> asset_units (chain s) j \<and>
     asset_units (chain s) j + m0 \<le> u0 + minted_by (sent s) j"

lemma units_within_say [simp]: "units_within j u0 m0 (say ls s) = units_within j u0 m0 s"
  by (simp add: units_within_def)

lemma minted_by_snoc [simp]: "minted_by (xs @ [(n, c)]) j = minted_by xs j + minted c j"
  by (simp add: minted_by_def)

lemma fs_send_units:
  assumes "units_within j u0 m0 st"
  shows "res_all (units_within j u0 m0) (fs_send ledger_api admin what okmsg c st)"
proof (cases "call_encodable c")
  case True
  let ?r = "sign_and_send ledger_api AtInBlock admin (Some (nonce st)) what okmsg c (st\<lparr>nonce := Suc (nonce st)\<rparr>)"
  have "chain (res_state ?r) = fst (ledger_submit (chain st) admin (Some (nonce st)) c)"
    and "sent (res_state ?r) = sent st @ [(Some (nonce st), c)]"
    using True by (simp_all add: chain_sign_and_send sign_and_send_sent)
  with assms ledger_submit_units [of "chain st" admin "Some (nonce st)" c j]
  have "units_within j u0 m0 (res_state ?r)"
    by (auto simp: units_within_def)
  then show ?thesis using True by (simp add: fs_send_def res_all_def)
next
  case False
  with assms show ?thesis by (simp add: fs_send_def)
qed

section \<open>Properties\<close>

text \<open>
  Run against the reference node on any chain whose assets have finitely
  many accounts, \<^verbatim>\<open>full-setup-sudo.ts\<close> never makes units of an asset
  disappear, and creates at most what its \<^verbatim>\<open>assets.mint\<close> extrinsics ask for:
  transfers, pool creations, activations and failed calls only move units.
  This holds on every end of the run, a failed or hanging one included.
\<close>

theorem fs_main_units_bounded:
  assumes "bal_finite (chain st)"
  shows "asset_units (chain st) j \<le> asset_units (chain (res_state (fs_main ledger_api admin st))) j \<and>
         asset_units (chain (res_state (fs_main ledger_api admin st))) j + minted_by (sent st) j \<le>
           asset_units (chain st) j + minted_by (sent (res_state (fs_main ledger_api admin st))) j"
proof -
  have "res_all (units_within j (asset_units (chain st) j) (minted_by (sent st) j)) (fs_main ledger_api admin st)"
    by (rule fs_main_res_all) (use assms in \<open>auto intro: fs_send_units simp: units_within_def fs_connect_def Let_def\<close>)
  then show ?thesis by (simp add: res_all_def units_within_def)
qed

theorem fs_main_units_bounded_witness:
  "bal_finite (chain (\<lparr>chain = genesis ''alice'', console = [], sent = [], connected = False, nonce = 0\<rparr>
                        :: (ledger, unit) fs_state_scheme)) \<and>
   asset_units (genesis ''alice'') 1 \<le>
     asset_units (chain (res_state (fs_main ledger_api ''alice''
       \<lparr>chain = genesis ''alice'', console = [], sent = [], connected = False, nonce = 0\<rparr>))) 1 \<and>
   asset_units (chain (res_state (fs_main ledger_api ''alice''
       \<lparr>chain = genesis ''alice'', console = [], sent = [], connected = False, nonce = 0\<rparr>))) 1 + 0 \<le>
     asset_units (genesis ''alice'') 1 + minted_by (sent (res_state (fs_main ledger_api ''alice''
       \<lparr>chain = genesis ''alice'', console = [], sent = [], connected = False, nonce = 0\<rparr>))) 1"
proof -
  let ?st = "\<lparr>chain = genesis ''alice'', console = [], sent = [], connected = False, nonce = 0\<rparr>
               :: (ledger, unit) fs_state_scheme"
  have h: "bal_finite (chain ?st)" by (simp add: genesis_bal_finite)
  show ?thesis using h fs_main_units_bounded [OF h, of 1 "''alice''"] by (simp add: minted_by_def)
qed

end
