(* ===== verification/Spec2Isabelle.thy ===== *)
theory Spec2Isabelle
  imports Program Await Supply
begin

text \<open>
  \<^bold>\<open>A verification model of the Kylix-Script operator scripts.\<close>

  \<^bold>\<open>The program.\<close> Five TypeScript scripts under \<^verbatim>\<open>src/\<close> bootstrap a
  Substrate test chain through polkadot.js: \<^verbatim>\<open>full-setup-sudo.ts\<close> (native
  transfer, then per asset: create and set metadata if absent, mint, transfer,
  create a lending pool, activate it through sudo), \<^verbatim>\<open>create-lending-pool.ts\<close>
  (native transfer and one pool per asset, waiting for finality),
  \<^verbatim>\<open>set-asset-metadata.ts\<close>, \<^verbatim>\<open>lending-pool/create-assets.ts\<close> and
  \<^verbatim>\<open>lending-pool/mint-transfer.ts\<close>. Every script repeats one pattern:
  \<^verbatim>\<open>await new Promise((resolve, reject) => tx.signAndSend(signer, opts, cb))\<close>,
  where the callback \<^verbatim>\<open>cb\<close> settles the promise from the status updates of
  the extrinsic. The scripts share no state with each other; within a script the
  state is the chain (reached only through the api), the console, and in
  \<^verbatim>\<open>full-setup-sudo.ts\<close> a local nonce counter.

  \<^bold>\<open>The theories.\<close>
  \<^item> \<open>Prelude\<close>: names of the model's types (addresses as strings, ids,
    balances as \<open>nat\<close> for bn.js numbers, \<open>u128\<close> = \<open>128 word\<close>), console
    entries, the \<open>u128\<close> range check, and generic fold and power lemmas.
  \<^item> \<open>Units\<close>: \<^verbatim>\<open>toChainUnits\<close> (\<^verbatim>\<open>full-setup-sudo.ts\<close> 28--30), its copy
    \<open>mt_toChainUnits\<close> (\<^verbatim>\<open>mint-transfer.ts\<close> 19--21), and the inline
    pool amount of \<^verbatim>\<open>create-lending-pool.ts\<close> 59, with the bn.js assertion
    \<^verbatim>\<open>new BN(n)\<close> throws for \<open>n \<ge> 2^53\<close> as an error value. Lemmas: exactness
    (C7), the error path (C11), the 128-bit bound for up to 32 decimals (C10).
  \<^item> \<open>Submitter\<close>: the callback bodies. \<open>on_status_in_block\<close> is the
    \<^verbatim>\<open>if (dispatchError) ... else if (status.isInBlock) ...\<close> of four scripts,
    \<open>on_status_finalized\<close> the three \<^verbatim>\<open>if\<close>s of \<^verbatim>\<open>create-lending-pool.ts\<close>;
    a JavaScript promise is \<open>Pending | Resolved | Rejected e\<close> and settles once.
    \<open>run_subscription\<close> folds the callback over the list of updates. The abstract
    contract \<open>expected_outcome\<close> says the first update that carries an error or
    the awaited status decides; C1 and C2 prove that each callback refines it
    (in particular a dropped or invalid transaction leaves the await pending for
    ever), C3 that a promise settles at most once, C8 that a module error is
    surfaced raw and printed decoded.
  \<^item> \<open>Script\<close>: what the scripts share. \<open>call\<close> is the datatype of the
    \<^verbatim>\<open>api.tx.*\<close> calls and \<open>call_encodable\<close> the range checks polkadot.js
    applies when it builds one (amounts, \<^verbatim>\<open>Compact<u128>\<close> or \<^verbatim>\<open>u128\<close>, below
    \<open>2^128\<close>; decimals a \<^verbatim>\<open>u8\<close>); \<open>node_api\<close> is the interface the scripts use
    from \<^verbatim>\<open>ApiPromise\<close> (submit, the storage queries, the next index), over an
    arbitrary node state \<open>'n\<close>, so every result holds for any chain behaviour;
    \<open>session\<close> is the state a run threads (node, console, extrinsics sent,
    connection); a step ends \<open>Ok\<close>, \<open>Throw\<close> (rejected promise, bn.js
    assertion, codec refusal) or \<open>Hang\<close> (a promise that never settles);
    \<open>sign_and_send\<close> is one awaited submission (C12: it returns normally only
    on the confirmed status without an error). \<open>sends\<close> relates a run to the
    calls it sends.
  \<^item> \<open>FullSetup\<close>: \<^verbatim>\<open>full-setup-sudo.ts\<close> function by function: the table
    \<open>assets\<close>, the nonce counter in the state extension \<open>fs_state\<close>,
    \<open>fs_send\<close> (\<^verbatim>\<open>{ nonce: nonce++ }\<close>), \<open>fs_sleep\<close> (the \<^verbatim>\<open>sleep\<close> of line 26,
    a step that always resumes and changes no state, awaited at the seven
    places the script does), \<open>fs_create_if_absent\<close> (lines
    79--135), \<open>fs_fund_and_pool\<close> (137--239), \<open>fs_process_asset\<close>, the
    \<^verbatim>\<open>catch\<close> block \<open>fs_catch\<close>, the loop \<open>fs_loop\<close> with its \<^verbatim>\<open>break\<close>,
    \<open>fs_connect\<close>, \<open>fs_native_transfer\<close>, \<open>fs_finish\<close> and \<open>fs_main\<close>.
    Lemmas: consecutive nonces for every run (C4), the per-asset call sequence
    and its prefix on failure (C5), the loop's break followed by the
    unconditional success banner (C6), the abort of \<^verbatim>\<open>main()\<close> on a failed
    native transfer (C9). \<open>fs_main_res_all\<close> says that a property each
    \<open>fs_send\<close> keeps and printing does not touch holds after \<^verbatim>\<open>main()\<close>.
  \<^item> \<open>CreateLendingPool\<close>: \<^verbatim>\<open>create-lending-pool.ts\<close>: its table
    \<open>clp_assets\<close>, \<open>clp_send\<close> (finalized policy, no nonce), the native transfer,
    \<open>clp_create_pool\<close> with the inline amount, the loop \<open>clp_loop\<close> with
    \<^verbatim>\<open>catch\<close>/\<^verbatim>\<open>break\<close>, \<open>clp_finish\<close>, \<open>clp_main\<close>. Lemmas: the calls
    sent are a prefix of the transfer and one pool per asset (C13); a failure
    breaks the loop and the success line is still printed (C14).
  \<^item> \<open>SetMetadata\<close>: \<^verbatim>\<open>set-asset-metadata.ts\<close> (\<open>sma_step\<close>, \<open>sma_loop\<close>,
    \<open>sma_open\<close>, \<open>sma_main\<close>): the calls sent (C15) and, with no \<^verbatim>\<open>try\<close> in
    the loop, a rejected \<^verbatim>\<open>setMetadata\<close> rejecting \<^verbatim>\<open>main()\<close> before any later
    asset and before \<^verbatim>\<open>api.disconnect()\<close> (C16).
  \<^item> \<open>LendingPoolScripts\<close>: \<^verbatim>\<open>lending-pool/create-assets.ts\<close> (\<open>ca_*\<close>,
    skip with \<^verbatim>\<open>continue\<close>; a run on assets that exist sends nothing, C17) and
    \<^verbatim>\<open>lending-pool/mint-transfer.ts\<close> (\<open>mt_*\<close>; its call sequence, C18). Each
    script theory has a generic \<open>*_loop_res_all\<close>: a property every
    submission keeps and printing does not touch holds after the loop.
  \<^item> \<open>RefNode\<close>: not code of the repository but the spec's fake node
    (section 8), a \<open>ledger\<close> record with native balances, assets, metadata,
    asset accounts, lending pools, account nonces, the sudo key and the
    \<^verbatim>\<open>Sudid\<close> results; \<open>ledger_dispatch\<close> is the dispatch of each \<open>call\<close>
    by a signed or root origin with the pallets' errors, \<open>ledger_submit\<close>
    the transaction pool (stale nonce \<^verbatim>\<open>Invalid\<close>, future nonce waits,
    inclusion increments the nonce) and the three status updates of an
    included extrinsic, \<open>ledger_api\<close> the \<open>node_api\<close> it implements,
    \<open>genesis\<close> a development chain, \<open>fork_api\<close> the same node with one
    fork pending (the next extrinsic is in a block that is retracted, then
    dropped). The node is a state machine: \<open>ledger_step\<close> is one submission,
    and \<open>ledger_wf\<close> (owner and issuer together; no pool or account for an
    asset that does not exist) holds at genesis and is kept by every
    dispatch and every step (rule induction, \<open>ledger_steps_wf\<close>).
  \<^item> \<open>Scenarios\<close>: the scripts composed with \<open>ledger_api\<close>. \<open>settled P r\<close>
    says a step did not hang and \<open>P\<close> holds after it. Lemmas: the nonce
    counter of \<^verbatim>\<open>full-setup-sudo.ts\<close> stays equal to the chain's nonce, so
    no await hangs (C19), nor in the other scripts (C20); the chain a run of
    \<^verbatim>\<open>full-setup-sudo.ts\<close> leaves is reached by node steps and stays
    well-formed (\<open>fs_main_reached\<close>, \<open>fs_main_ledger_wf\<close>); the per-asset
    effect \<open>asset_setup_effect\<close> (an abstract description of what one asset's
    setup does to the ledger) is refined by \<open>fs_process_asset\<close> on a fresh
    asset and by \<open>fs_loop\<close> on a table of fresh assets, which gives the spec's
    end-to-end run from genesis (\<open>fs_main_genesis\<close>, used by C21 in
    \<open>Program\<close>); \<^verbatim>\<open>sudo.sudo\<close> hides a failed activation (C22);
    \<^verbatim>\<open>mint-transfer.ts\<close> transfers to its own signer (C23); a second run mints
    again and breaks at the existing pool (C24); on any chain, a retracted block
    makes \<^verbatim>\<open>full-setup-sudo.ts\<close> hang on its next nonce (C26), while
    \<^verbatim>\<open>create-lending-pool.ts\<close>, which waits for finality, stops at the dropped
    transfer (C27). A few runs from genesis are kept as examples
    (\<open>clp_native_transfer_genesis\<close>, \<open>ca_then_mt_genesis\<close>,
    \<open>sma_genesis_unknown_asset\<close>).
  \<^item> \<open>Await\<close>: the await of one submission over the unbounded stream of
    status updates (\<open>sub_result stream\<close>), \<open>await_updates\<close>, a
    \<open>partial_function (option)\<close> whose \<open>None\<close> is an await that never
    returns; \<open>settles_by\<close> names the settling updates of each policy. It
    returns exactly when some update settles (C28, by the fixpoint's induction
    rule one way and induction on the index of the first settling update the
    other), and then equals \<open>run_subscription\<close> on the prefix up to that
    update (\<open>await_eq_run_subscription\<close>), which justifies the finite lists of
    the other theories.
  \<^item> \<open>Supply\<close>: the units of an asset in the reference node
    (\<open>asset_units\<close>: account balances plus pool reserve, over finitely many
    accounts, \<open>bal_finite\<close>). Every dispatch keeps them except
    \<^verbatim>\<open>assets.mint\<close>, which adds exactly its amount (\<open>ledger_dispatch_units\<close>,
    by computation induction on \<open>ledger_dispatch\<close>), a fact about the
    reference node that \<open>fs_main_units_bounded\<close> lifts to runs of
    \<^verbatim>\<open>full-setup-sudo.ts\<close>.
  \<^item> \<open>Program\<close>: each script as the Node.js program around \<^verbatim>\<open>main()\<close>:
    \<open>fs_program\<close>, \<open>clp_program\<close>, \<open>sma_program\<close>, \<open>ca_program\<close>,
    \<open>mt_program\<close> derive the signer with \<^verbatim>\<open>keyring.addFromUri\<close> from the
    script's \<^verbatim>\<open>ADMIN_SEED\<close> (the sr25519 derivation is a parameter
    \<open>keyring\<close>), model an endpoint that refuses the connection
    (\<open>ws_unreachable\<close>: \<^verbatim>\<open>ApiPromise.create\<close> never resolves while the
    provider retries), and end with \<open>main_catch\<close>, the top-level
    \<^verbatim>\<open>main().catch(console.error)\<close> (how \<^verbatim>\<open>console.error\<close> renders the
    error object is a parameter \<open>inspect\<close>). \<open>process_exits\<close> is Node's
    rule that the process ends when no handle is left, here the provider's
    socket. Lemmas: each \<^verbatim>\<open>main()\<close> is disconnected after success and
    connected after a rejection or a hang (\<open>closes_on_success\<close>, from the
    loops' generic \<open>*_loop_res_all\<close> lemmas); the spec's end-to-end run of
    \<^verbatim>\<open>full-setup-sudo.ts\<close> as a program, whose process exits (C21); and for
    every script, the process exits after a resolved \<^verbatim>\<open>main()\<close> and keeps
    running after a rejected one or with an unreachable endpoint (C25).

  \<^bold>\<open>Components at a glance.\<close> The scripts' models are parametric in the node,
  so C1--C18, C25 and C28 hold for every chain behaviour; C19--C24, C26 and
  C27 fix the node to the reference ledger (C26 and C27 to any chain with one
  pending fork) and state what the scripts then do to the chain. The console
  is a list of entries (\<open>Log\<close>, \<open>LogError\<close> for
  \<^verbatim>\<open>console.error\<close>/\<^verbatim>\<open>console.warn\<close>, \<open>LogValue\<close> for a printed query
  result); the extrinsics sent are a list of nonce and call.

  \<^bold>\<open>Bounds and loops.\<close> No fuel is needed: the only loops are \<^verbatim>\<open>for ... of\<close>
  over fixed tables, modelled by structural recursion, and the scripts'
  theories fold the callback over a finite list of updates; a submission that
  is never settled is the result \<open>Hang\<close>, not divergence of the model. The
  unbounded wait itself is \<open>await_updates\<close> in \<open>Await\<close>, where not
  returning is the value \<open>None\<close> (C28). Balances are unbounded (\<open>nat\<close>, as
  bn.js); the 128-bit limit is the check \<open>fits_u128\<close>, which the amounts the
  scripts compute meet for up to 32 decimals (C10).

  \<^bold>\<open>Not modelled.\<close>
  \<^item> The promise that \<^verbatim>\<open>tx.signAndSend(...)\<close> itself returns: every script
    drops it, so when the node refuses the submission at the RPC level (for
    example \<^verbatim>\<open>1010: Invalid Transaction\<close> for a stale nonce or unpayable fees)
    the rejection is unhandled, and Node.js 15 or later ends the process while
    \<^verbatim>\<open>main()\<close> is still pending. \<open>submit\<close> only returns status updates, so this
    path is not expressed; \<open>RefNode\<close> answers a stale nonce with an
    \<^verbatim>\<open>Invalid\<close> update instead, which the scripts see as a hang. C25 therefore
    says nothing about a pending \<^verbatim>\<open>main()\<close>.
  \<^item> Failing queries: \<^verbatim>\<open>api.rpc.system.chain()\<close>,
    \<^verbatim>\<open>accountNextIndex\<close> and the storage queries (e.g. lines 40, 45, 80 and 238
    of \<^verbatim>\<open>full-setup-sudo.ts\<close>) always answer in the model; their rejection
    would reject \<^verbatim>\<open>main()\<close> or, inside the loop, go to its \<^verbatim>\<open>catch\<close>.
  \<^item> The SCALE encoding itself: \<open>call_encodable\<close> keeps only the ranges the
    encoder checks; the asset and pool ids, whose width depends on the runtime,
    are not checked (every id the scripts use is small).
  \<^item> The websocket protocol beneath the connection (only its two outcomes,
    connected or retrying for ever, and its closing are modelled), the sr25519
    key derivation (a parameter: which address \<^verbatim>\<open>//Alice\<close> gives is a
    hypothesis of the theorems that need it), and the text
    \<^verbatim>\<open>console.error\<close> makes of an error object (a parameter; the loops'
    \<^verbatim>\<open>catch\<close> blocks keep only their message).
  \<^item> The time a \<^verbatim>\<open>sleep\<close> takes (the model has no clock; the sleep is a step
    that resumes with the state unchanged), and the interleaving of console
    lines from callbacks that run after a promise has settled (the model prints
    them at the await).
  \<^item> Of the chain, everything beyond \<open>RefNode\<close>: fees, existential deposits
    of assets, forks beyond the single pending one of \<open>fork_api\<close> (a
    retracted block is only a status update the scripts receive), other users'
    transactions, and the lending pallet's real semantics (its source is not
    available; \<open>RefNode\<close> follows the spec).
\<close>

end
